(* ===== verification/Prelude.thy ===== *)
theory Prelude
  imports Main
begin

text \<open>
  Shared vocabulary of the development.  The Python handlers of
  \<^verbatim>\<open>src/pomodoro_timer.py\<close> are sequences of statements that mutate the
  \<^verbatim>\<open>PomodoroTimer\<close> object, call the operating system, and may raise.  They are
  modelled in one small exception--state--writer monad:
  an action of type \<open>('a, 's, 'e, 'x) act\<close> takes the object state \<open>'s\<close> and
  returns either the raised exception (\<open>Inl x\<close>) or its value (\<open>Inr a\<close>),
  together with the state it leaves (mutations made before a raise persist, as in
  Python) and the list of externally visible effects \<open>'e\<close> it performed, in order.
  \<^item> \<open>ret\<close>, \<open>bind_act\<close>, \<open>seq_act\<close>: Python's sequencing of statements;
  \<^item> \<open>get_act\<close>, \<open>modify_act\<close>: reading and assigning attributes of \<open>self\<close>;
  \<^item> \<open>emit_act\<close>: a call into the outside world (sound, message box, file write);
  \<^item> \<open>raise_act\<close>, \<open>catch_act\<close>: \<^verbatim>\<open>raise\<close> and \<^verbatim>\<open>try: ... except Exception: ...\<close>;
  \<^item> \<open>if_act\<close>: an \<^verbatim>\<open>if\<close> whose condition reads the current state.
  The collection \<open>act_simps\<close> evaluates these combinators on concrete and symbolic
  states; component proofs use \<open>simp add: act_simps\<close>.  Three frame predicates
  with structural introduction rules carry the component proofs: \<open>keeps g m\<close> (\<open>m\<close>
  never changes \<open>g\<close> of the state, \<open>keeps_intros\<close>), \<open>emits P m\<close> (every effect of
  \<open>m\<close> satisfies \<open>P\<close>, \<open>emits_intros\<close>) and \<open>preserves P m\<close> (\<open>m\<close> keeps the
  state predicate \<open>P\<close> true, \<open>preserves_intros\<close>).  The same monad models the
  packaging script \<^verbatim>\<open>src/build_exe.py\<close>.
\<close>

named_theorems act_simps "evaluation rules of the action combinators"

type_synonym ('a, 's, 'e, 'x) act = "'s \<Rightarrow> ('x + 'a) \<times> 's \<times> 'e list"

definition ret :: "'a \<Rightarrow> ('a, 's, 'e, 'x) act" where
  "ret a = (\<lambda>s. (Inr a, s, []))"

definition bind_act :: "('a, 's, 'e, 'x) act \<Rightarrow> ('a \<Rightarrow> ('b, 's, 'e, 'x) act) \<Rightarrow> ('b, 's, 'e, 'x) act" where
  "bind_act m f = (\<lambda>s. case m s of
      (Inl x, s', es) \<Rightarrow> (Inl x, s', es)
    | (Inr a, s', es) \<Rightarrow> (case f a s' of (r, s'', es') \<Rightarrow> (r, s'', es @ es')))"

definition seq_act :: "('a, 's, 'e, 'x) act \<Rightarrow> ('b, 's, 'e, 'x) act \<Rightarrow> ('b, 's, 'e, 'x) act" where
  "seq_act m k = bind_act m (\<lambda>_. k)"

definition get_act :: "('s \<Rightarrow> 'a) \<Rightarrow> ('a, 's, 'e, 'x) act" where
  "get_act f = (\<lambda>s. (Inr (f s), s, []))"

definition modify_act :: "('s \<Rightarrow> 's) \<Rightarrow> (unit, 's, 'e, 'x) act" where
  "modify_act f = (\<lambda>s. (Inr (), f s, []))"

definition emit_act :: "'e \<Rightarrow> (unit, 's, 'e, 'x) act" where
  "emit_act e = (\<lambda>s. (Inr (), s, [e]))"

definition raise_act :: "'x \<Rightarrow> ('a, 's, 'e, 'x) act" where
  "raise_act x = (\<lambda>s. (Inl x, s, []))"

definition catch_act :: "('a, 's, 'e, 'x) act \<Rightarrow> ('x \<Rightarrow> ('a, 's, 'e, 'x) act) \<Rightarrow> ('a, 's, 'e, 'x) act" where
  "catch_act m h = (\<lambda>s. case m s of
      (Inl x, s', es) \<Rightarrow> (case h x s' of (r, s'', es') \<Rightarrow> (r, s'', es @ es'))
    | (Inr a, s', es) \<Rightarrow> (Inr a, s', es))"

definition if_act :: "('s \<Rightarrow> bool) \<Rightarrow> ('a, 's, 'e, 'x) act \<Rightarrow> ('a, 's, 'e, 'x) act \<Rightarrow> ('a, 's, 'e, 'x) act" where
  "if_act b m1 m2 = (\<lambda>s. if b s then m1 s else m2 s)"

text \<open>A loop of \<open>n\<close> identical statements (\<^verbatim>\<open>for _ in range(n)\<close>).\<close>

primrec repeat_act :: "nat \<Rightarrow> (unit, 's, 'e, 'x) act \<Rightarrow> (unit, 's, 'e, 'x) act" where
  "repeat_act 0 m = ret ()"
| "repeat_act (Suc n) m = seq_act m (repeat_act n m)"

text \<open>Projections of a result: the outcome, the final state, the effects.\<close>

definition outcome :: "('x + 'a) \<times> 's \<times> 'e list \<Rightarrow> 'x + 'a" where
  "outcome r = fst r"

definition final :: "('x + 'a) \<times> 's \<times> 'e list \<Rightarrow> 's" where
  "final r = fst (snd r)"

definition effects :: "('x + 'a) \<times> 's \<times> 'e list \<Rightarrow> 'e list" where
  "effects r = snd (snd r)"

lemma outcome_final_effects [simp]:
  "outcome (r, s, es) = r" "final (r, s, es) = s" "effects (r, s, es) = es"
  by (simp_all add: outcome_def final_def effects_def)

subsection \<open>Evaluation rules\<close>

lemma ret_apply [act_simps]: "ret a s = (Inr a, s, [])"
  by (simp add: ret_def)

lemma get_apply [act_simps]: "get_act f s = (Inr (f s), s, [])"
  by (simp add: get_act_def)

lemma modify_apply [act_simps]: "modify_act f s = (Inr (), f s, [])"
  by (simp add: modify_act_def)

lemma emit_apply [act_simps]: "emit_act e s = (Inr (), s, [e])"
  by (simp add: emit_act_def)

lemma raise_apply [act_simps]: "raise_act x s = (Inl x, s, [])"
  by (simp add: raise_act_def)

lemma if_apply [act_simps]: "if_act b m1 m2 s = (if b s then m1 s else m2 s)"
  by (simp add: if_act_def)

lemma bind_apply [act_simps]:
  "bind_act m f s = (case m s of
      (Inl x, s', es) \<Rightarrow> (Inl x, s', es)
    | (Inr a, s', es) \<Rightarrow> (case f a s' of (r, s'', es') \<Rightarrow> (r, s'', es @ es')))"
  by (simp add: bind_act_def)

lemma seq_apply [act_simps]:
  "seq_act m k s = (case m s of
      (Inl x, s', es) \<Rightarrow> (Inl x, s', es)
    | (Inr a, s', es) \<Rightarrow> (case k s' of (r, s'', es') \<Rightarrow> (r, s'', es @ es')))"
  by (simp add: seq_act_def bind_act_def)

lemma catch_apply [act_simps]:
  "catch_act m h s = (case m s of
      (Inl x, s', es) \<Rightarrow> (case h x s' of (r, s'', es') \<Rightarrow> (r, s'', es @ es'))
    | (Inr a, s', es) \<Rightarrow> (Inr a, s', es))"
  by (simp add: catch_act_def)

text \<open>The monad laws, used to regroup a handler into its phases.\<close>

lemma bind_ret_left [simp]: "bind_act (ret a) f = f a"
  by (rule ext) (simp add: act_simps split: prod.split)

lemma bind_ret_right [simp]: "bind_act m ret = m"
  by (rule ext) (simp add: act_simps split: prod.split sum.split)

lemma bind_assoc:
  "bind_act (bind_act m f) g = bind_act m (\<lambda>a. bind_act (f a) g)"
  by (rule ext) (simp add: act_simps split: prod.split sum.split)

lemma seq_assoc: "seq_act (seq_act m k) l = seq_act m (seq_act k l)"
  by (simp add: seq_act_def bind_assoc)

lemma seq_ret_left [simp]: "seq_act (ret a) k = k"
  by (simp add: seq_act_def)

lemma seq_ret_right [simp]: "seq_act m (ret ()) = m"
proof -
  have "(\<lambda>_::unit. ret ()) = ret" by (rule ext) simp
  then show ?thesis by (simp add: seq_act_def)
qed

lemma catch_no_raise:
  "outcome (m s) = Inr a \<Longrightarrow> catch_act m h s = m s"
  by (cases "m s") (auto simp: act_simps)

text \<open>An action that cannot raise composes like a state function with output.\<close>

lemma seq_apply_Inr:
  "m s = (Inr a, s', es) \<Longrightarrow> seq_act m k s = (case k s' of (r, s'', es') \<Rightarrow> (r, s'', es @ es'))"
  by (simp add: act_simps)

lemma bind_apply_Inr:
  "m s = (Inr a, s', es) \<Longrightarrow> bind_act m f s = (case f a s' of (r, s'', es') \<Rightarrow> (r, s'', es @ es'))"
  by (simp add: act_simps)

subsection \<open>Frame conditions\<close>

text \<open>
  Most calls into the world read the object but do not assign to it, and most
  statements assign only some attributes.  \<open>keeps g m\<close> says that the action \<open>m\<close>
  never changes the projection \<open>g\<close> of the state, whether it returns or raises;
  \<open>keeps_state\<close> is the case of the whole state.  The rules of
  \<open>keeps_intros\<close> prove such facts by the structure of the action.
\<close>

definition keeps :: "('s \<Rightarrow> 'b) \<Rightarrow> ('a, 's, 'e, 'x) act \<Rightarrow> bool" where
  "keeps g m \<longleftrightarrow> (\<forall>s. g (final (m s)) = g s)"

abbreviation keeps_state :: "('a, 's, 'e, 'x) act \<Rightarrow> bool" where
  "keeps_state \<equiv> keeps id"

text \<open>
  \<open>emits P m\<close>: every effect \<open>m\<close> performs, from any state, satisfies \<open>P\<close> (for
  example: it starts no thread and posts no callback).
\<close>

definition emits :: "('e \<Rightarrow> bool) \<Rightarrow> ('a, 's, 'e, 'x) act \<Rightarrow> bool" where
  "emits P m \<longleftrightarrow> (\<forall>s. list_all P (effects (m s)))"

named_theorems keeps_intros "structural rules for keeps"

named_theorems emits_intros "structural rules for emits"

text \<open>\<open>preserves P m\<close>: \<open>m\<close> leaves a state satisfying \<open>P\<close> in a state satisfying \<open>P\<close>.\<close>

definition preserves :: "('s \<Rightarrow> bool) \<Rightarrow> ('a, 's, 'e, 'x) act \<Rightarrow> bool" where
  "preserves P m \<longleftrightarrow> (\<forall>s. P s \<longrightarrow> P (final (m s)))"

named_theorems preserves_intros "structural rules for preserves"

lemma keeps_ret [keeps_intros]: "keeps g (ret a)"
  by (simp add: keeps_def act_simps)

lemma keeps_get [keeps_intros]: "keeps g (get_act f)"
  by (simp add: keeps_def act_simps)

lemma keeps_emit [keeps_intros]: "keeps g (emit_act e)"
  by (simp add: keeps_def act_simps)

lemma keeps_raise [keeps_intros]: "keeps g (raise_act x)"
  by (simp add: keeps_def act_simps)

lemma keeps_modify [keeps_intros]: "(\<And>s. g (f s) = g s) \<Longrightarrow> keeps g (modify_act f)"
  by (simp add: keeps_def act_simps)

lemma keepsD: "keeps g m \<Longrightarrow> m s = (r, s', es) \<Longrightarrow> g s' = g s"
  by (metis keeps_def outcome_final_effects(2))

lemma keeps_final: "keeps g m \<Longrightarrow> g (final (m s)) = g s"
  by (simp add: keeps_def)

lemma final_seq_modify: "final (seq_act (modify_act f) m s) = final (m (f s))"
  by (cases "m (f s)") (simp add: act_simps)

lemma keeps_stateD: "keeps_state m \<Longrightarrow> \<exists>r es. m s = (r, s, es)"
  by (cases "m s") (auto dest: keepsD)

lemma keeps_state_keeps: "keeps_state m \<Longrightarrow> keeps g m"
  by (auto simp: keeps_def)

lemma keeps_bind [keeps_intros]:
  assumes "keeps g m" and "\<And>a. keeps g (f a)"
  shows "keeps g (bind_act m f)"
  unfolding keeps_def
proof
  fix s
  obtain r s' es where m: "m s = (r, s', es)" by (cases "m s")
  with assms(1) have g1: "g s' = g s" by (rule keepsD)
  show "g (final (bind_act m f s)) = g s"
  proof (cases r)
    case (Inl x)
    with m g1 show ?thesis by (simp add: act_simps)
  next
    case (Inr a)
    obtain r' s'' es' where f: "f a s' = (r', s'', es')" by (cases "f a s'")
    with assms(2) have "g s'' = g s'" by (rule keepsD)
    with m f g1 Inr show ?thesis by (simp add: act_simps)
  qed
qed

lemma keeps_seq [keeps_intros]:
  "keeps g m \<Longrightarrow> keeps g k \<Longrightarrow> keeps g (seq_act m k)"
  unfolding seq_act_def by (rule keeps_bind)

lemma keeps_catch [keeps_intros]:
  assumes "keeps g m" and "\<And>x. keeps g (h x)"
  shows "keeps g (catch_act m h)"
  unfolding keeps_def
proof
  fix s
  obtain r s' es where m: "m s = (r, s', es)" by (cases "m s")
  with assms(1) have g1: "g s' = g s" by (rule keepsD)
  show "g (final (catch_act m h s)) = g s"
  proof (cases r)
    case (Inl x)
    obtain r' s'' es' where h: "h x s' = (r', s'', es')" by (cases "h x s'")
    with assms(2) have "g s'' = g s'" by (rule keepsD)
    with m h g1 Inl show ?thesis by (simp add: act_simps)
  next
    case (Inr a)
    with m g1 show ?thesis by (simp add: act_simps)
  qed
qed

lemma keeps_if [keeps_intros]:
  "keeps g m1 \<Longrightarrow> keeps g m2 \<Longrightarrow> keeps g (if_act b m1 m2)"
  by (simp add: keeps_def act_simps)

lemma keeps_repeat [keeps_intros]:
  "keeps g m \<Longrightarrow> keeps g (repeat_act n m)"
  by (induction n) (simp_all add: keeps_intros)

lemma emits_ret [emits_intros]: "emits P (ret a)"
  by (simp add: emits_def act_simps)

lemma emits_get [emits_intros]: "emits P (get_act f)"
  by (simp add: emits_def act_simps)

lemma emits_modify [emits_intros]: "emits P (modify_act f)"
  by (simp add: emits_def act_simps)

lemma emits_raise [emits_intros]: "emits P (raise_act x)"
  by (simp add: emits_def act_simps)

lemma emits_emit [emits_intros]: "P e \<Longrightarrow> emits P (emit_act e)"
  by (simp add: emits_def act_simps)

lemma emitsD: "emits P m \<Longrightarrow> m s = (r, s', es) \<Longrightarrow> list_all P es"
  by (metis emits_def outcome_final_effects(3))

lemma emits_bind [emits_intros]:
  assumes "emits P m" and "\<And>a. emits P (f a)"
  shows "emits P (bind_act m f)"
  unfolding emits_def
proof
  fix s
  obtain r s' es where m: "m s = (r, s', es)" by (cases "m s")
  with assms(1) have p: "list_all P es" by (rule emitsD)
  show "list_all P (effects (bind_act m f s))"
  proof (cases r)
    case (Inl x)
    with m p show ?thesis by (simp add: act_simps)
  next
    case (Inr a)
    obtain r' s'' es' where f: "f a s' = (r', s'', es')" by (cases "f a s'")
    with assms(2) have "list_all P es'" by (rule emitsD)
    with m f p Inr show ?thesis by (simp add: act_simps)
  qed
qed

lemma emits_seq [emits_intros]:
  "emits P m \<Longrightarrow> emits P k \<Longrightarrow> emits P (seq_act m k)"
  unfolding seq_act_def by (rule emits_bind)

lemma emits_catch [emits_intros]:
  assumes "emits P m" and "\<And>x. emits P (h x)"
  shows "emits P (catch_act m h)"
  unfolding emits_def
proof
  fix s
  obtain r s' es where m: "m s = (r, s', es)" by (cases "m s")
  with assms(1) have p: "list_all P es" by (rule emitsD)
  show "list_all P (effects (catch_act m h s))"
  proof (cases r)
    case (Inl x)
    obtain r' s'' es' where h: "h x s' = (r', s'', es')" by (cases "h x s'")
    with assms(2) have "list_all P es'" by (rule emitsD)
    with m h p Inl show ?thesis by (simp add: act_simps)
  next
    case (Inr a)
    with m p show ?thesis by (simp add: act_simps)
  qed
qed

lemma emits_if [emits_intros]:
  "emits P m1 \<Longrightarrow> emits P m2 \<Longrightarrow> emits P (if_act b m1 m2)"
  by (simp add: emits_def act_simps)

lemma emits_repeat [emits_intros]:
  "emits P m \<Longrightarrow> emits P (repeat_act n m)"
  by (induction n) (simp_all add: emits_intros)

lemma preservesD: "preserves P m \<Longrightarrow> P s \<Longrightarrow> P (final (m s))"
  by (simp add: preserves_def)

lemma preserves_keeps: "keeps g m \<Longrightarrow> preserves (\<lambda>s. Q (g s)) m"
  by (simp add: preserves_def keeps_final)

lemma preserves_keeps_state: "keeps_state m \<Longrightarrow> preserves P m"
  by (simp add: preserves_def keeps_def)

lemma preserves_ret [preserves_intros]: "preserves P (ret a)"
  by (simp add: preserves_def act_simps)

lemma preserves_emit [preserves_intros]: "preserves P (emit_act e)"
  by (simp add: preserves_def act_simps)

lemma preserves_raise [preserves_intros]: "preserves P (raise_act x)"
  by (simp add: preserves_def act_simps)

lemma preserves_modify [preserves_intros]:
  "(\<And>s. P s \<Longrightarrow> P (f s)) \<Longrightarrow> preserves P (modify_act f)"
  by (simp add: preserves_def act_simps)

lemma preserves_bind [preserves_intros]:
  assumes "preserves P m" and "\<And>a. preserves P (f a)"
  shows "preserves P (bind_act m f)"
  unfolding preserves_def
proof (intro allI impI)
  fix s assume p: "P s"
  obtain r s' es where m: "m s = (r, s', es)" by (cases "m s")
  have p1: "P s'" using preservesD [OF assms(1) p] m by simp
  show "P (final (bind_act m f s))"
  proof (cases r)
    case (Inl x)
    with m p1 show ?thesis by (simp add: act_simps)
  next
    case (Inr a)
    obtain r' s'' es' where f: "f a s' = (r', s'', es')" by (cases "f a s'")
    have "P s''" using preservesD [OF assms(2) [of a] p1] f by simp
    with m f Inr show ?thesis by (simp add: act_simps)
  qed
qed

text \<open>A statement that reads the state before acting on what it read.\<close>

lemma preserves_bind_get:
  "(\<And>s. P s \<Longrightarrow> P (final (f (g s) s))) \<Longrightarrow> preserves P (bind_act (get_act g) f)"
  by (simp add: preserves_def act_simps split: prod.split sum.split)

lemma preserves_seq [preserves_intros]:
  "preserves P m \<Longrightarrow> preserves P k \<Longrightarrow> preserves P (seq_act m k)"
  unfolding seq_act_def by (rule preserves_bind)

lemma preserves_catch [preserves_intros]:
  assumes "preserves P m" and "\<And>x. preserves P (h x)"
  shows "preserves P (catch_act m h)"
  unfolding preserves_def
proof (intro allI impI)
  fix s assume p: "P s"
  obtain r s' es where m: "m s = (r, s', es)" by (cases "m s")
  have p1: "P s'" using preservesD [OF assms(1) p] m by simp
  show "P (final (catch_act m h s))"
  proof (cases r)
    case (Inl x)
    obtain r' s'' es' where h: "h x s' = (r', s'', es')" by (cases "h x s'")
    have "P s''" using preservesD [OF assms(2) [of x] p1] h by simp
    with m h Inl show ?thesis by (simp add: act_simps)
  next
    case (Inr a)
    with m p1 show ?thesis by (simp add: act_simps)
  qed
qed

lemma preserves_if [preserves_intros]:
  "preserves P m1 \<Longrightarrow> preserves P m2 \<Longrightarrow> preserves P (if_act b m1 m2)"
  by (simp add: preserves_def act_simps)

subsection \<open>Lists of effects\<close>

lemma count_list_concat:
  "count_list (concat xss) a = sum_list (map (\<lambda>xs. count_list xs a) xss)"
  by (induction xss) auto

end
