(* ===== verification/PyJson.thy ===== *)
theory PyJson
  imports Prelude
begin

text \<open>
  Python values as they come out of \<^verbatim>\<open>json.load\<close>.  The three persisted
  attributes of the timer (\<^verbatim>\<open>wallpaper_path\<close>, \<^verbatim>\<open>ringtone_path\<close>,
  \<^verbatim>\<open>pomodoro_count\<close>) are assigned whatever the configuration file holds
  (\<^verbatim>\<open>config.get(...)\<close> in \<^verbatim>\<open>load_config\<close>), so the model keeps them as JSON
  values: \<open>JNull\<close> is Python's \<^verbatim>\<open>None\<close>, \<open>JObj\<close> a \<^verbatim>\<open>dict\<close> built from
  the object's members in file order.  JSON numbers with a fraction or exponent (Python
  \<^verbatim>\<open>float\<close>) are not modelled.  This theory holds the Python operations the
  program applies to these values: truthiness (\<^verbatim>\<open>if x:\<close>), \<^verbatim>\<open>dict.get\<close>,
  and \<^verbatim>\<open>+= 1\<close> with its \<^verbatim>\<open>TypeError\<close>.
\<close>

datatype json =
    JNull
  | JBool bool
  | JInt int
  | JStr string
  | JArr "json list"
  | JObj "(string \<times> json) list"

text \<open>The Python exceptions that can escape a handler of the program.\<close>

datatype exn = TypeError | AttributeError | ValueError | OSError | RuntimeError

text \<open>
  Truthiness: \<^verbatim>\<open>None\<close>, \<^verbatim>\<open>False\<close>, \<^verbatim>\<open>0\<close>, the empty string, list and
  dict are false.  A dict built from a JSON object with members is never empty.
\<close>

fun py_truthy :: "json \<Rightarrow> bool" where
  "py_truthy JNull = False"
| "py_truthy (JBool b) = b"
| "py_truthy (JInt n) = (n \<noteq> 0)"
| "py_truthy (JStr s) = (s \<noteq> [])"
| "py_truthy (JArr xs) = (xs \<noteq> [])"
| "py_truthy (JObj kvs) = (kvs \<noteq> [])"

text \<open>
  \<^verbatim>\<open>dict.get(k, default)\<close> on the dict that \<^verbatim>\<open>json.load\<close> builds from an
  object: a key that occurs twice keeps its last value.
\<close>

definition dict_get :: "(string \<times> json) list \<Rightarrow> string \<Rightarrow> json \<Rightarrow> json" where
  "dict_get kvs k d = (case map_of (rev kvs) k of Some v \<Rightarrow> v | None \<Rightarrow> d)"

text \<open>
  \<^verbatim>\<open>x += 1\<close>: an \<^verbatim>\<open>int\<close> (or a \<^verbatim>\<open>bool\<close>, a subclass of \<^verbatim>\<open>int\<close>) gives
  an \<^verbatim>\<open>int\<close>; \<^verbatim>\<open>None\<close>, a string, a list or a dict raises \<^verbatim>\<open>TypeError\<close>.
  The result is always an \<^verbatim>\<open>int\<close>, returned as such.
\<close>

fun py_incr :: "json \<Rightarrow> exn + int" where
  "py_incr (JInt n) = Inr (n + 1)"
| "py_incr (JBool b) = Inr (of_bool b + 1)"
| "py_incr _ = Inl TypeError"

text \<open>A count as the program intends it: a non-negative \<^verbatim>\<open>int\<close>.\<close>

fun count_ok :: "json \<Rightarrow> bool" where
  "count_ok (JInt n) = (0 \<le> n)"
| "count_ok _ = False"

lemma dict_get_Nil [simp]: "dict_get [] k d = d"
  by (simp add: dict_get_def)

lemma dict_get_distinct:
  "distinct (map fst kvs) \<Longrightarrow> (k, v) \<in> set kvs \<Longrightarrow> dict_get kvs k d = v"
  by (simp add: dict_get_def map_of_eq_Some_iff distinct_rev rev_map [symmetric])

lemma dict_get_absent:
  assumes "k \<notin> fst ` set kvs"
  shows "dict_get kvs k d = d"
proof -
  from assms have "map_of (rev kvs) k = None"
    by (simp add: map_of_eq_None_iff)
  then show ?thesis by (simp add: dict_get_def)
qed

lemma py_incr_count_ok:
  "count_ok c \<Longrightarrow> \<exists>n. c = JInt n \<and> 0 \<le> n \<and> py_incr c = Inr (n + 1)"
  by (cases c) auto

end
