(* ===== verification/Mode.thy ===== *)
theory Mode
  imports PyJson
begin

text \<open>
  Mode policy.  The source keeps the mode as one of the strings
  \<^verbatim>\<open>"work"\<close>, \<^verbatim>\<open>"short_break"\<close>, \<^verbatim>\<open>"long_break"\<close> (\<^verbatim>\<open>self.mode\<close>,
  line 39) and the three durations in seconds as attributes (\<^verbatim>\<open>work_time\<close>,
  \<^verbatim>\<open>short_break_time\<close>, \<^verbatim>\<open>long_break_time\<close>, lines 43--45) that no method
  ever reassigns.  \<^verbatim>\<open>set_mode\<close> is only called with the three literals, so the
  mode is a datatype with one constructor per string.  The duration of a mode is the
  \<^verbatim>\<open>if/elif/else\<close> chain of \<^verbatim>\<open>set_mode\<close>; the break that follows a work
  period is the test on the incremented count in \<^verbatim>\<open>timer_finished\<close>.
  \<open>next_mode\<close> is the contract of the spec (section 4.1), and the lemmas below show
  that the code's pieces implement it.
\<close>

datatype mode = Work | ShortBreak | LongBreak

record durations =
  work_time :: int
  short_break_time :: int
  long_break_time :: int

definition default_durations :: durations where
  "default_durations = \<lparr>work_time = 25 * 60, short_break_time = 5 * 60, long_break_time = 15 * 60\<rparr>"

text \<open>The duration chain of \<^verbatim>\<open>set_mode\<close> (lines 230--235).\<close>

definition duration_of :: "'a durations_scheme \<Rightarrow> mode \<Rightarrow> int" where
  "duration_of d m =
     (if m = Work then work_time d
      else if m = ShortBreak then short_break_time d
      else long_break_time d)"

text \<open>The break after a work period, from the incremented count (lines 269--272).\<close>

definition break_after :: "int \<Rightarrow> mode" where
  "break_after count = (if count mod 4 = 0 then LongBreak else ShortBreak)"

text \<open>
  The contract of the spec: after a work period the next mode is the long break when
  the count of completed work periods, after incrementing, is a multiple of four, and
  the short break otherwise; after any break it is work.
\<close>

definition next_mode :: "mode \<Rightarrow> int \<Rightarrow> mode" where
  "next_mode m completed =
     (case m of Work \<Rightarrow> (if completed mod 4 = 0 then LongBreak else ShortBreak)
      | ShortBreak \<Rightarrow> Work
      | LongBreak \<Rightarrow> Work)"

text \<open>Durations are positive: the invariant every caller of \<open>duration_of\<close> relies on.\<close>

definition durations_ok :: "'a durations_scheme \<Rightarrow> bool" where
  "durations_ok d \<longleftrightarrow> 0 < work_time d \<and> 0 < short_break_time d \<and> 0 < long_break_time d"

lemma duration_of_simps [simp]:
  "duration_of d Work = work_time d"
  "duration_of d ShortBreak = short_break_time d"
  "duration_of d LongBreak = long_break_time d"
  by (simp_all add: duration_of_def)

lemma default_durations_simps [simp]:
  "work_time default_durations = 1500"
  "short_break_time default_durations = 300"
  "long_break_time default_durations = 900"
  by (simp_all add: default_durations_def)

lemma durations_ok_pos:
  "durations_ok d \<Longrightarrow> 0 < duration_of d m"
  by (cases m) (simp_all add: durations_ok_def)

lemma break_after_is_break: "break_after c \<in> {ShortBreak, LongBreak}"
  by (simp add: break_after_def)

lemma break_after_not_Work [simp]: "break_after c \<noteq> Work"
  by (simp add: break_after_def)

lemma next_mode_Work: "next_mode Work c = break_after c"
  by (simp add: next_mode_def break_after_def)

lemma next_mode_break: "m \<noteq> Work \<Longrightarrow> next_mode m c = Work"
  by (cases m) (simp_all add: next_mode_def)

end
