(* ===== verification/Paths.thy ===== *)
theory Paths
  imports PyJson "HOL-Library.Sublist"
begin

text \<open>
  The two string operations the program applies to file paths and to the text Windows
  hands back, both from the Python library: \<^verbatim>\<open>os.path.basename\<close>
  (\<^verbatim>\<open>ntpath\<close> on Windows), which gives the file name shown in the wallpaper and
  ringtone labels (lines 302, 381, 428), and the \<^verbatim>\<open>value\<close> of the
  \<^verbatim>\<open>ctypes\<close> buffer of \<^verbatim>\<open>MAX_PATH\<close> characters that
  \<^verbatim>\<open>save_original_wallpaper\<close> passes to \<^verbatim>\<open>SystemParametersInfoW\<close>
  (lines 26, 336--345).  \<^verbatim>\<open>ntpath.basename\<close> drops a drive letter
  (\<^verbatim>\<open>splitdrive\<close>), then keeps what follows the last \<^verbatim>\<open>/\<close> or
  \<^verbatim>\<open>\\\<close>.  A UNC drive (\<^verbatim>\<open>\\\\server\\share\<close>) is not split off: it
  ends before a separator, so the last separator gives the same name whenever a
  separator follows the share, as in every path a file dialog returns.  A character of
  the model is one UTF-16 unit of the Windows buffer.  The lemmas show that the base
  name is the last component of the path, a suffix of it without separator.
\<close>

definition MAX_PATH :: nat where
  "MAX_PATH = 260"

definition is_sep :: "char \<Rightarrow> bool" where
  "is_sep c \<longleftrightarrow> c = CHR ''/'' \<or> c = CHR 0x5C"

definition drive_tail :: "string \<Rightarrow> string" where
  "drive_tail p = (if 2 \<le> length p \<and> p ! 1 = CHR '':'' then drop 2 p else p)"

definition basename_str :: "string \<Rightarrow> string" where
  "basename_str p = rev (takeWhile (\<lambda>c. \<not> is_sep c) (rev (drive_tail p)))"

text \<open>\<^verbatim>\<open>os.path.fspath\<close> refuses anything but a string with \<^verbatim>\<open>TypeError\<close>.\<close>

fun py_basename :: "json \<Rightarrow> exn + string" where
  "py_basename (JStr p) = Inr (basename_str p)"
| "py_basename _ = Inl TypeError"

text \<open>
  \<^verbatim>\<open>create_unicode_buffer(MAX_PATH).value\<close> after the call: the characters
  up to the first NUL, within the buffer's \<^verbatim>\<open>MAX_PATH\<close> units.  The argument is
  what the call left in the buffer (all NUL, that is the empty list, if it wrote nothing).
\<close>

definition buffer_value :: "string \<Rightarrow> string" where
  "buffer_value buf = takeWhile (\<lambda>c. c \<noteq> CHR 0x00) (take MAX_PATH buf)"

text \<open>
  The abstract contract of a base name: the part of the path after the drive ends with
  it, it holds no separator, and what precedes it is empty or ends with a separator.
\<close>

definition last_component :: "string \<Rightarrow> string \<Rightarrow> bool" where
  "last_component p b \<longleftrightarrow>
     (\<exists>d. drive_tail p = d @ b \<and> (d = [] \<or> is_sep (last d))) \<and> (\<forall>c \<in> set b. \<not> is_sep c)"

lemma drive_tail_suffix: "suffix (drive_tail p) p"
  by (simp add: drive_tail_def suffix_drop)

lemma basename_split:
  "drive_tail p = rev (dropWhile (\<lambda>c. \<not> is_sep c) (rev (drive_tail p))) @ basename_str p"
  unfolding basename_str_def
  by (metis rev_append rev_rev_ident takeWhile_dropWhile_id)

lemma basename_no_sep: "c \<in> set (basename_str p) \<Longrightarrow> \<not> is_sep c"
  unfolding basename_str_def by (auto dest: set_takeWhileD)

lemma basename_after_sep:
  "rev (dropWhile (\<lambda>c. \<not> is_sep c) xs) = [] \<or> is_sep (last (rev (dropWhile (\<lambda>c. \<not> is_sep c) xs)))"
proof (cases "dropWhile (\<lambda>c. \<not> is_sep c) xs")
  case (Cons y ys)
  then have "is_sep y"
    using hd_dropWhile [of "\<lambda>c. \<not> is_sep c" xs] by simp
  with Cons show ?thesis by simp
qed simp

lemma last_component_basename: "last_component p (basename_str p)"
  unfolding last_component_def
  using basename_split [of p] basename_after_sep [of "rev (drive_tail p)"] basename_no_sep [of _ p]
  by blast

lemma basename_suffix: "suffix (basename_str p) p"
  using basename_split [of p] drive_tail_suffix [of p]
  by (metis suffixI suffix_order.order_trans)

end
