(* ===== verification/App.thy ===== *)
theory App
  imports Mode Paths Complex_Main
begin

text \<open>
  The \<^verbatim>\<open>PomodoroTimer\<close> object (\<^verbatim>\<open>src/pomodoro_timer.py\<close>, lines 28--75)
  and its interface to the outside world.
  \<^item> \<open>app\<close> is the object: the timer attributes set in \<^verbatim>\<open>__init__\<close>, and the
    parts of the Tk widgets that the methods change (button states, the pause button's
    caption, the labels and the progress bar variable).  \<open>ui_created\<close> records
    whether \<^verbatim>\<open>create_ui\<close> has run: before it the widget attributes do not exist.
  \<^item> \<open>effect\<close> is one call into the world the object makes: a beep, a sound file, a
    sleep, a modal message box, a toast, a wallpaper change, a write of the
    configuration file, a \<^verbatim>\<open>print\<close>, a callback posted with \<^verbatim>\<open>root.after\<close>,
    the start of the countdown thread, a traceback of an exception that escaped a Tk
    callback, \<^verbatim>\<open>root.destroy()\<close>.  Handlers return the effects in call order.
  \<^item> \<open>env\<close> holds the answers of the world to the calls whose result the code
    inspects (\<^verbatim>\<open>os.path.exists\<close>, \<^verbatim>\<open>SystemParametersInfoW\<close>, whether
    \<^verbatim>\<open>winsound.PlaySound\<close> or the toast raise, whether the configuration file can
    be written).  Every theorem holds for every environment unless it says otherwise.
  \<open>desktop_wallpaper\<close> is the outcome of the \<^verbatim>\<open>SPI_GETDESKWALLPAPER\<close> call: an
  exception, or the \<^verbatim>\<open>BOOL\<close> it returns with what it left in the buffer.
  A \<open>Chosen\<close> label shows the file name after a fixed prefix (``chosen:'' in Chinese).
  Message texts (Chinese in the source) are named by the constructors of \<open>msg\<close>; the
  count shown in the work-complete message is kept as its argument.
\<close>

datatype btn = Normal | Disabled

datatype caption = Cap_Pause | Cap_Resume

datatype file_label = NoWallpaperChosen | SystemSound | Chosen string

datatype sound_type = Finish | Warning

datatype box = Info | Warn | Error | AskOkCancel

datatype msg =
    Msg_WorkDone json
  | Msg_BreakOver
  | Msg_SelectWallpaperFirst
  | Msg_WallpaperMissing
  | Msg_WallpaperApplied
  | Msg_ApplyFailed
  | Msg_ApplyError
  | Msg_NoOriginal
  | Msg_WallpaperRestored
  | Msg_RestoreFailed
  | Msg_RestoreError
  | Msg_ConfirmExit

datatype log = Log_OriginalWallpaper | Log_LoadConfig | Log_SaveConfig | Log_Toast | Log_Ringtone

datatype callback = CB_UpdateDisplay | CB_TimerFinished

datatype effect =
    Beep int int
  | PlayWav json
  | Sleep nat
  | MsgBox box msg
  | Toast msg
  | SetWallpaper json
  | WriteConfig json
  | TruncateConfig
  | Print log
  | Post callback
  | StartThread
  | Traceback exn
  | Destroy

datatype spi_result = SPI_True | SPI_False | SPI_Raises

datatype write_result = Write_Ok | Open_Fails | Dump_Fails

record env =
  path_exists :: "json \<Rightarrow> exn + bool"
  wav_plays :: "json \<Rightarrow> bool"
  spi_set :: "json \<Rightarrow> spi_result"
  toast_ok :: bool
  write_result :: write_result
  desktop_wallpaper :: "exn + bool \<times> string"

record app = durations +
  is_running :: bool
  is_paused :: bool
  current_time :: int
  mode :: mode
  pomodoro_count :: json
  wallpaper_path :: json
  original_wallpaper :: json
  ringtone_path :: json
  ui_created :: bool
  time_label :: string
  progress_var :: real
  mode_label :: mode
  stats_label :: json
  start_button :: btn
  pause_button :: btn
  pause_caption :: caption
  reset_button :: btn
  wallpaper_label :: file_label
  ringtone_label :: file_label

type_synonym 'a prog = "('a, app, effect, exn) act"

subsection \<open>The display (\<^verbatim>\<open>update_display\<close>, lines 173--195)\<close>

text \<open>Decimal digits of a natural number, as \<^verbatim>\<open>str\<close> prints it.\<close>

fun dec_digits :: "nat \<Rightarrow> string" where
  "dec_digits n =
     (if n < 10 then [''0123456789'' ! n]
      else dec_digits (n div 10) @ [''0123456789'' ! (n mod 10)])"

declare dec_digits.simps [simp del]

text \<open>
  Python's \<^verbatim>\<open>format(n, "02d")\<close>: the sign, then zeros up to a total width of two,
  then the digits.
\<close>

definition fmt_02d :: "int \<Rightarrow> string" where
  "fmt_02d i =
     (let sign = (if i < 0 then ''-'' else '''');
          ds = dec_digits (nat \<bar>i\<bar>)
      in sign @ replicate (2 - (length sign + length ds)) (CHR ''0'') @ ds)"

text \<open>
  The progress bar value is computed with exact arithmetic (the source uses a float).
  The durations are constants of the object, never zero, so the division is defined.
\<close>

definition update_display :: "app \<Rightarrow> app" where
  "update_display s =
     (let minutes = current_time s div 60;
          seconds = current_time s mod 60;
          max_time = (if mode s = Work then work_time s
                      else if mode s = ShortBreak then short_break_time s
                      else long_break_time s);
          mode_text = (if mode s = Work then Work
                       else if mode s = ShortBreak then ShortBreak
                       else LongBreak);
          progress = ((of_int max_time - of_int (current_time s)) / of_int max_time) * 100
      in s\<lparr>time_label := fmt_02d minutes @ '':'' @ fmt_02d seconds,
           progress_var := progress,
           mode_label := mode_text,
           stats_label := pomodoro_count s\<rparr>)"

lemma update_display_fields [simp]:
  "is_running (update_display s) = is_running s"
  "is_paused (update_display s) = is_paused s"
  "current_time (update_display s) = current_time s"
  "mode (update_display s) = mode s"
  "pomodoro_count (update_display s) = pomodoro_count s"
  "wallpaper_path (update_display s) = wallpaper_path s"
  "original_wallpaper (update_display s) = original_wallpaper s"
  "ringtone_path (update_display s) = ringtone_path s"
  "ui_created (update_display s) = ui_created s"
  "start_button (update_display s) = start_button s"
  "pause_button (update_display s) = pause_button s"
  "pause_caption (update_display s) = pause_caption s"
  "reset_button (update_display s) = reset_button s"
  "work_time (update_display s) = work_time s"
  "short_break_time (update_display s) = short_break_time s"
  "long_break_time (update_display s) = long_break_time s"
  "wallpaper_label (update_display s) = wallpaper_label s"
  "ringtone_label (update_display s) = ringtone_label s"
  by (simp_all add: update_display_def Let_def)

lemma update_display_labels:
  "time_label (update_display s) = fmt_02d (current_time s div 60) @ '':'' @ fmt_02d (current_time s mod 60)"
  "mode_label (update_display s) = mode s"
  "stats_label (update_display s) = pomodoro_count s"
  "progress_var (update_display s) =
     ((of_int (duration_of s (mode s)) - of_int (current_time s)) / of_int (duration_of s (mode s))) * 100"
  by (cases "mode s"; simp add: update_display_def Let_def)+

end
