(* ===== verification/Effects.thy ===== *)
theory Effects
  imports App
begin

text \<open>
  The side-effect methods of \<^verbatim>\<open>PomodoroTimer\<close>, one definition each, in the
  order of the source: \<^verbatim>\<open>apply_wallpaper\<close>, \<^verbatim>\<open>save_original_wallpaper\<close>,
  \<^verbatim>\<open>restore_wallpaper\<close>, \<^verbatim>\<open>load_config\<close>, \<^verbatim>\<open>save_config\<close>,
  \<^verbatim>\<open>show_notification\<close>, \<^verbatim>\<open>select_wallpaper\<close>, \<^verbatim>\<open>select_ringtone\<close>,
  \<^verbatim>\<open>test_ringtone\<close>, \<^verbatim>\<open>use_system_sound\<close>, \<^verbatim>\<open>play_sound\<close>,
  \<^verbatim>\<open>_play_system_sound\<close>.  Each is an action of the monad of \<open>Prelude\<close>: the
  \<^verbatim>\<open>try/except\<close> blocks are \<open>catch_act\<close>, so an exception the source catches
  is a branch of the model, and one it does not catch is an \<open>Inl\<close> result.
  The configuration file is part of the world: \<open>cfg_file\<close> is what \<^verbatim>\<open>open\<close>
  and \<^verbatim>\<open>json.load\<close> find, and \<open>apply_world\<close> replays the effects on it.
\<close>

datatype cfg_file = NoFile | Corrupt | Holds json

record world =
  config_file :: cfg_file
  desktop :: json

subsection \<open>Sounds (lines 444--475)\<close>

text \<open>\<^verbatim>\<open>_play_system_sound\<close>: three short beeps at 800 Hz, or one at 1000 Hz.\<close>

definition play_system_sound :: "sound_type \<Rightarrow> unit prog" where
  "play_system_sound t =
     (if t = Finish
      then repeat_act 3 (seq_act (emit_act (Beep 800 300)) (emit_act (Sleep 200)))
      else emit_act (Beep 1000 200))"

text \<open>One call of \<^verbatim>\<open>winsound.PlaySound(path, SND_FILENAME | SND_ASYNC)\<close>.\<close>

definition winsound_play :: "env \<Rightarrow> json \<Rightarrow> unit prog" where
  "winsound_play E p = (if wav_plays E p then emit_act (PlayWav p) else raise_act RuntimeError)"

definition play_sound :: "env \<Rightarrow> sound_type \<Rightarrow> unit prog" where
  "play_sound E t = bind_act (get_act ringtone_path) (\<lambda>p.
     if \<not> py_truthy p then play_system_sound t
     else (case path_exists E p of
             Inl x \<Rightarrow> raise_act x
           | Inr False \<Rightarrow> play_system_sound t
           | Inr True \<Rightarrow>
               catch_act
                 (if t = Finish
                  then repeat_act 3 (seq_act (winsound_play E p) (emit_act (Sleep 500)))
                  else winsound_play E p)
                 (\<lambda>_. seq_act (emit_act (Print Log_Ringtone)) (play_system_sound t))))"

text \<open>
  The audio contract of the spec (section 6): a custom ringtone that is set and playable
  is played three times (finish) or once (warning); otherwise the built-in tone is
  three short beeps at one pitch (finish) or one beep at a higher pitch (warning).
  The code adds a log line when an existing ringtone fails to play.
\<close>

definition builtin_tone :: "sound_type \<Rightarrow> effect list" where
  "builtin_tone t =
     (if t = Finish then concat (replicate 3 [Beep 800 300, Sleep 200]) else [Beep 1000 200])"

definition cue_effects :: "env \<Rightarrow> sound_type \<Rightarrow> json \<Rightarrow> effect list" where
  "cue_effects E t p =
     (if py_truthy p \<and> path_exists E p = Inr True then
        (if wav_plays E p then
           (if t = Finish then concat (replicate 3 [PlayWav p, Sleep 500]) else [PlayWav p])
         else Print Log_Ringtone # builtin_tone t)
      else builtin_tone t)"

text \<open>\<^verbatim>\<open>os.path.exists\<close> answers for a path value that is set.\<close>

definition exists_ok :: "env \<Rightarrow> json \<Rightarrow> bool" where
  "exists_ok E p \<longleftrightarrow> (py_truthy p \<longrightarrow> \<not> isl (path_exists E p))"

subsection \<open>Configuration store (lines 371--398)\<close>

text \<open>The dict that \<^verbatim>\<open>save_config\<close> dumps.\<close>

definition config_json :: "app \<Rightarrow> json" where
  "config_json s =
     JObj [(''wallpaper_path'', wallpaper_path s),
           (''ringtone_path'', ringtone_path s),
           (''pomodoro_count'', pomodoro_count s)]"

text \<open>
  \<^verbatim>\<open>save_config\<close>: \<^verbatim>\<open>open(..., 'w')\<close> truncates the file before
  \<^verbatim>\<open>json.dump\<close> writes it, so a failure during the dump leaves a truncated file.
\<close>

definition save_config :: "env \<Rightarrow> unit prog" where
  "save_config E =
     catch_act
       (bind_act (get_act config_json) (\<lambda>c.
          case write_result E of
            Write_Ok \<Rightarrow> emit_act (WriteConfig c)
          | Open_Fails \<Rightarrow> raise_act OSError
          | Dump_Fails \<Rightarrow> seq_act (emit_act TruncateConfig) (raise_act OSError)))
       (\<lambda>_. emit_act (Print Log_SaveConfig))"

text \<open>
  \<^verbatim>\<open>load_config\<close>: a missing file leaves the defaults; an unreadable one raises
  inside the \<^verbatim>\<open>try\<close>; a JSON value that is not an object has no \<^verbatim>\<open>get\<close>
  (\<^verbatim>\<open>AttributeError\<close>).  The three fields are assigned in order; then a truthy
  ringtone path is passed to \<^verbatim>\<open>os.path.basename\<close> (\<^verbatim>\<open>TypeError\<close> for a
  value that is not a string) and the ringtone label is updated, which raises when the
  widgets do not exist yet.
\<close>

definition load_config :: "cfg_file \<Rightarrow> unit prog" where
  "load_config f =
     (if f = NoFile then ret ()
      else catch_act
        (case f of
           Holds (JObj kvs) \<Rightarrow>
             seq_act (modify_act (wallpaper_path_update (\<lambda>_. dict_get kvs ''wallpaper_path'' JNull)))
            (seq_act (modify_act (ringtone_path_update (\<lambda>_. dict_get kvs ''ringtone_path'' JNull)))
            (seq_act (modify_act (pomodoro_count_update (\<lambda>_. dict_get kvs ''pomodoro_count'' (JInt 0))))
              (if_act (\<lambda>s. py_truthy (ringtone_path s))
                 (bind_act (get_act (\<lambda>s. py_basename (ringtone_path s))) (\<lambda>r.
                    case r of
                      Inl x \<Rightarrow> raise_act x
                    | Inr n \<Rightarrow> if_act ui_created
                                (modify_act (ringtone_label_update (\<lambda>_. Chosen n)))
                                (raise_act AttributeError)))
                 (ret ()))))
         | Holds _ \<Rightarrow> raise_act AttributeError
         | _ \<Rightarrow> raise_act ValueError)
        (\<lambda>_. emit_act (Print Log_LoadConfig)))"

subsection \<open>Wallpaper (lines 291--369)\<close>

definition apply_wallpaper :: "env \<Rightarrow> unit prog" where
  "apply_wallpaper E = bind_act (get_act wallpaper_path) (\<lambda>p.
     if \<not> py_truthy p then emit_act (MsgBox Warn Msg_SelectWallpaperFirst)
     else (case path_exists E p of
             Inl x \<Rightarrow> raise_act x
           | Inr False \<Rightarrow> emit_act (MsgBox Error Msg_WallpaperMissing)
           | Inr True \<Rightarrow>
               catch_act
                 (case spi_set E p of
                    SPI_True \<Rightarrow>
                      seq_act (emit_act (SetWallpaper p))
                     (seq_act (emit_act (MsgBox Info Msg_WallpaperApplied)) (save_config E))
                  | SPI_False \<Rightarrow> emit_act (MsgBox Error Msg_ApplyFailed)
                  | SPI_Raises \<Rightarrow> raise_act OSError)
                 (\<lambda>_. emit_act (MsgBox Error Msg_ApplyError))))"

text \<open>
  \<^verbatim>\<open>save_original_wallpaper\<close> ignores the \<^verbatim>\<open>BOOL\<close> the call returns and
  keeps the buffer's value whatever it is.
\<close>

definition save_original_wallpaper :: "env \<Rightarrow> unit prog" where
  "save_original_wallpaper E =
     catch_act
       (case desktop_wallpaper E of
          Inl x \<Rightarrow> raise_act x
        | Inr (_, buf) \<Rightarrow> modify_act (original_wallpaper_update (\<lambda>_. JStr (buffer_value buf))))
       (\<lambda>_. emit_act (Print Log_OriginalWallpaper))"

definition restore_wallpaper :: "env \<Rightarrow> unit prog" where
  "restore_wallpaper E = bind_act (get_act original_wallpaper) (\<lambda>w.
     if \<not> py_truthy w then emit_act (MsgBox Warn Msg_NoOriginal)
     else catch_act
            (case spi_set E w of
               SPI_True \<Rightarrow> seq_act (emit_act (SetWallpaper w)) (emit_act (MsgBox Info Msg_WallpaperRestored))
             | SPI_False \<Rightarrow> emit_act (MsgBox Error Msg_RestoreFailed)
             | SPI_Raises \<Rightarrow> raise_act OSError)
            (\<lambda>_. emit_act (MsgBox Error Msg_RestoreError)))"

subsection \<open>Notification (lines 404--414)\<close>

definition show_notification :: "env \<Rightarrow> msg \<Rightarrow> unit prog" where
  "show_notification E m =
     catch_act
       (if toast_ok E then emit_act (Toast m) else raise_act RuntimeError)
       (\<lambda>_. emit_act (Print Log_Toast))"

subsection \<open>User settings (lines 291--304, 416--442)\<close>

text \<open>
  The file dialogs return the chosen path, or the empty string when cancelled; the
  chosen path is the argument.
\<close>

definition select_wallpaper :: "env \<Rightarrow> string \<Rightarrow> unit prog" where
  "select_wallpaper E fp =
     (if fp \<noteq> [] then
        seq_act (modify_act (\<lambda>s. s\<lparr>wallpaper_path := JStr fp, wallpaper_label := Chosen (basename_str fp)\<rparr>))
          (save_config E)
      else ret ())"

definition select_ringtone :: "env \<Rightarrow> string \<Rightarrow> unit prog" where
  "select_ringtone E fp =
     (if fp \<noteq> [] then
        seq_act (modify_act (\<lambda>s. s\<lparr>ringtone_path := JStr fp, ringtone_label := Chosen (basename_str fp)\<rparr>))
          (save_config E)
      else ret ())"

definition test_ringtone :: "env \<Rightarrow> unit prog" where
  "test_ringtone E = play_sound E Finish"

definition use_system_sound :: "env \<Rightarrow> unit prog" where
  "use_system_sound E =
     seq_act (modify_act (\<lambda>s. s\<lparr>ringtone_path := JNull, ringtone_label := SystemSound\<rparr>))
    (seq_act (save_config E) (emit_act (Beep 800 300)))"

subsection \<open>The world\<close>

text \<open>The effects that change the configuration file and the desktop.\<close>

fun apply_effect :: "world \<Rightarrow> effect \<Rightarrow> world" where
  "apply_effect w (WriteConfig c) = w\<lparr>config_file := Holds c\<rparr>"
| "apply_effect w TruncateConfig = w\<lparr>config_file := Corrupt\<rparr>"
| "apply_effect w (SetWallpaper p) = w\<lparr>desktop := p\<rparr>"
| "apply_effect w _ = w"

definition apply_world :: "world \<Rightarrow> effect list \<Rightarrow> world" where
  "apply_world w es = foldl apply_effect w es"

subsection \<open>What each call does, branch by branch\<close>

text \<open>
  The effects of the calls that cannot raise, as lists; the lemmas below show that the
  methods produce them and leave the state unchanged.
\<close>

definition notify_effects :: "env \<Rightarrow> msg \<Rightarrow> effect list" where
  "notify_effects E m = (if toast_ok E then [Toast m] else [Print Log_Toast])"

definition save_effects :: "env \<Rightarrow> app \<Rightarrow> effect list" where
  "save_effects E s =
     (case write_result E of
        Write_Ok \<Rightarrow> [WriteConfig (config_json s)]
      | Open_Fails \<Rightarrow> [Print Log_SaveConfig]
      | Dump_Fails \<Rightarrow> [TruncateConfig, Print Log_SaveConfig])"

definition apply_effects :: "env \<Rightarrow> app \<Rightarrow> effect list" where
  "apply_effects E s =
     (let p = wallpaper_path s in
      if \<not> py_truthy p then [MsgBox Warn Msg_SelectWallpaperFirst]
      else if path_exists E p = Inr False then [MsgBox Error Msg_WallpaperMissing]
      else (case spi_set E p of
              SPI_True \<Rightarrow> SetWallpaper p # MsgBox Info Msg_WallpaperApplied # save_effects E s
            | SPI_False \<Rightarrow> [MsgBox Error Msg_ApplyFailed]
            | SPI_Raises \<Rightarrow> [MsgBox Error Msg_ApplyError]))"

definition restore_effects :: "env \<Rightarrow> json \<Rightarrow> effect list" where
  "restore_effects E w =
     (if \<not> py_truthy w then [MsgBox Warn Msg_NoOriginal]
      else (case spi_set E w of
              SPI_True \<Rightarrow> [SetWallpaper w, MsgBox Info Msg_WallpaperRestored]
            | SPI_False \<Rightarrow> [MsgBox Error Msg_RestoreFailed]
            | SPI_Raises \<Rightarrow> [MsgBox Error Msg_RestoreError]))"

subsection \<open>Lemmas\<close>

lemma play_system_sound_result:
  "play_system_sound t s = (Inr (), s, builtin_tone t)"
  by (simp add: play_system_sound_def builtin_tone_def numeral_3_eq_3 act_simps)

lemma play_sound_ok:
  "exists_ok E (ringtone_path s) \<Longrightarrow>
   play_sound E t s = (Inr (), s, cue_effects E t (ringtone_path s))"
  by (auto simp: play_sound_def cue_effects_def exists_ok_def winsound_play_def numeral_3_eq_3
      play_system_sound_result act_simps split: sum.split bool.split)

lemma play_sound_raises:
  "py_truthy (ringtone_path s) \<Longrightarrow> path_exists E (ringtone_path s) = Inl x \<Longrightarrow>
   play_sound E t s = (Inl x, s, [])"
  by (simp add: play_sound_def act_simps)

lemma keeps_play_sound: "keeps_state (play_sound E t)"
  unfolding play_sound_def play_system_sound_def winsound_play_def
  by (auto intro!: keeps_intros split: sum.split bool.split)

lemma cue_effects_no_tick:
  "Sleep 1000 \<notin> set (cue_effects E t p)" "Post c \<notin> set (cue_effects E t p)"
  by (auto simp: cue_effects_def builtin_tone_def)

lemma keeps_save_config: "keeps_state (save_config E)"
  unfolding save_config_def by (auto intro!: keeps_intros split: write_result.split)

lemma keeps_show_notification: "keeps_state (show_notification E m)"
  unfolding show_notification_def by (auto intro!: keeps_intros)

lemma keeps_apply_wallpaper: "keeps_state (apply_wallpaper E)"
  unfolding apply_wallpaper_def
  by (auto intro!: keeps_intros keeps_save_config split: sum.split bool.split spi_result.split)

lemma keeps_restore_wallpaper: "keeps_state (restore_wallpaper E)"
  unfolding restore_wallpaper_def by (auto intro!: keeps_intros split: spi_result.split)

lemmas keeps_world_calls =
  keeps_play_sound keeps_save_config keeps_show_notification keeps_apply_wallpaper
  keeps_restore_wallpaper

lemmas keeps_world_calls_any = keeps_world_calls [THEN keeps_state_keeps]

lemma show_notification_result:
  "show_notification E m s = (Inr (), s, notify_effects E m)"
  by (simp add: show_notification_def notify_effects_def act_simps)

lemma save_config_result:
  "save_config E s = (Inr (), s, save_effects E s)"
  by (simp add: save_config_def save_effects_def act_simps split: write_result.split)

lemma apply_wallpaper_result:
  "exists_ok E (wallpaper_path s) \<Longrightarrow> apply_wallpaper E s = (Inr (), s, apply_effects E s)"
  by (auto simp: apply_wallpaper_def apply_effects_def exists_ok_def save_config_result act_simps
           split: sum.split bool.split spi_result.split)

lemma restore_wallpaper_result:
  "restore_wallpaper E s = (Inr (), s, restore_effects E (original_wallpaper s))"
  by (simp add: restore_wallpaper_def restore_effects_def act_simps split: spi_result.split)

end
