(* ===== verification/Timer.thy ===== *)
theory Timer
  imports Effects
begin

text \<open>
  The timer engine of \<^verbatim>\<open>PomodoroTimer\<close>: the commands bound to the buttons
  (\<^verbatim>\<open>start_timer\<close>, \<^verbatim>\<open>pause_timer\<close>, \<^verbatim>\<open>reset_timer\<close>,
  \<^verbatim>\<open>set_mode\<close>), the countdown loop that \<^verbatim>\<open>start_timer\<close> runs on a daemon
  thread (\<^verbatim>\<open>timer_loop\<close>), the completion handler it posts to the Tk thread
  (\<^verbatim>\<open>timer_finished\<close>), the close handler (\<^verbatim>\<open>on_closing\<close>) and the
  constructor (\<^verbatim>\<open>__init__\<close>).  Methods that neither call the world nor raise
  are functions \<open>app \<Rightarrow> app\<close>; the others are actions.
  In this theory every action runs alone: the loop runs with no Tk callback in between
  (the schedule in which the user does nothing while the timer counts).
\<close>

subsection \<open>Commands (lines 197--236)\<close>

definition start_timer :: "unit prog" where
  "start_timer =
     if_act (\<lambda>s. \<not> is_running s)
       (seq_act
          (modify_act (\<lambda>s. s\<lparr>is_running := True, is_paused := False,
                              start_button := Disabled, pause_button := Normal,
                              reset_button := Disabled\<rparr>))
          (emit_act StartThread))
       (ret ())"

definition pause_timer :: "app \<Rightarrow> app" where
  "pause_timer s =
     (if is_running s then
        (let s' = s\<lparr>is_paused := \<not> is_paused s\<rparr>
         in if is_paused s' then s'\<lparr>pause_caption := Cap_Resume\<rparr>
            else s'\<lparr>pause_caption := Cap_Pause\<rparr>)
      else s)"

definition set_mode :: "mode \<Rightarrow> app \<Rightarrow> app" where
  "set_mode m s =
     (if \<not> is_running s
      then update_display (s\<lparr>mode := m, current_time := duration_of s m\<rparr>)
      else s)"

definition reset_timer :: "app \<Rightarrow> app" where
  "reset_timer s =
     (let s1 = s\<lparr>is_running := False, is_paused := False\<rparr>;
          s2 = set_mode (mode s1) s1
      in s2\<lparr>start_button := Normal, pause_button := Disabled, pause_caption := Cap_Pause,
            reset_button := Normal\<rparr>)"

subsection \<open>The countdown loop (lines 238--252)\<close>

text \<open>One pass of the loop body when not paused: sleep a second, decrement, post a
  display refresh to the Tk thread, and at ten seconds left play the warning.\<close>

definition loop_iteration :: "env \<Rightarrow> unit prog" where
  "loop_iteration E =
     seq_act (emit_act (Sleep 1000))
    (seq_act (modify_act (\<lambda>s. s\<lparr>current_time := current_time s - 1\<rparr>))
    (seq_act (emit_act (Post CB_UpdateDisplay))
      (if_act (\<lambda>s. current_time s = 10) (play_sound E Warning) (ret ()))))"

text \<open>
  The body of the \<^verbatim>\<open>while\<close> (lines 241--248): the statements under
  \<^verbatim>\<open>if not self.is_paused:\<close>, and nothing otherwise.
\<close>

definition loop_body :: "env \<Rightarrow> unit prog" where
  "loop_body E = if_act (\<lambda>s. \<not> is_paused s) (loop_iteration E) (ret ())"

text \<open>
  The whole loop (lines 238--252): while the timer runs with time left, one pass of the
  body.  A loop that runs alone from a paused state never returns: the value
  \<open>None\<close>.  An exception in the body ends the thread (\<open>Inl\<close>).
\<close>

partial_function (option) timer_loop ::
  "env \<Rightarrow> app \<Rightarrow> ((exn + unit) \<times> app \<times> effect list) option" where
  "timer_loop E s =
     (if is_running s \<and> 0 < current_time s then
        (case loop_body E s of
           (Inl x, s', es) \<Rightarrow> Some (Inl x, s', es)
         | (Inr u, s', es) \<Rightarrow>
             Option.bind (timer_loop E s') (\<lambda>(r, s'', es'). Some (r, s'', es @ es')))
      else if current_time s = 0 then Some (Inr (), s, [Post CB_TimerFinished])
      else Some (Inr (), s, []))"

subsection \<open>Completion (lines 254--289)\<close>

definition timer_finished :: "env \<Rightarrow> unit prog" where
  "timer_finished E =
     seq_act
       (modify_act (\<lambda>s. s\<lparr>is_running := False, start_button := Normal, pause_button := Disabled,
                           pause_caption := Cap_Pause, reset_button := Normal\<rparr>))
    (seq_act (play_sound E Finish)
    (bind_act
       (if_act (\<lambda>s. mode s = Work)
          (bind_act (get_act pomodoro_count) (\<lambda>c.
             case py_incr c of
               Inl x \<Rightarrow> raise_act x
             | Inr n \<Rightarrow>
                 seq_act (modify_act (pomodoro_count_update (\<lambda>_. JInt n)))
                (seq_act (modify_act (set_mode (break_after n)))
                  (ret (Msg_WorkDone (JInt n))))))
          (seq_act (modify_act (set_mode Work)) (ret Msg_BreakOver)))
       (\<lambda>message.
          seq_act (emit_act (MsgBox Info message))
         (seq_act (show_notification E message)
         (seq_act
            (if_act (\<lambda>s. mode s \<in> {ShortBreak, LongBreak} \<and> py_truthy (wallpaper_path s))
               (apply_wallpaper E)
               (if_act (\<lambda>s. mode s = Work \<and> py_truthy (wallpaper_path s))
                  (restore_wallpaper E)
                  (ret ())))
         (seq_act (save_config E) (modify_act update_display)))))))"

subsection \<open>Closing (lines 477--486)\<close>

text \<open>\<open>ok\<close> is the user's answer to the confirmation box.\<close>

definition on_closing :: "env \<Rightarrow> bool \<Rightarrow> unit prog" where
  "on_closing E ok =
     if_act is_running
       (seq_act (emit_act (MsgBox AskOkCancel Msg_ConfirmExit))
          (if ok then
             seq_act (modify_act (is_running_update (\<lambda>_. False)))
            (seq_act (save_config E) (emit_act Destroy))
           else ret ()))
       (seq_act (save_config E) (emit_act Destroy))"

subsection \<open>Construction (lines 29--75, 77--171)\<close>

text \<open>The attributes as \<^verbatim>\<open>__init__\<close> sets them before \<^verbatim>\<open>load_config\<close>.\<close>

definition initial_attrs :: app where
  "initial_attrs =
     \<lparr>work_time = 25 * 60, short_break_time = 5 * 60, long_break_time = 15 * 60,
      is_running = False, is_paused = False, current_time = 25 * 60, mode = Work,
      pomodoro_count = JInt 0, wallpaper_path = JNull, original_wallpaper = JNull,
      ringtone_path = JNull, ui_created = False,
      time_label = ''25:00'', progress_var = 0, mode_label = Work, stats_label = JInt 0,
      start_button = Normal, pause_button = Disabled, pause_caption = Cap_Pause,
      reset_button = Normal, wallpaper_label = NoWallpaperChosen, ringtone_label = SystemSound\<rparr>"

text \<open>\<^verbatim>\<open>create_ui\<close>: the widgets with their initial texts and states.\<close>

definition create_ui :: "app \<Rightarrow> app" where
  "create_ui s =
     s\<lparr>ui_created := True, time_label := ''25:00'', progress_var := 0, mode_label := Work,
       stats_label := JInt 0, start_button := Normal, pause_button := Disabled,
       pause_caption := Cap_Pause, reset_button := Normal,
       wallpaper_label := NoWallpaperChosen, ringtone_label := SystemSound\<rparr>"

definition init_timer :: "env \<Rightarrow> cfg_file \<Rightarrow> unit prog" where
  "init_timer E f =
     seq_act (load_config f)
    (seq_act (save_original_wallpaper E)
    (seq_act (modify_act create_ui)
      (modify_act update_display)))"

text \<open>
  A Tk callback: an exception that escapes the handler is reported by Tk
  (\<open>Traceback\<close>) and the main loop goes on with the state the handler left.
\<close>

definition tk_callback :: "unit prog \<Rightarrow> app \<Rightarrow> app \<times> effect list" where
  "tk_callback h s =
     (case h s of
        (Inl x, s', es) \<Rightarrow> (s', es @ [Traceback x])
      | (Inr _, s', es) \<Rightarrow> (s', es))"

text \<open>
  The effects of a countdown of \<open>n\<close> seconds run alone: per second a sleep and a
  posted display refresh, and the warning cue after the decrement that leaves ten.
\<close>

fun countdown_effects :: "env \<Rightarrow> json \<Rightarrow> nat \<Rightarrow> effect list" where
  "countdown_effects E p 0 = []"
| "countdown_effects E p (Suc k) =
     Sleep 1000 # Post CB_UpdateDisplay # (if k = 10 then cue_effects E Warning p else []) @
     countdown_effects E p k"

subsection \<open>The buttons (lines 106--167)\<close>

text \<open>
  The commands bound to the buttons of \<^verbatim>\<open>create_ui\<close>.  A button in the
  \<^verbatim>\<open>DISABLED\<close> state ignores clicks (Tk's behaviour): \<open>enabled\<close>.
\<close>

datatype ui_event =
    Ev_Start | Ev_Pause | Ev_Reset | Ev_SetMode mode
  | Ev_SelectWallpaper string | Ev_ApplyWallpaper | Ev_RestoreWallpaper
  | Ev_SelectRingtone string | Ev_TestRingtone | Ev_UseSystemSound

fun handler :: "env \<Rightarrow> ui_event \<Rightarrow> unit prog" where
  "handler E Ev_Start = start_timer"
| "handler E Ev_Pause = modify_act pause_timer"
| "handler E Ev_Reset = modify_act reset_timer"
| "handler E (Ev_SetMode m) = modify_act (set_mode m)"
| "handler E (Ev_SelectWallpaper fp) = select_wallpaper E fp"
| "handler E Ev_ApplyWallpaper = apply_wallpaper E"
| "handler E Ev_RestoreWallpaper = restore_wallpaper E"
| "handler E (Ev_SelectRingtone fp) = select_ringtone E fp"
| "handler E Ev_TestRingtone = test_ringtone E"
| "handler E Ev_UseSystemSound = use_system_sound E"

fun enabled :: "ui_event \<Rightarrow> app \<Rightarrow> bool" where
  "enabled Ev_Start s = (start_button s = Normal)"
| "enabled Ev_Pause s = (pause_button s = Normal)"
| "enabled Ev_Reset s = (reset_button s = Normal)"
| "enabled _ s = True"

text \<open>
  The consistency of the timer and its buttons that the code maintains: the start and
  reset buttons are enabled exactly when the timer is stopped, the pause button exactly
  when it runs, its caption says whether the timer is paused, a stopped timer is not
  paused and holds the full duration of its mode, and the remaining time lies between
  zero and that duration.
\<close>

definition ui_inv :: "app \<Rightarrow> bool" where
  "ui_inv s \<longleftrightarrow> durations_ok s \<and>
     start_button s = (if is_running s then Disabled else Normal) \<and>
     reset_button s = (if is_running s then Disabled else Normal) \<and>
     pause_button s = (if is_running s then Normal else Disabled) \<and>
     pause_caption s = (if is_paused s then Cap_Resume else Cap_Pause) \<and>
     (\<not> is_running s \<longrightarrow> \<not> is_paused s \<and> current_time s = duration_of s (mode s)) \<and>
     0 \<le> current_time s \<and> current_time s \<le> duration_of s (mode s)"

text \<open>The part of the state \<open>ui_inv\<close> reads.\<close>

definition timer_view ::
  "app \<Rightarrow> bool \<times> bool \<times> int \<times> mode \<times> btn \<times> btn \<times> caption \<times> btn \<times> int \<times> int \<times> int" where
  "timer_view s = (is_running s, is_paused s, current_time s, mode s, start_button s,
     pause_button s, pause_caption s, reset_button s, work_time s, short_break_time s,
     long_break_time s)"

subsection \<open>Lemmas\<close>

lemma set_mode_idle [simp]:
  "\<not> is_running s \<Longrightarrow> set_mode m s = update_display (s\<lparr>mode := m, current_time := duration_of s m\<rparr>)"
  by (simp add: set_mode_def)

lemma set_mode_running [simp]: "is_running s \<Longrightarrow> set_mode m s = s"
  by (simp add: set_mode_def)

lemma loop_body_active [simp]: "\<not> is_paused s \<Longrightarrow> loop_body E s = loop_iteration E s"
  by (simp add: loop_body_def act_simps)

lemma loop_iteration_ok:
  "exists_ok E (ringtone_path s) \<Longrightarrow>
   loop_iteration E s =
     (Inr (), s\<lparr>current_time := current_time s - 1\<rparr>,
      [Sleep 1000, Post CB_UpdateDisplay] @
      (if current_time s - 1 = 10 then cue_effects E Warning (ringtone_path s) else []))"
  by (simp add: loop_iteration_def act_simps play_sound_ok)

lemma loop_iteration_state:
  "\<exists>r es. loop_iteration E s = (r, s\<lparr>current_time := current_time s - 1\<rparr>, es)"
proof -
  have k: "keeps_state (seq_act (emit_act (Post CB_UpdateDisplay))
             (if_act (\<lambda>s. current_time s = 10) (play_sound E Warning) (ret ())))"
    by (intro keeps_intros keeps_play_sound)
  show ?thesis
    using keeps_stateD [OF k, of "s\<lparr>current_time := current_time s - 1\<rparr>"]
    by (auto simp: loop_iteration_def act_simps)
qed

lemma timer_loop_runs:
  assumes "is_running s" "\<not> is_paused s" "current_time s = int n" "exists_ok E (ringtone_path s)"
  shows "timer_loop E s =
           Some (Inr (), s\<lparr>current_time := 0\<rparr>,
                 countdown_effects E (ringtone_path s) n @ [Post CB_TimerFinished])"
  using assms
proof (induction n arbitrary: s)
  case 0
  then have "s\<lparr>current_time := 0\<rparr> = s" by simp
  with "0.prems" show ?case by (subst timer_loop.simps) simp
next
  case (Suc n)
  let ?s' = "s\<lparr>current_time := int n\<rparr>"
  have it: "loop_iteration E s =
              (Inr (), ?s', [Sleep 1000, Post CB_UpdateDisplay] @
                (if int n = 10 then cue_effects E Warning (ringtone_path s) else []))"
    using loop_iteration_ok [OF Suc.prems(4)] Suc.prems(3) by simp
  have "timer_loop E ?s' =
          Some (Inr (), ?s'\<lparr>current_time := 0\<rparr>,
                countdown_effects E (ringtone_path ?s') n @ [Post CB_TimerFinished])"
    using Suc.prems by (intro Suc.IH) simp_all
  with Suc.prems it show ?case
    by (subst timer_loop.simps) simp
qed

lemma timer_finished_work:
  assumes "mode s = Work" and "pomodoro_count s = JInt n"
    and "exists_ok E (ringtone_path s)" and "exists_ok E (wallpaper_path s)"
  defines "s2 \<equiv> set_mode (break_after (n + 1))
                  (s\<lparr>is_running := False, start_button := Normal, pause_button := Disabled,
                     pause_caption := Cap_Pause, reset_button := Normal, pomodoro_count := JInt (n + 1)\<rparr>)"
  shows "timer_finished E s =
           (Inr (), update_display s2,
            cue_effects E Finish (ringtone_path s) @ MsgBox Info (Msg_WorkDone (JInt (n + 1))) #
            notify_effects E (Msg_WorkDone (JInt (n + 1))) @
            (if py_truthy (wallpaper_path s) then apply_effects E s2 else []) @ save_effects E s2)"
  using assms break_after_is_break [of "n + 1"]
  by (simp add: timer_finished_def act_simps play_sound_ok show_notification_result
      apply_wallpaper_result save_config_result)

lemma timer_finished_break:
  assumes "mode s \<noteq> Work" and "exists_ok E (ringtone_path s)"
  defines "s2 \<equiv> set_mode Work
                  (s\<lparr>is_running := False, start_button := Normal, pause_button := Disabled,
                     pause_caption := Cap_Pause, reset_button := Normal\<rparr>)"
  shows "timer_finished E s =
           (Inr (), update_display s2,
            cue_effects E Finish (ringtone_path s) @ MsgBox Info Msg_BreakOver #
            notify_effects E Msg_BreakOver @
            (if py_truthy (wallpaper_path s) then restore_effects E (original_wallpaper s) else []) @
            save_effects E s2)"
  using assms
  by (simp add: timer_finished_def act_simps play_sound_ok show_notification_result
      restore_wallpaper_result save_config_result)

lemma count_countdown_effects:
  "count_list (countdown_effects E p n) e =
     (if e = Sleep 1000 \<or> e = Post CB_UpdateDisplay then n
      else if 10 < n then count_list (cue_effects E Warning p) e else 0)"
  by (induction n) (auto simp: cue_effects_no_tick)

lemma finished_not_in_countdown: "Post CB_TimerFinished \<notin> set (countdown_effects E p n)"
  by (induction n) (auto simp: cue_effects_no_tick)

lemma save_effects_update_display [simp]: "save_effects E (update_display s) = save_effects E s"
  by (simp add: save_effects_def config_json_def split: write_result.split)

lemma set_mode_fields:
  "is_paused (set_mode m s) = is_paused s"
  "is_running (set_mode m s) = is_running s"
  "pomodoro_count (set_mode m s) = pomodoro_count s"
  "wallpaper_path (set_mode m s) = wallpaper_path s"
  "ringtone_path (set_mode m s) = ringtone_path s"
  "original_wallpaper (set_mode m s) = original_wallpaper s"
  by (simp_all add: set_mode_def)

lemma tk_callback_state: "fst (tk_callback h s) = final (h s)"
  by (cases "h s") (auto simp: tk_callback_def split: sum.split)

lemma ui_inv_view: "timer_view s' = timer_view s \<Longrightarrow> ui_inv s' = ui_inv s"
  by (simp add: ui_inv_def timer_view_def durations_ok_def duration_of_def)

lemma keeps_view_settings:
  "keeps timer_view (select_wallpaper E fp)" "keeps timer_view (select_ringtone E fp)"
  "keeps timer_view (use_system_sound E)"
  unfolding select_wallpaper_def select_ringtone_def use_system_sound_def
  by (auto intro!: keeps_intros keeps_world_calls_any simp: timer_view_def)

lemma keeps_view_world:
  "keeps timer_view (apply_wallpaper E)" "keeps timer_view (restore_wallpaper E)"
  "keeps timer_view (test_ringtone E)"
  unfolding test_ringtone_def by (simp_all add: keeps_world_calls_any)

lemma ui_inv_kept: "keeps timer_view m \<Longrightarrow> ui_inv (final (m s)) = ui_inv s"
  by (rule ui_inv_view) (simp add: keeps_def)

text \<open>
  C1.  Completing a period follows the mode policy of the spec: when the count is an
  \<^verbatim>\<open>int\<close> and \<^verbatim>\<open>os.path.exists\<close> answers, \<^verbatim>\<open>timer_finished\<close> returns normally,
  stops the timer, moves to \<open>next_mode\<close> of the finished mode and the count after
  incrementing (work periods only), and loads the full duration of the new mode.
\<close>

theorem finish_follows_policy:
  assumes "pomodoro_count s = JInt n"
    and "exists_ok E (ringtone_path s)" and "exists_ok E (wallpaper_path s)"
  shows "let s' = final (timer_finished E s); c = (if mode s = Work then n + 1 else n)
         in outcome (timer_finished E s) = Inr () \<and> \<not> is_running s' \<and>
            mode s' = next_mode (mode s) c \<and> current_time s' = duration_of s (mode s') \<and>
            pomodoro_count s' = JInt c"
proof (cases "mode s = Work")
  case True
  with assms show ?thesis
    by (simp add: timer_finished_work next_mode_Work Let_def duration_of_def)
next
  case False
  with assms show ?thesis
    by (simp add: timer_finished_break next_mode_break Let_def duration_of_def)
qed

text \<open>
  C2.  A countdown that runs alone, not paused, from \<open>n\<close> seconds returns with zero
  seconds left after exactly \<open>n\<close> one-second sleeps and \<open>n\<close> display refreshes
  posted to the Tk thread, and posts the completion handler once, as its last act.
\<close>

theorem countdown_exact:
  assumes "is_running s" and "\<not> is_paused s" and "current_time s = int n"
    and "exists_ok E (ringtone_path s)"
  shows "\<exists>es. timer_loop E s = Some (Inr (), s\<lparr>current_time := 0\<rparr>, es @ [Post CB_TimerFinished]) \<and>
              count_list es (Sleep 1000) = n \<and> count_list es (Post CB_UpdateDisplay) = n \<and>
              Post CB_TimerFinished \<notin> set es"
  using timer_loop_runs [OF assms] count_countdown_effects finished_not_in_countdown by auto

text \<open>
  C3.  The warning cue sounds exactly once in a countdown that passes ten seconds and
  never in a shorter one: every other effect of the countdown occurs as often as in one
  warning cue when it starts above ten, and not at all otherwise.
\<close>

theorem warning_cue_once:
  assumes "is_running s" and "\<not> is_paused s" and "current_time s = int n"
    and "exists_ok E (ringtone_path s)"
    and "e \<notin> {Sleep 1000, Post CB_UpdateDisplay, Post CB_TimerFinished}"
  shows "count_list (effects (the (timer_loop E s))) e =
           (if 10 < n then count_list (cue_effects E Warning (ringtone_path s)) e else 0)"
  using assms(5) by (auto simp: timer_loop_runs [OF assms(1-4)] count_countdown_effects)

text \<open>
  C4.  The countdown loop terminates whenever it is not paused: it returns, normally
  or with the exception that ended the thread.
\<close>

theorem countdown_terminates:
  "\<not> is_paused s \<Longrightarrow> \<exists>r. timer_loop E s = Some r"
proof (induction "nat (current_time s)" arbitrary: s)
  case 0
  then show ?case by (subst timer_loop.simps) auto
next
  case (Suc k)
  show ?case
  proof (cases "is_running s \<and> 0 < current_time s")
    case False
    then show ?thesis by (subst timer_loop.simps) auto
  next
    case True
    obtain r es where it: "loop_iteration E s = (r, s\<lparr>current_time := current_time s - 1\<rparr>, es)"
      using loop_iteration_state by blast
    show ?thesis
    proof (cases r)
      case (Inl x)
      with True Suc.prems it show ?thesis by (subst timer_loop.simps) simp
    next
      case (Inr u)
      have "k = nat (current_time (s\<lparr>current_time := current_time s - 1\<rparr>))"
        using Suc.hyps(2) by simp
      then obtain r' where "timer_loop E (s\<lparr>current_time := current_time s - 1\<rparr>) = Some r'"
        using Suc.hyps(1) Suc.prems by fastforce
      with True Suc.prems it Inr show ?thesis
        by (subst timer_loop.simps) (auto split: prod.split)
    qed
  qed
qed

text \<open>
  C5.  A paused countdown busy-waits: while paused, every pass of the loop body does
  nothing at all (no sleep, no effect, the state unchanged), so the loop re-tests its
  guard at once, any number of times, and a loop that nothing resumes never returns.
\<close>

theorem paused_countdown_spins:
  assumes "is_running s" and "is_paused s" and "0 < current_time s"
  shows "repeat_act n (loop_body E) s = (Inr (), s, []) \<and> timer_loop E s = None"
proof
  have pass: "loop_body E s = (Inr (), s, [])"
    using assms(2) by (simp add: loop_body_def act_simps)
  show "repeat_act n (loop_body E) s = (Inr (), s, [])"
    by (induction n) (simp_all add: act_simps pass)
  show "timer_loop E s = None"
  proof (rule ccontr)
    assume "timer_loop E s \<noteq> None"
    then obtain r where ret: "timer_loop E s = Some r" by blast
    have "\<not> (is_running s \<and> is_paused s \<and> 0 < current_time s)"
    proof (rule timer_loop.raw_induct
        [where P = "\<lambda>E s r. \<not> (is_running s \<and> is_paused s \<and> 0 < current_time s)", OF _ ret])
      fix f E' s' r'
      assume IH: "\<And>E s r. f E s = Some r \<Longrightarrow> \<not> (is_running s \<and> is_paused s \<and> 0 < current_time s)"
        and body: "(if is_running s' \<and> 0 < current_time s'
          then case loop_body E' s' of
                 (Inl x, s2, es) \<Rightarrow> Some (Inl x, s2, es)
               | (Inr u, s2, es) \<Rightarrow> Option.bind (f E' s2) (\<lambda>(r, s3, es'). Some (r, s3, es @ es'))
          else if current_time s' = 0 then Some (Inr (), s', [Post CB_TimerFinished])
               else Some (Inr (), s', [])) = Some r'"
      show "\<not> (is_running s' \<and> is_paused s' \<and> 0 < current_time s')"
      proof
        assume c: "is_running s' \<and> is_paused s' \<and> 0 < current_time s'"
        with body have "f E' s' \<noteq> None"
          by (auto simp: loop_body_def act_simps)
        with c IH show False by blast
      qed
    qed
    with assms show False by blast
  qed
qed

text \<open>
  C6.  Pressing start twice in a row on a stopped timer starts exactly one countdown
  thread: the second call finds the timer running and does nothing.
\<close>

theorem start_twice_one_loop:
  "\<not> is_running s \<Longrightarrow>
   count_list (effects (start_timer s) @ effects (start_timer (final (start_timer s)))) StartThread = 1"
  by (simp add: start_timer_def act_simps)

text \<open>
  C7.  Selecting a mode on a stopped timer loads exactly the configured duration of that
  mode, shows it as \<open>MM:SS\<close> and empties the progress bar.
\<close>

theorem set_mode_loads_duration:
  assumes "\<not> is_running s"
  shows "mode (set_mode m s) = m \<and> current_time (set_mode m s) = duration_of s m \<and>
         progress_var (set_mode m s) = 0 \<and>
         time_label (set_mode m s) =
           fmt_02d (duration_of s m div 60) @ '':'' @ fmt_02d (duration_of s m mod 60)"
  using assms by (simp add: update_display_labels duration_of_def)

text \<open>
  C8.  Pause and resume: on a running timer the pause button flips the paused flag and
  nothing else of the countdown, and pressing it twice restores the state exactly.
\<close>

theorem pause_resume_roundtrip:
  assumes "is_running s" and "pause_caption s = (if is_paused s then Cap_Resume else Cap_Pause)"
  shows "is_paused (pause_timer s) = (\<not> is_paused s) \<and> current_time (pause_timer s) = current_time s \<and>
         mode (pause_timer s) = mode s \<and> pause_timer (pause_timer s) = s"
  using assms by (cases "is_paused s") (simp_all add: pause_timer_def)

text \<open>
  C9.  Reset stops the timer, clears the pause, keeps the mode, reloads its full
  duration and returns every button to its idle state.
\<close>

theorem reset_restores_idle:
  "let s' = reset_timer s
   in \<not> is_running s' \<and> \<not> is_paused s' \<and> mode s' = mode s \<and>
      current_time s' = duration_of s (mode s) \<and> start_button s' = Normal \<and>
      pause_button s' = Disabled \<and> pause_caption s' = Cap_Pause \<and> reset_button s' = Normal"
  by (simp add: reset_timer_def Let_def duration_of_def)

text \<open>
  C10.  Every button the user can press keeps the consistency of timer and buttons
  (\<open>ui_inv\<close>), whatever the world answers, including when the handler raises.
\<close>

theorem buttons_keep_ui_inv:
  assumes "ui_inv s" and "enabled ev s"
  shows "ui_inv (fst (tk_callback (handler E ev) s))"
proof (cases ev)
  case Ev_Start
  with assms show ?thesis
    by (auto simp: tk_callback_state start_timer_def act_simps ui_inv_def durations_ok_def
        duration_of_def)
next
  case Ev_Pause
  with assms show ?thesis
    by (auto simp: tk_callback_state act_simps ui_inv_def pause_timer_def Let_def
        durations_ok_def duration_of_def split: if_splits)
next
  case Ev_Reset
  with assms show ?thesis
    by (auto simp: tk_callback_state act_simps ui_inv_def reset_timer_def Let_def
        durations_ok_def duration_of_def)
next
  case (Ev_SetMode m)
  with assms show ?thesis
    by (auto simp: tk_callback_state act_simps ui_inv_def set_mode_def durations_ok_def
        duration_of_def less_imp_le)
qed (use assms in \<open>simp_all add: tk_callback_state ui_inv_kept keeps_view_settings keeps_view_world\<close>)

text \<open>
  C11.  \<^verbatim>\<open>timer_finished\<close> never clears the paused flag: it stops the timer but
  leaves \<^verbatim>\<open>is_paused\<close> as it found it, on every path.
\<close>

theorem finish_keeps_pause_flag:
  "is_paused (final (timer_finished E s)) = is_paused s"
proof -
  have "keeps is_paused (timer_finished E)"
    unfolding timer_finished_def
    by (auto intro!: keeps_intros keeps_world_calls_any simp: set_mode_fields split: sum.split)
  then show ?thesis by (simp add: keeps_def)
qed

text \<open>
  C12.  A count that is not a number (a \<^verbatim>\<open>null\<close> in the configuration file) makes
  the completion of a work period raise \<^verbatim>\<open>TypeError\<close> after the timer has been
  stopped: the mode does not advance and the remaining time stays at its old value.
\<close>

theorem finish_null_count_raises:
  assumes "mode s = Work" and "pomodoro_count s = JNull" and "exists_ok E (ringtone_path s)"
  shows "outcome (timer_finished E s) = Inl TypeError \<and> \<not> is_running (final (timer_finished E s)) \<and>
         mode (final (timer_finished E s)) = Work \<and>
         current_time (final (timer_finished E s)) = current_time s"
  using assms by (simp add: timer_finished_def act_simps play_sound_ok)

text \<open>
  C13.  The side effects of completing a work period whose wallpaper can be applied
  come in exactly this order: the finish cue, the modal message box, the toast, the
  wallpaper change with its success box, the configuration write made by
  \<^verbatim>\<open>apply_wallpaper\<close>, and last the write of \<^verbatim>\<open>timer_finished\<close> itself,
  both with the new count.
\<close>

theorem finish_effects_in_order:
  assumes "mode s = Work" and "pomodoro_count s = JInt n"
    and "exists_ok E (ringtone_path s)" and "wallpaper_path s = JStr p" and "p \<noteq> []"
    and "path_exists E (JStr p) = Inr True" and "spi_set E (JStr p) = SPI_True"
  shows "effects (timer_finished E s) =
            cue_effects E Finish (ringtone_path s) @ MsgBox Info (Msg_WorkDone (JInt (n + 1))) #
            notify_effects E (Msg_WorkDone (JInt (n + 1))) @
            SetWallpaper (JStr p) # MsgBox Info Msg_WallpaperApplied #
            save_effects E (final (timer_finished E s)) @ save_effects E (final (timer_finished E s))"
proof -
  have "exists_ok E (wallpaper_path s)" using assms(4,6) by (simp add: exists_ok_def)
  with assms show ?thesis
    by (simp add: timer_finished_work apply_effects_def set_mode_fields save_effects_update_display)
qed

text \<open>
  C14.  When the chosen wallpaper file has gone, completing a work period opens a modal
  error box, although the transition was not started by the user.
\<close>

theorem finish_missing_wallpaper_error_box:
  assumes "mode s = Work" and "pomodoro_count s = JInt n" and "exists_ok E (ringtone_path s)"
    and "py_truthy (wallpaper_path s)" and "path_exists E (wallpaper_path s) = Inr False"
  shows "MsgBox Error Msg_WallpaperMissing \<in> set (effects (timer_finished E s))"
proof -
  have "exists_ok E (wallpaper_path s)" using assms(5) by (simp add: exists_ok_def)
  with assms show ?thesis
    by (simp add: timer_finished_work apply_effects_def)
qed

end
