(* ===== verification/Display.thy ===== *)
theory Display
  imports Timer
begin

text \<open>
  What the display shows (\<^verbatim>\<open>update_display\<close>, lines 173--195).  To state that the
  time label shows the exact remaining time, \<open>parse_mmss\<close> reads a label of the form
  \<open>MM:SS\<close> back into seconds, as a user reads it: the label produced by
  \<open>fmt_02d\<close> for any non-negative time reads back as that time, whatever the number
  of minute digits.
\<close>


definition digit_val :: "char \<Rightarrow> nat option" where
  "digit_val c = map_of (zip ''0123456789'' [0..<10]) c"

fun parse_digits :: "string \<Rightarrow> nat \<Rightarrow> nat option" where
  "parse_digits [] acc = Some acc"
| "parse_digits (c # cs) acc =
     (case digit_val c of None \<Rightarrow> None | Some d \<Rightarrow> parse_digits cs (10 * acc + d))"

definition parse_nat :: "string \<Rightarrow> nat option" where
  "parse_nat cs = (if cs = [] then None else parse_digits cs 0)"

definition parse_mmss :: "string \<Rightarrow> int option" where
  "parse_mmss xs =
     (case dropWhile (\<lambda>c. c \<noteq> CHR '':'') xs of
        [] \<Rightarrow> None
      | _ # sec \<Rightarrow>
          (case (parse_nat (takeWhile (\<lambda>c. c \<noteq> CHR '':'') xs), parse_nat sec) of
             (Some m, Some k) \<Rightarrow> if k < 60 then Some (60 * int m + int k) else None
           | _ \<Rightarrow> None))"

subsection \<open>Lemmas\<close>

lemma digit_val_digit: "d < 10 \<Longrightarrow> digit_val (''0123456789'' ! d) = Some d"
  unfolding digit_val_def by (subst map_of_zip_nth) simp_all

lemma digit_table_mem: "d < 10 \<Longrightarrow> ''0123456789'' ! d \<in> set ''0123456789''"
  by (rule nth_mem) simp

lemma parse_digits_append:
  "parse_digits (xs @ ys) acc = (case parse_digits xs acc of None \<Rightarrow> None | Some a \<Rightarrow> parse_digits ys a)"
  by (induction xs acc rule: parse_digits.induct) (auto split: option.split)

lemma dec_digits_nonempty: "dec_digits n \<noteq> []"
  by (subst dec_digits.simps) simp

lemma parse_dec_digits: "parse_digits (dec_digits n) acc = Some (acc * 10 ^ length (dec_digits n) + n)"
proof (induction n arbitrary: acc rule: dec_digits.induct)
  case (1 n)
  show ?case
  proof (cases "n < 10")
    case True
    then show ?thesis by (subst (1 2) dec_digits.simps) (simp add: digit_val_digit)
  next
    case False
    then have "dec_digits n = dec_digits (n div 10) @ [''0123456789'' ! (n mod 10)]"
      by (subst dec_digits.simps) simp
    with False "1.IH" show ?thesis
      by (simp add: parse_digits_append digit_val_digit algebra_simps)
  qed
qed

lemma parse_zeros: "parse_digits (replicate k (CHR ''0'') @ xs) 0 = parse_digits xs 0"
  using digit_val_digit [of 0] by (induction k) simp_all

lemma dec_digits_no_colon: "CHR '':'' \<notin> set (dec_digits n)"
proof (induction n rule: dec_digits.induct)
  case (1 n)
  have tab: "d < 10 \<Longrightarrow> ''0123456789'' ! d \<noteq> CHR '':''" for d
    using digit_table_mem [of d] by auto
  show ?case
  proof (cases "n < 10")
    case True
    with tab [of n] show ?thesis by (subst dec_digits.simps) simp
  next
    case False
    with tab [of "n mod 10"] "1.IH" show ?thesis by (subst dec_digits.simps) simp
  qed
qed

lemma parse_fmt_02d: "0 \<le> i \<Longrightarrow> parse_nat (fmt_02d i) = Some (nat i)"
  by (simp add: fmt_02d_def Let_def parse_nat_def parse_zeros parse_dec_digits dec_digits_nonempty)

lemma fmt_02d_no_colon: "0 \<le> i \<Longrightarrow> \<forall>c\<in>set (fmt_02d i). c \<noteq> CHR '':''"
  using dec_digits_no_colon by (auto simp: fmt_02d_def Let_def)

text \<open>
  C15.  The time label shows exactly the remaining time: for every non-negative
  \<^verbatim>\<open>current_time\<close>, the text \<^verbatim>\<open>update_display\<close> puts in the label reads back,
  minutes times sixty plus seconds, as that time.
\<close>

theorem time_label_roundtrip:
  "0 \<le> current_time s \<Longrightarrow> parse_mmss (time_label (update_display s)) = Some (current_time s)"
proof -
  assume t: "0 \<le> current_time s"
  let ?m = "fmt_02d (current_time s div 60)" and ?k = "fmt_02d (current_time s mod 60)"
  have m: "0 \<le> current_time s div 60" and k: "0 \<le> current_time s mod 60" using t by simp_all
  have "dropWhile (\<lambda>c. c \<noteq> CHR '':'') (?m @ '':'' @ ?k) = CHR '':'' # ?k"
    using fmt_02d_no_colon [OF m] by (simp add: dropWhile_append3)
  moreover have "takeWhile (\<lambda>c. c \<noteq> CHR '':'') (?m @ '':'' @ ?k) = ?m"
    using fmt_02d_no_colon [OF m] by (simp add: takeWhile_append2)
  ultimately show ?thesis
    using t m k by (simp add: update_display_labels parse_mmss_def parse_fmt_02d)
qed

end
