(* ===== verification/Session.thy ===== *)
theory Session
  imports Timer
begin

text \<open>
  One period of use as the program runs it when the user does nothing while the timer
  counts: \<^verbatim>\<open>start_timer\<close> starts the loop thread, the loop runs to its end, and
  the Tk thread then runs the callbacks the loop posted with \<^verbatim>\<open>root.after\<close>, in
  order (\<open>run_posted\<close>).  This is one schedule of the two threads; the posted
  display refreshes only rewrite the labels from the state, so the final state is that
  of any schedule in which the user does not act.  \<open>countdown_cycle\<close> is
  \<open>None\<close> when the loop never returns.  \<open>work_cycle\<close> is the result of a whole work
  period, used by the scenarios of the root theory.
\<close>

fun run_callback :: "env \<Rightarrow> callback \<Rightarrow> unit prog" where
  "run_callback E CB_UpdateDisplay = modify_act update_display"
| "run_callback E CB_TimerFinished = timer_finished E"

fun run_posted :: "env \<Rightarrow> callback list \<Rightarrow> app \<Rightarrow> app \<times> effect list" where
  "run_posted E [] s = (s, [])"
| "run_posted E (cb # cbs) s =
     (case tk_callback (run_callback E cb) s of
        (s1, es1) \<Rightarrow> (case run_posted E cbs s1 of (s2, es2) \<Rightarrow> (s2, es1 @ es2)))"

fun posted :: "effect list \<Rightarrow> callback list" where
  "posted [] = []"
| "posted (Post cb # es) = cb # posted es"
| "posted (_ # es) = posted es"

definition countdown_cycle :: "env \<Rightarrow> app \<Rightarrow> (app \<times> effect list) option" where
  "countdown_cycle E s =
     (case start_timer s of
        (_, s1, es1) \<Rightarrow>
          if StartThread \<in> set es1 then
            (case timer_loop E s1 of
               None \<Rightarrow> None
             | Some (r, s2, es2) \<Rightarrow>
                 (case run_posted E (posted es2) s2 of
                    (s3, es3) \<Rightarrow>
                      Some (s3, es1 @ es2 @ (case r of Inl x \<Rightarrow> [Traceback x] | Inr _ \<Rightarrow> []) @ es3)))
          else Some (s1, es1))"

subsection \<open>Lemmas\<close>

lemma posted_append [simp]: "posted (xs @ ys) = posted xs @ posted ys"
  by (induction xs rule: posted.induct) auto

lemma posted_no_post: "(\<And>c. Post c \<notin> set xs) \<Longrightarrow> posted xs = []"
  by (induction xs rule: posted.induct) auto

lemma posted_countdown: "posted (countdown_effects E p n) = replicate n CB_UpdateDisplay"
  by (induction n) (simp_all add: posted_no_post cue_effects_no_tick)

lemma update_display_idem [simp]: "update_display (update_display s) = update_display s"
  by (simp add: update_display_def Let_def)

lemma run_posted_displays:
  "run_posted E (replicate (Suc n) CB_UpdateDisplay @ cbs) s = run_posted E cbs (update_display s)"
proof (induction n arbitrary: s)
  case 0
  then show ?case by (simp add: tk_callback_def act_simps)
next
  case (Suc n)
  have "run_posted E (replicate (Suc (Suc n)) CB_UpdateDisplay @ cbs) s =
        run_posted E (replicate (Suc n) CB_UpdateDisplay @ cbs) (update_display s)"
    by (simp add: tk_callback_def act_simps)
  also have "\<dots> = run_posted E cbs (update_display s)"
    using Suc.IH [of "update_display s"] by simp
  finally show ?case .
qed

lemma run_posted_finished:
  "outcome (timer_finished E s) = Inr () \<Longrightarrow>
   run_posted E [CB_TimerFinished] s = (final (timer_finished E s), effects (timer_finished E s))"
  by (cases "timer_finished E s") (simp add: tk_callback_def)

lemma countdown_cycle_result:
  assumes "\<not> is_running s" and "current_time s = int (Suc n)" and "exists_ok E (ringtone_path s)"
  defines "s2 \<equiv> update_display (s\<lparr>is_running := True, is_paused := False, start_button := Disabled,
             pause_button := Normal, reset_button := Disabled, current_time := 0\<rparr>)"
  assumes fin: "outcome (timer_finished E s2) = Inr ()"
  shows "countdown_cycle E s =
           Some (final (timer_finished E s2),
                 StartThread # countdown_effects E (ringtone_path s) (Suc n) @ [Post CB_TimerFinished] @
                 effects (timer_finished E s2))"
proof -
  let ?s1 = "s\<lparr>is_running := True, is_paused := False, start_button := Disabled,
               pause_button := Normal, reset_button := Disabled\<rparr>"
  have st: "start_timer s = (Inr (), ?s1, [StartThread])"
    using assms(1) by (simp add: start_timer_def act_simps)
  have lp: "timer_loop E ?s1 = Some (Inr (), ?s1\<lparr>current_time := 0\<rparr>,
              countdown_effects E (ringtone_path s) (Suc n) @ [Post CB_TimerFinished])"
    using timer_loop_runs [of ?s1 "Suc n" E] assms(2,3) by simp
  have "posted (countdown_effects E (ringtone_path s) (Suc n) @ [Post CB_TimerFinished]) =
          replicate (Suc n) CB_UpdateDisplay @ [CB_TimerFinished]"
    by (simp only: posted_append posted_countdown) simp
  moreover have "run_posted E (replicate (Suc n) CB_UpdateDisplay @ [CB_TimerFinished])
          (?s1\<lparr>current_time := 0\<rparr>) = (final (timer_finished E s2), effects (timer_finished E s2))"
    using run_posted_finished [OF fin] by (simp only: run_posted_displays s2_def)
  ultimately have "run_posted E (posted (countdown_effects E (ringtone_path s) (Suc n) @ [Post CB_TimerFinished]))
          (?s1\<lparr>current_time := 0\<rparr>) = (final (timer_finished E s2), effects (timer_finished E s2))"
    by (simp only:)
  with st lp show ?thesis by (simp add: countdown_cycle_def del: countdown_effects.simps)
qed

lemma work_cycle:
  assumes "\<not> is_running s" and "mode s = Work" and "current_time s = int (Suc n)"
    and "pomodoro_count s = JInt c"
    and "exists_ok E (ringtone_path s)" and "exists_ok E (wallpaper_path s)"
  defines "s2 \<equiv> update_display (s\<lparr>is_running := True, is_paused := False, start_button := Disabled,
             pause_button := Normal, reset_button := Disabled, current_time := 0\<rparr>)"
  shows "\<exists>s'. countdown_cycle E s =
            Some (s', StartThread # countdown_effects E (ringtone_path s) (Suc n) @ [Post CB_TimerFinished] @
                      effects (timer_finished E s2)) \<and>
          mode s' = break_after (c + 1) \<and> current_time s' = duration_of s (break_after (c + 1)) \<and>
          pomodoro_count s' = JInt (c + 1) \<and> \<not> is_running s' \<and> \<not> is_paused s'"
proof -
  have tf: "outcome (timer_finished E s2) = Inr () \<and>
            mode (final (timer_finished E s2)) = break_after (c + 1) \<and>
            current_time (final (timer_finished E s2)) = duration_of s (break_after (c + 1)) \<and>
            pomodoro_count (final (timer_finished E s2)) = JInt (c + 1) \<and>
            \<not> is_running (final (timer_finished E s2)) \<and> \<not> is_paused (final (timer_finished E s2))"
    using assms(2,4-6) by (simp add: s2_def timer_finished_work duration_of_def)
  then have "countdown_cycle E s =
           Some (final (timer_finished E s2),
                 StartThread # countdown_effects E (ringtone_path s) (Suc n) @ [Post CB_TimerFinished] @
                 effects (timer_finished E s2))"
    using countdown_cycle_result [OF assms(1,3,5)] by (simp add: s2_def)
  with tf show ?thesis by blast
qed

end
