(* ===== verification/Threads.thy ===== *)
theory Threads
  imports Session
begin

text \<open>
  The two threads of the program and their interleaving.  \<^verbatim>\<open>start_timer\<close> starts
  \<^verbatim>\<open>timer_loop\<close> on a daemon thread; the Tk thread runs the button commands and the
  callbacks the loop posts with \<^verbatim>\<open>root.after\<close>, one at a time, in the order of its
  queue.  The system state \<open>sys\<close> is the object, the program counter of every loop
  thread started so far and still alive, the queue of posted callbacks and the effects
  performed so far.  A loop thread is either about to test the \<^verbatim>\<open>while\<close>
  condition (\<open>At_Test\<close>) or inside \<^verbatim>\<open>time.sleep(1)\<close> (\<open>At_Sleep\<close>); what follows
  the sleep in the loop body (\<open>after_sleep\<close>) runs as one step.  A Tk step runs one
  whole handler: a posted callback, or the command of a button that is enabled.
  \<open>sys_step\<close> is the step relation, \<open>boot\<close> the state after \<^verbatim>\<open>__init__\<close>,
  \<open>reachable\<close> its reflexive transitive closure.
\<close>

datatype pc = At_Test | At_Sleep

record sys =
  app_st :: app
  threads :: "pc list"
  queue :: "callback list"
  trace :: "effect list"

text \<open>The loop body after \<^verbatim>\<open>time.sleep(1)\<close> (lines 243--248).\<close>

definition after_sleep :: "env \<Rightarrow> unit prog" where
  "after_sleep E =
     seq_act (modify_act (\<lambda>s. s\<lparr>current_time := current_time s - 1\<rparr>))
    (seq_act (emit_act (Post CB_UpdateDisplay))
      (if_act (\<lambda>s. current_time s = 10) (play_sound E Warning) (ret ())))"

definition drop_nth :: "nat \<Rightarrow> 'a list \<Rightarrow> 'a list" where
  "drop_nth i xs = take i xs @ drop (Suc i) xs"

text \<open>Effects that neither start a thread nor post a callback.\<close>

fun thread_free :: "effect \<Rightarrow> bool" where
  "thread_free (Post c) = False"
| "thread_free StartThread = False"
| "thread_free _ = True"

text \<open>An exception that ends a thread is printed by the thread machinery.\<close>

definition thread_exit :: "exn + unit \<Rightarrow> effect list" where
  "thread_exit r = (case r of Inl x \<Rightarrow> [Traceback x] | Inr _ \<Rightarrow> [])"

text \<open>
  One handler run by the Tk thread: the threads it starts begin at the loop test, the
  callbacks it posts join the end of the queue.
\<close>

definition tk_step :: "sys \<Rightarrow> unit prog \<Rightarrow> sys" where
  "tk_step S h =
     (case tk_callback h (app_st S) of
        (s', es) \<Rightarrow>
          S\<lparr>app_st := s', threads := threads S @ replicate (count_list es StartThread) At_Test,
            queue := queue S @ posted es, trace := trace S @ es\<rparr>)"

inductive sys_step :: "env \<Rightarrow> sys \<Rightarrow> sys \<Rightarrow> bool" for E where
  loop_enter:
  "i < length (threads S) \<Longrightarrow> threads S ! i = At_Test \<Longrightarrow> is_running (app_st S) \<Longrightarrow>
   0 < current_time (app_st S) \<Longrightarrow> \<not> is_paused (app_st S) \<Longrightarrow>
   sys_step E S (S\<lparr>threads := (threads S)[i := At_Sleep], trace := trace S @ [Sleep 1000]\<rparr>)"
| loop_spin:
  "i < length (threads S) \<Longrightarrow> threads S ! i = At_Test \<Longrightarrow> is_running (app_st S) \<Longrightarrow>
   0 < current_time (app_st S) \<Longrightarrow> is_paused (app_st S) \<Longrightarrow> sys_step E S S"
| loop_exit:
  "i < length (threads S) \<Longrightarrow> threads S ! i = At_Test \<Longrightarrow>
   \<not> (is_running (app_st S) \<and> 0 < current_time (app_st S)) \<Longrightarrow>
   fin = (if current_time (app_st S) = 0 then [CB_TimerFinished] else []) \<Longrightarrow>
   sys_step E S (S\<lparr>threads := drop_nth i (threads S), queue := queue S @ fin,
                    trace := trace S @ map Post fin\<rparr>)"
| loop_wake:
  "i < length (threads S) \<Longrightarrow> threads S ! i = At_Sleep \<Longrightarrow>
   after_sleep E (app_st S) = (r, s', es) \<Longrightarrow>
   sys_step E S (S\<lparr>app_st := s',
                    threads := (if isl r then drop_nth i (threads S) else (threads S)[i := At_Test]),
                    queue := queue S @ posted es, trace := trace S @ es @ thread_exit r\<rparr>)"
| tk_run:
  "queue S = cb # q \<Longrightarrow> sys_step E S (tk_step (S\<lparr>queue := q\<rparr>) (run_callback E cb))"
| tk_user:
  "enabled ev (app_st S) \<Longrightarrow> sys_step E S (tk_step S (handler E ev))"

definition boot :: "env \<Rightarrow> cfg_file \<Rightarrow> sys" where
  "boot E f =
     \<lparr>app_st = final (init_timer E f initial_attrs), threads = [], queue = [],
      trace = effects (init_timer E f initial_attrs)\<rparr>"

definition reachable :: "env \<Rightarrow> cfg_file \<Rightarrow> sys \<Rightarrow> bool" where
  "reachable E f S \<longleftrightarrow> (sys_step E)\<^sup>*\<^sup>* (boot E f) S"

text \<open>
  The invariant of the thread structure: at most one loop thread or pending completion
  exists, either of them only while the timer runs, and the reset button is disabled
  while it runs.
\<close>

definition thr_inv :: "sys \<Rightarrow> bool" where
  "thr_inv S \<longleftrightarrow>
     length (threads S) + count_list (queue S) CB_TimerFinished \<le> 1 \<and>
     (threads S \<noteq> [] \<or> CB_TimerFinished \<in> set (queue S) \<longrightarrow> is_running (app_st S)) \<and>
     (is_running (app_st S) \<longrightarrow> reset_button (app_st S) = Disabled)"

text \<open>
  A stranded timer: it runs, no loop thread is alive and no completion is pending, so
  nothing will ever stop it (the reset button is disabled).
\<close>

definition stranded :: "sys \<Rightarrow> bool" where
  "stranded S \<longleftrightarrow> is_running (app_st S) \<and> threads S = [] \<and>
     CB_TimerFinished \<notin> set (queue S) \<and> reset_button (app_st S) = Disabled"

inductive_cases sys_stepE: "sys_step E S S'"

subsection \<open>The loop body\<close>

lemma loop_iteration_split: "loop_iteration E = seq_act (emit_act (Sleep 1000)) (after_sleep E)"
  by (simp add: loop_iteration_def after_sleep_def)

lemma after_sleep_ok:
  assumes "current_time s - 1 \<noteq> 10 \<or> exists_ok E (ringtone_path s)"
  shows "after_sleep E s =
           (Inr (), s\<lparr>current_time := current_time s - 1\<rparr>,
            Post CB_UpdateDisplay #
            (if current_time s - 1 = 10 then cue_effects E Warning (ringtone_path s) else []))"
  using assms by (auto simp: after_sleep_def act_simps play_sound_ok)

lemma after_sleep_raises:
  "current_time s - 1 = 10 \<Longrightarrow> py_truthy (ringtone_path s) \<Longrightarrow>
   path_exists E (ringtone_path s) = Inl x \<Longrightarrow>
   after_sleep E s = (Inl x, s\<lparr>current_time := current_time s - 1\<rparr>, [Post CB_UpdateDisplay])"
  by (simp add: after_sleep_def act_simps play_sound_raises)

subsection \<open>Handlers that start no thread and post no callback\<close>

lemma emits_world_calls:
  "emits thread_free (play_sound E t)" "emits thread_free (save_config E)"
  "emits thread_free (show_notification E m)"
  unfolding play_sound_def play_system_sound_def winsound_play_def save_config_def
    show_notification_def
  by (auto intro!: emits_intros split: sum.split bool.split write_result.split)

lemma emits_wallpaper:
  "emits thread_free (apply_wallpaper E)" "emits thread_free (restore_wallpaper E)"
  unfolding apply_wallpaper_def restore_wallpaper_def
  by (auto intro!: emits_intros emits_world_calls split: sum.split bool.split spi_result.split)

lemma emits_timer_finished: "emits thread_free (timer_finished E)"
  unfolding timer_finished_def
  by (auto intro!: emits_intros emits_world_calls emits_wallpaper split: sum.split)

lemma emits_handler: "ev \<noteq> Ev_Start \<Longrightarrow> emits thread_free (handler E ev)"
  by (cases ev) (auto simp: select_wallpaper_def select_ringtone_def test_ringtone_def
      use_system_sound_def intro!: emits_intros emits_world_calls emits_wallpaper)

lemma emits_run_callback: "emits thread_free (run_callback E cb)"
  by (cases cb) (simp_all add: emits_intros emits_timer_finished)

lemma thread_free_list:
  "list_all thread_free es \<Longrightarrow> posted es = [] \<and> count_list es StartThread = 0"
  by (induction es rule: posted.induct) auto

lemma tk_callback_apply:
  "tk_callback h s = (final (h s), effects (h s) @ thread_exit (outcome (h s)))"
  by (cases "h s") (auto simp: tk_callback_def thread_exit_def split: sum.split)

lemma tk_step_quiet:
  assumes "emits thread_free h"
  shows "tk_step S h = S\<lparr>app_st := final (h (app_st S)),
     trace := trace S @ effects (h (app_st S)) @ thread_exit (outcome (h (app_st S)))\<rparr>"
proof -
  obtain r s' es where h: "h (app_st S) = (r, s', es)" by (cases "h (app_st S)")
  have "posted es = [] \<and> count_list es StartThread = 0"
    using emitsD [OF assms h] by (rule thread_free_list)
  with h show ?thesis by (cases r) (simp_all add: tk_step_def tk_callback_def thread_exit_def)
qed

lemma tk_step_start:
  "tk_step S start_timer =
     (if is_running (app_st S) then S
      else S\<lparr>app_st := app_st S\<lparr>is_running := True, is_paused := False, start_button := Disabled,
                                pause_button := Normal, reset_button := Disabled\<rparr>,
             threads := threads S @ [At_Test], trace := trace S @ [StartThread]\<rparr>)"
  by (simp add: tk_step_def tk_callback_def start_timer_def act_simps)

subsection \<open>What the handlers change of the thread structure\<close>

lemma timer_finished_stops: "\<not> is_running (final (timer_finished E s))"
  unfolding timer_finished_def final_seq_modify
  by (subst keeps_final [where g = is_running])
     (auto intro!: keeps_intros keeps_world_calls_any simp: set_mode_fields split: sum.split)

lemma handler_keeps_running:
  assumes "ev \<noteq> Ev_Start" and "ev \<noteq> Ev_Reset"
  shows "is_running (final (handler E ev s)) = is_running s \<and>
         reset_button (final (handler E ev s)) = reset_button s"
proof -
  have "timer_view (final (handler E ev s)) = timer_view s \<or>
        (is_running (final (handler E ev s)) = is_running s \<and>
         reset_button (final (handler E ev s)) = reset_button s)"
    using assms
    by (cases ev) (auto simp: keeps_final keeps_view_settings keeps_view_world act_simps
        pause_timer_def set_mode_def Let_def)
  then show ?thesis by (auto simp: timer_view_def)
qed

lemma reset_stops: "\<not> is_running (final (handler E Ev_Reset s))"
  by (simp add: act_simps reset_timer_def Let_def set_mode_fields)

lemma init_stopped: "\<not> is_running (final (init_timer E f initial_attrs))"
proof -
  have "keeps is_running (init_timer E f)"
    unfolding init_timer_def load_config_def save_original_wallpaper_def
    by (auto intro!: keeps_intros simp: create_ui_def split: cfg_file.split json.split sum.split)
  then show ?thesis by (simp add: keeps_final initial_attrs_def)
qed

lemma after_sleep_shape:
  "\<exists>r es. after_sleep E s = (r, s\<lparr>current_time := current_time s - 1\<rparr>, Post CB_UpdateDisplay # es) \<and>
          list_all thread_free es"
proof (cases "current_time s - 1 = 10")
  case True
  let ?s1 = "s\<lparr>current_time := current_time s - 1\<rparr>"
  obtain r es where p: "play_sound E Warning ?s1 = (r, ?s1, es)"
    using keeps_stateD [OF keeps_play_sound] by blast
  have "list_all thread_free es" using emitsD [OF emits_world_calls(1) p] .
  with True p show ?thesis by (simp add: after_sleep_def act_simps)
next
  case False
  then show ?thesis by (simp add: after_sleep_def act_simps)
qed

lemma length_drop_nth [simp]: "i < length xs \<Longrightarrow> length (drop_nth i xs) = length xs - 1"
  by (simp add: drop_nth_def)

subsection \<open>The thread invariant\<close>

lemma thr_inv_boot: "thr_inv (boot E f)"
  using init_stopped by (simp add: thr_inv_def boot_def)

lemma count_pos_mem: "0 < count_list xs x \<longleftrightarrow> x \<in> set xs"
  by (induction xs) auto

lemma thr_inv_step: "sys_step E S S' \<Longrightarrow> thr_inv S \<Longrightarrow> thr_inv S'"
proof (induction rule: sys_step.induct)
  case (loop_enter i S)
  then show ?case by (simp add: thr_inv_def)
next
  case (loop_spin i S)
  then show ?case by simp
next
  case (loop_exit i S fin)
  then show ?case by (auto simp: thr_inv_def count_pos_mem [symmetric])
next
  case (loop_wake i S r s' es)
  obtain r' es' where a: "after_sleep E (app_st S) =
      (r', app_st S\<lparr>current_time := current_time (app_st S) - 1\<rparr>, Post CB_UpdateDisplay # es')"
    and q: "list_all thread_free es'"
    using after_sleep_shape by blast
  have "posted es' = []" using thread_free_list [OF q] by simp
  with a loop_wake show ?case by (auto simp: thr_inv_def)
next
  case (tk_run S cb q)
  then show ?case
  proof (cases cb)
    case CB_UpdateDisplay
    with tk_run show ?thesis by (simp add: tk_step_quiet emits_intros thr_inv_def act_simps)
  next
    case CB_TimerFinished
    with tk_run have "threads S = [] \<and> CB_TimerFinished \<notin> set q"
      by (auto simp: thr_inv_def count_pos_mem [symmetric])
    with CB_TimerFinished show ?thesis
      by (simp add: tk_step_quiet emits_timer_finished thr_inv_def timer_finished_stops)
  qed
next
  case (tk_user ev S)
  consider "ev = Ev_Start" | "ev = Ev_Reset" | "ev \<noteq> Ev_Start \<and> ev \<noteq> Ev_Reset" by blast
  then show ?case
  proof cases
    case 1
    with tk_user show ?thesis
      by (auto simp: tk_step_start thr_inv_def count_pos_mem [symmetric])
  next
    case 2
    with tk_user show ?thesis
      by (auto simp: tk_step_quiet emits_handler thr_inv_def reset_stops simp del: handler.simps)
  next
    case 3
    with tk_user show ?thesis
      using handler_keeps_running [of ev E "app_st S"]
      by (simp add: tk_step_quiet emits_handler thr_inv_def del: handler.simps)
  qed
qed

lemma thr_inv_reachable: "reachable E f S \<Longrightarrow> thr_inv S"
  unfolding reachable_def
  by (induction rule: rtranclp_induct) (auto intro: thr_inv_boot thr_inv_step)

lemma handler_running_frozen:
  assumes "is_running s" and "ev \<noteq> Ev_Start" and "ev \<noteq> Ev_Reset"
  shows "current_time (final (handler E ev s)) = current_time s \<and>
         mode (final (handler E ev s)) = mode s"
proof -
  have "timer_view (final (handler E ev s)) = timer_view s \<or>
        (current_time (final (handler E ev s)) = current_time s \<and>
         mode (final (handler E ev s)) = mode s)"
    using assms
    by (cases ev) (auto simp: keeps_final keeps_view_settings keeps_view_world act_simps
        pause_timer_def Let_def)
  then show ?thesis by (auto simp: timer_view_def)
qed

lemma stranded_step:
  assumes "sys_step E S S'" and "stranded S"
  shows "stranded S' \<and> current_time (app_st S') = current_time (app_st S) \<and>
         mode (app_st S') = mode (app_st S)"
  using assms
proof (induction rule: sys_step.induct)
  case (tk_run S cb q)
  then have "cb = CB_UpdateDisplay" by (cases cb) (auto simp: stranded_def)
  with tk_run show ?case by (simp add: tk_step_quiet emits_intros stranded_def act_simps)
next
  case (tk_user ev S)
  consider "ev = Ev_Start" | "ev = Ev_Reset" | "ev \<noteq> Ev_Start \<and> ev \<noteq> Ev_Reset" by blast
  then show ?case
  proof cases
    case 1
    with tk_user show ?thesis by (simp add: tk_step_start stranded_def)
  next
    case 2
    with tk_user show ?thesis by (simp add: stranded_def)
  next
    case 3
    with tk_user show ?thesis
      using handler_keeps_running [of ev E "app_st S"] handler_running_frozen [of "app_st S" ev E]
      by (simp add: tk_step_quiet emits_handler stranded_def del: handler.simps)
  qed
qed (auto simp: stranded_def)

subsection \<open>Runs\<close>

text \<open>
  The loop thread alone, \<open>k\<close> seconds from \<open>k + n\<close> down to \<open>n\<close>: the effects are
  those of the sequential loop, and each second posts one display refresh.
\<close>

lemma sys_countdown:
  assumes "threads S = [At_Test]" and "app_st S = s" and "is_running s" and "\<not> is_paused s"
    and "current_time s = int (k + n)" and "exists_ok E (ringtone_path s) \<or> 10 < n"
  shows "\<exists>es. countdown_effects E (ringtone_path s) (k + n) =
                es @ countdown_effects E (ringtone_path s) n \<and>
              (sys_step E)\<^sup>*\<^sup>* S (S\<lparr>app_st := s\<lparr>current_time := int n\<rparr>,
                 queue := queue S @ replicate k CB_UpdateDisplay, trace := trace S @ es\<rparr>)"
  using assms
proof (induction k arbitrary: S s)
  case 0
  then have "S\<lparr>app_st := s\<lparr>current_time := int n\<rparr>, queue := queue S @ replicate 0 CB_UpdateDisplay,
               trace := trace S @ []\<rparr> = S"
    by simp
  then show ?case by (intro exI [of _ "[]"]) simp
next
  case (Suc k)
  let ?s1 = "s\<lparr>current_time := int (k + n)\<rparr>"
  let ?cue = "if int (k + n) = 10 then cue_effects E Warning (ringtone_path s) else []"
  let ?S1 = "S\<lparr>threads := [At_Sleep], trace := trace S @ [Sleep 1000]\<rparr>"
  let ?S2 = "S\<lparr>app_st := ?s1, threads := [At_Test], queue := queue S @ [CB_UpdateDisplay],
               trace := trace S @ [Sleep 1000] @ Post CB_UpdateDisplay # ?cue\<rparr>"
  have e: "sys_step E S ?S1"
    using loop_enter [where i = 0 and S = S] Suc.prems(1-5) by simp
  have "current_time s - 1 \<noteq> 10 \<or> exists_ok E (ringtone_path s)"
    using Suc.prems(5,6) by auto
  then have a: "after_sleep E (app_st ?S1) = (Inr (), ?s1, Post CB_UpdateDisplay # ?cue)"
    using after_sleep_ok [of s E] Suc.prems(2,5) by simp
  have p: "posted (Post CB_UpdateDisplay # ?cue) = [CB_UpdateDisplay]"
    by (simp add: posted_no_post cue_effects_no_tick)
  have w: "sys_step E ?S1 ?S2"
    using loop_wake [where i = 0 and S = ?S1, OF _ _ a] p by (simp add: thread_exit_def)
  have ih: "\<exists>es. countdown_effects E (ringtone_path ?s1) (k + n) =
                es @ countdown_effects E (ringtone_path ?s1) n \<and>
              (sys_step E)\<^sup>*\<^sup>* ?S2 (?S2\<lparr>app_st := ?s1\<lparr>current_time := int n\<rparr>,
                 queue := queue ?S2 @ replicate k CB_UpdateDisplay, trace := trace ?S2 @ es\<rparr>)"
    by (rule Suc.IH) (use Suc.prems in simp_all)
  then obtain es where es: "countdown_effects E (ringtone_path s) (k + n) =
      es @ countdown_effects E (ringtone_path s) n"
    and r: "(sys_step E)\<^sup>*\<^sup>* ?S2 (?S2\<lparr>app_st := ?s1\<lparr>current_time := int n\<rparr>,
               queue := queue ?S2 @ replicate k CB_UpdateDisplay, trace := trace ?S2 @ es\<rparr>)"
    by auto
  have eq: "?S2\<lparr>app_st := ?s1\<lparr>current_time := int n\<rparr>,
               queue := queue ?S2 @ replicate k CB_UpdateDisplay, trace := trace ?S2 @ es\<rparr> =
      S\<lparr>app_st := s\<lparr>current_time := int n\<rparr>, queue := queue S @ replicate (Suc k) CB_UpdateDisplay,
        trace := trace S @ (Sleep 1000 # Post CB_UpdateDisplay # ?cue @ es)\<rparr>"
    using Suc.prems(1) by simp
  have "countdown_effects E (ringtone_path s) (Suc k + n) =
        (Sleep 1000 # Post CB_UpdateDisplay # ?cue @ es) @ countdown_effects E (ringtone_path s) n"
    using es by simp
  moreover have "(sys_step E)\<^sup>*\<^sup>* S
      (S\<lparr>app_st := s\<lparr>current_time := int n\<rparr>, queue := queue S @ replicate (Suc k) CB_UpdateDisplay,
        trace := trace S @ (Sleep 1000 # Post CB_UpdateDisplay # ?cue @ es)\<rparr>)"
    using converse_rtranclp_into_rtranclp [OF e converse_rtranclp_into_rtranclp [OF w r]]
    unfolding eq .
  ultimately show ?case by blast
qed

lemma sys_exit_finished:
  "threads S = [At_Test] \<Longrightarrow> current_time (app_st S) = 0 \<Longrightarrow>
   sys_step E S (S\<lparr>threads := [], queue := queue S @ [CB_TimerFinished],
                    trace := trace S @ [Post CB_TimerFinished]\<rparr>)"
  using loop_exit [where i = 0 and S = S and fin = "[CB_TimerFinished]"]
  by (simp add: drop_nth_def)

lemma sys_drain:
  "(sys_step E)\<^sup>*\<^sup>* (S\<lparr>queue := cbs @ q\<rparr>)
     (S\<lparr>app_st := fst (run_posted E cbs (app_st S)), queue := q,
        trace := trace S @ snd (run_posted E cbs (app_st S))\<rparr>)"
proof (induction cbs arbitrary: S)
  case Nil
  then show ?case by simp
next
  case (Cons cb cbs)
  let ?h = "run_callback E cb (app_st S)"
  let ?X = "S\<lparr>app_st := final ?h, trace := trace S @ effects ?h @ thread_exit (outcome ?h)\<rparr>"
  have st0: "sys_step E (S\<lparr>queue := (cb # cbs) @ q\<rparr>)
      (S\<lparr>queue := cbs @ q, app_st := final ?h,
         trace := trace S @ effects ?h @ thread_exit (outcome ?h)\<rparr>)"
    using tk_run [where S = "S\<lparr>queue := (cb # cbs) @ q\<rparr>" and cb = cb and q = "cbs @ q"]
    by (simp add: tk_step_quiet emits_run_callback)
  have "S\<lparr>queue := cbs @ q, app_st := final ?h,
         trace := trace S @ effects ?h @ thread_exit (outcome ?h)\<rparr> = ?X\<lparr>queue := cbs @ q\<rparr>"
    by simp
  with st0 have st: "sys_step E (S\<lparr>queue := (cb # cbs) @ q\<rparr>) (?X\<lparr>queue := cbs @ q\<rparr>)"
    by simp
  have rp: "run_posted E (cb # cbs) (app_st S) =
      (fst (run_posted E cbs (final ?h)),
       (effects ?h @ thread_exit (outcome ?h)) @ snd (run_posted E cbs (final ?h)))"
    by (simp add: tk_callback_apply split: prod.split)
  have "(sys_step E)\<^sup>*\<^sup>* (S\<lparr>queue := (cb # cbs) @ q\<rparr>)
     (?X\<lparr>app_st := fst (run_posted E cbs (app_st ?X)), queue := q,
        trace := trace ?X @ snd (run_posted E cbs (app_st ?X))\<rparr>)"
    by (rule converse_rtranclp_into_rtranclp [OF st Cons.IH])
  then show ?case unfolding rp by simp
qed

text \<open>Start pressed on a stopped timer, then the loop thread alone down to \<open>n\<close> seconds.\<close>

lemma start_and_count:
  assumes "\<not> is_running s" and "start_button s = Normal" and "current_time s = int (k + n)"
    and "exists_ok E (ringtone_path s) \<or> 10 < n"
  shows "\<exists>tr'. (sys_step E)\<^sup>*\<^sup>* \<lparr>app_st = s, threads = [], queue = q, trace = tr\<rparr>
            \<lparr>app_st = s\<lparr>is_running := True, is_paused := False, start_button := Disabled,
                         pause_button := Normal, reset_button := Disabled, current_time := int n\<rparr>,
             threads = [At_Test], queue = q @ replicate k CB_UpdateDisplay, trace = tr'\<rparr>"
proof -
  let ?s1 = "s\<lparr>is_running := True, is_paused := False, start_button := Disabled,
               pause_button := Normal, reset_button := Disabled\<rparr>"
  let ?S1 = "\<lparr>app_st = ?s1, threads = [At_Test], queue = q, trace = tr @ [StartThread]\<rparr>"
  have s1: "sys_step E \<lparr>app_st = s, threads = [], queue = q, trace = tr\<rparr> ?S1"
    using tk_user [where ev = Ev_Start and S = "\<lparr>app_st = s, threads = [], queue = q, trace = tr\<rparr>"]
      assms(1,2) by (simp add: tk_step_start)
  obtain es1 where "(sys_step E)\<^sup>*\<^sup>* ?S1 (?S1\<lparr>app_st := ?s1\<lparr>current_time := int n\<rparr>,
            queue := queue ?S1 @ replicate k CB_UpdateDisplay, trace := trace ?S1 @ es1\<rparr>)"
    using sys_countdown [where S = ?S1 and s = ?s1 and k = k and n = n and E = E] assms(3,4)
    by auto
  then have "(sys_step E)\<^sup>*\<^sup>* \<lparr>app_st = s, threads = [], queue = q, trace = tr\<rparr>
      (?S1\<lparr>app_st := ?s1\<lparr>current_time := int n\<rparr>,
            queue := queue ?S1 @ replicate k CB_UpdateDisplay, trace := trace ?S1 @ es1\<rparr>)"
    by (rule converse_rtranclp_into_rtranclp [where r = "sys_step E", OF s1])
  then show ?thesis by (intro exI [of _ "tr @ StartThread # es1"]) simp
qed

text \<open>The loop rules for a system with one loop thread.\<close>

lemma loop_enter_single:
  "threads S = [At_Test] \<Longrightarrow> is_running (app_st S) \<Longrightarrow> 0 < current_time (app_st S) \<Longrightarrow>
   \<not> is_paused (app_st S) \<Longrightarrow>
   sys_step E S (S\<lparr>threads := [At_Sleep], trace := trace S @ [Sleep 1000]\<rparr>)"
  using loop_enter [where i = 0 and S = S and E = E] by simp

lemma loop_wake_single:
  assumes "threads S = [At_Sleep]" and "after_sleep E (app_st S) = (r, s', es)"
  shows "sys_step E S (S\<lparr>app_st := s', threads := (if isl r then [] else [At_Test]),
                    queue := queue S @ posted es, trace := trace S @ es @ thread_exit r\<rparr>)"
proof -
  have "(if isl r then drop_nth 0 (threads S) else (threads S)[0 := At_Test]) =
        (if isl r then [] else [At_Test])"
    using assms(1) by (simp add: drop_nth_def)
  then show ?thesis
    using loop_wake [where i = 0 and S = S, OF _ _ assms(2)] assms(1) by simp
qed

text \<open>
  The warning cue raises on the loop thread (\<^verbatim>\<open>os.path.exists\<close> raises on the
  ringtone path): the exception ends the thread after it has posted the refresh.
\<close>

lemma warning_raise_ends_loop:
  assumes "is_running a" and "\<not> is_paused a" and "current_time a = 11"
    and "py_truthy (ringtone_path a)" and "path_exists E (ringtone_path a) = Inl x"
  shows "(sys_step E)\<^sup>*\<^sup>* \<lparr>app_st = a, threads = [At_Test], queue = q, trace = tr\<rparr>
            \<lparr>app_st = a\<lparr>current_time := 10\<rparr>, threads = [], queue = q @ [CB_UpdateDisplay],
             trace = tr @ [Sleep 1000, Post CB_UpdateDisplay, Traceback x]\<rparr>"
proof -
  let ?S0 = "\<lparr>app_st = a, threads = [At_Test], queue = q, trace = tr\<rparr>"
  let ?S1 = "\<lparr>app_st = a, threads = [At_Sleep], queue = q, trace = tr @ [Sleep 1000]\<rparr>"
  have e: "sys_step E ?S0 ?S1"
    using loop_enter [where i = 0 and S = ?S0] assms(1-3) by simp
  have as: "after_sleep E a = (Inl x, a\<lparr>current_time := 10\<rparr>, [Post CB_UpdateDisplay])"
    using after_sleep_raises [of a E x] assms(3-5) by simp
  have w: "sys_step E ?S1 \<lparr>app_st = a\<lparr>current_time := 10\<rparr>, threads = [],
      queue = q @ [CB_UpdateDisplay], trace = tr @ [Sleep 1000, Post CB_UpdateDisplay, Traceback x]\<rparr>"
    using loop_wake_single [where S = ?S1 and E = E and r = "Inl x"
        and s' = "a\<lparr>current_time := 10\<rparr>" and es = "[Post CB_UpdateDisplay]"] as
    by (simp add: thread_exit_def)
  from e w show ?thesis by (simp add: converse_rtranclp_into_rtranclp)
qed

lemma threads_quiet_step:
  "sys_step E S S' \<Longrightarrow> threads S = [At_Sleep] \<Longrightarrow> is_running (app_st S) \<Longrightarrow>
   threads S' \<noteq> [At_Sleep] \<Longrightarrow>
   \<exists>r s' es. after_sleep E (app_st S) = (r, s', es) \<and>
     S' = S\<lparr>app_st := s', threads := (if isl r then [] else [At_Test]),
            queue := queue S @ posted es, trace := trace S @ es @ thread_exit r\<rparr>"
proof (induction rule: sys_step.induct)
  case (loop_wake i S r s' es)
  then show ?case by (auto simp: drop_nth_def)
next
  case (tk_run S cb q)
  then show ?case by (simp add: tk_step_quiet emits_run_callback)
next
  case (tk_user ev S)
  then show ?case
    by (cases "ev = Ev_Start") (auto simp: tk_step_quiet emits_handler tk_step_start)
qed auto

subsection \<open>Properties of every interleaving\<close>

text \<open>
  C24.  In every state the program can reach, whatever the user presses and however the
  loop thread and the Tk thread interleave, at most one countdown thread is alive, at
  most one completion is pending, and either exists only while the timer runs.
\<close>

theorem one_loop_thread:
  assumes "reachable E f S"
  shows "length (threads S) \<le> 1 \<and> count_list (queue S) CB_TimerFinished \<le> 1 \<and>
         (threads S \<noteq> [] \<longrightarrow> is_running (app_st S))"
  using thr_inv_reachable [OF assms] by (auto simp: thr_inv_def)

text \<open>
  C25.  A stranded timer stays stranded: once the timer runs with no loop thread and no
  pending completion, no sequence of steps (any button, any callback) ever changes its
  time or its mode again; the period never completes.
\<close>

theorem stranded_forever:
  assumes "stranded S" and "(sys_step E)\<^sup>*\<^sup>* S S'"
  shows "stranded S' \<and> current_time (app_st S') = current_time (app_st S) \<and>
         mode (app_st S') = mode (app_st S)"
  using assms(2,1)
  by (induction rule: rtranclp_induct) (auto dest: stranded_step)

text \<open>
  C27.  The countdown loop is equivalent to its body repeated once per remaining second
  followed by posting the completion: when the timer runs unpaused with \<open>n\<close> seconds
  left, \<open>timer_loop\<close> returns, with exactly the result, state and effects of
  \<open>n\<close> passes of \<open>loop_iteration\<close> then \<^verbatim>\<open>root.after(0, self.timer_finished)\<close>,
  an exception in a pass included (it ends the thread there).
\<close>

theorem timer_loop_bounded:
  assumes "is_running s" and "\<not> is_paused s" and "current_time s = int n"
  shows "timer_loop E s =
           Some (seq_act (repeat_act n (loop_iteration E)) (emit_act (Post CB_TimerFinished)) s)"
  using assms
proof (induction n arbitrary: s)
  case 0
  then show ?case by (subst timer_loop.simps) (simp add: act_simps)
next
  case (Suc n)
  obtain r es where it: "loop_iteration E s = (r, s\<lparr>current_time := int n\<rparr>, es)"
    using loop_iteration_state [of E s] Suc.prems(3) by auto
  show ?case
  proof (cases r)
    case (Inl x)
    with it Suc.prems show ?thesis
      by (subst timer_loop.simps) (simp add: seq_assoc act_simps)
  next
    case (Inr u)
    with it Suc.prems Suc.IH [of "s\<lparr>current_time := int n\<rparr>"] show ?thesis
      by (subst timer_loop.simps) (simp add: seq_assoc act_simps split: prod.split)
  qed
qed

text \<open>
  C28.  A pause in the last second does not stop the period.  The user presses pause
  while the loop thread sleeps through its last second; then every step the loop thread
  takes decrements the time to zero although the timer is paused, and the loop's next
  test posts the completion (\<^verbatim>\<open>timer_finished\<close>, which leaves the stopped timer
  paused, C11): the loop tests the pause only before it sleeps.
\<close>

theorem pause_in_last_second:
  assumes "reachable E f S" and "threads S = [At_Sleep]" and "current_time (app_st S) = 1"
    and "\<not> is_paused (app_st S)" and "pause_button (app_st S) = Normal"
  shows "sys_step E S (tk_step S (handler E Ev_Pause)) \<and> is_paused (app_st (tk_step S (handler E Ev_Pause))) \<and>
         (\<forall>S2. sys_step E (tk_step S (handler E Ev_Pause)) S2 \<longrightarrow> threads S2 \<noteq> [At_Sleep] \<longrightarrow>
            threads S2 = [At_Test] \<and> current_time (app_st S2) = 0 \<and> is_paused (app_st S2) \<and>
            sys_step E S2 (S2\<lparr>threads := [], queue := queue S2 @ [CB_TimerFinished],
                              trace := trace S2 @ [Post CB_TimerFinished]\<rparr>))"
proof -
  let ?S1 = "tk_step S (handler E Ev_Pause)"
  have run: "is_running (app_st S)"
    using thr_inv_reachable [OF assms(1)] assms(2) by (simp add: thr_inv_def)
  let ?a = "app_st S\<lparr>is_paused := True, pause_caption := Cap_Resume\<rparr>"
  have "?S1 = S\<lparr>app_st := final (handler E Ev_Pause (app_st S)),
      trace := trace S @ effects (handler E Ev_Pause (app_st S)) @
               thread_exit (outcome (handler E Ev_Pause (app_st S)))\<rparr>"
    by (rule tk_step_quiet [OF emits_handler]) simp
  then have s1: "?S1 = S\<lparr>app_st := ?a, trace := trace S @ []\<rparr>"
    using run assms(4) by (simp add: act_simps pause_timer_def thread_exit_def)
  have step: "sys_step E S ?S1"
    using tk_user [where ev = Ev_Pause and S = S and E = E] assms(5) by simp
  have wake: "after_sleep E ?a = (Inr (), ?a\<lparr>current_time := 0\<rparr>, [Post CB_UpdateDisplay])"
    using after_sleep_ok [of ?a E] assms(3) by simp
  have "threads S2 = [At_Test] \<and> current_time (app_st S2) = 0 \<and> is_paused (app_st S2) \<and>
        sys_step E S2 (S2\<lparr>threads := [], queue := queue S2 @ [CB_TimerFinished],
                          trace := trace S2 @ [Post CB_TimerFinished]\<rparr>)"
    if st: "sys_step E ?S1 S2" and ne: "threads S2 \<noteq> [At_Sleep]" for S2
  proof -
    from threads_quiet_step [OF st _ _ ne] s1 assms(2) wake run
    have "S2 = ?S1\<lparr>app_st := ?a\<lparr>current_time := 0\<rparr>, threads := [At_Test],
        queue := queue ?S1 @ [CB_UpdateDisplay], trace := trace ?S1 @ [Post CB_UpdateDisplay]\<rparr>"
      by (auto simp: thread_exit_def)
    then have t: "threads S2 = [At_Test]" "current_time (app_st S2) = 0" "is_paused (app_st S2)"
      by simp_all
    then show ?thesis using sys_exit_finished [of S2 E] by simp
  qed
  with step s1 show ?thesis by simp
qed

end
