(* ===== verification/Persistence.thy ===== *)
theory Persistence
  imports Timer
begin

text \<open>
  The configuration store (\<^verbatim>\<open>load_config\<close>, \<^verbatim>\<open>save_config\<close>, lines 371--398)
  against the world: \<open>apply_world\<close> replays the effects of a save on the file, and
  \<^verbatim>\<open>load_config\<close> reads it back into a fresh object.  The lemmas show the round trip
  of the three persisted values, the defaults kept for a missing, unreadable or non-object
  file, the loss of the stored values when the write fails after \<^verbatim>\<open>open\<close> has
  truncated the file, that the ringtone label is never updated at start-up, and that
  closing the window writes what a restart loads.
\<close>

lemma load_config_object:
  "load_config (Holds (JObj kvs)) s =
     (let s1 = s\<lparr>wallpaper_path := dict_get kvs ''wallpaper_path'' JNull,
                 ringtone_path := dict_get kvs ''ringtone_path'' JNull,
                 pomodoro_count := dict_get kvs ''pomodoro_count'' (JInt 0)\<rparr>
      in if \<not> py_truthy (ringtone_path s1) then (Inr (), s1, [])
         else case py_basename (ringtone_path s1) of
                Inr n \<Rightarrow> if ui_created s1 then (Inr (), s1\<lparr>ringtone_label := Chosen n\<rparr>, [])
                        else (Inr (), s1, [Print Log_LoadConfig])
              | Inl _ \<Rightarrow> (Inr (), s1, [Print Log_LoadConfig]))"
  by (simp add: load_config_def act_simps Let_def split: sum.split)

lemma apply_world_write: "config_file (apply_world w [WriteConfig c]) = Holds c"
  by (simp add: apply_world_def)

text \<open>
  C17.  Save then load is the identity on the persisted values: when the write
  succeeds, loading the file it leaves into any object restores the wallpaper path, the
  ringtone path and the count, \<^verbatim>\<open>None\<close> included.
\<close>

theorem save_load_roundtrip:
  assumes "write_result E = Write_Ok"
  shows "let w' = apply_world w (effects (save_config E s));
             s'' = final (load_config (config_file w') s')
         in wallpaper_path s'' = wallpaper_path s \<and> ringtone_path s'' = ringtone_path s \<and>
            pomodoro_count s'' = pomodoro_count s"
  using assms
  by (simp add: save_config_result save_effects_def apply_world_write load_config_object
      config_json_def dict_get_def Let_def split: sum.split)

text \<open>
  C18.  A missing configuration file, an unreadable one, or one that holds a JSON value
  other than an object leaves the object unchanged (the defaults at start-up), and only
  a failure to read is reported.
\<close>

theorem load_without_object_keeps_defaults:
  assumes "\<forall>kvs. f \<noteq> Holds (JObj kvs)"
  shows "load_config f s = (Inr (), s, if f = NoFile then [] else [Print Log_LoadConfig])"
  using assms by (cases f) (auto simp: load_config_def act_simps split: json.split)

text \<open>
  C19.  The save is not atomic: when \<^verbatim>\<open>json.dump\<close> fails after \<^verbatim>\<open>open\<close> has
  truncated the file, the previous contents are lost and the next start-up counts from
  zero.
\<close>

theorem truncated_save_loses_count:
  assumes "write_result E = Dump_Fails"
  shows "config_file (apply_world w (effects (save_config E s))) = Corrupt \<and>
         pomodoro_count (final (load_config (config_file (apply_world w (effects (save_config E s))))
                                  initial_attrs)) = JInt 0"
  using assms
  by (simp add: save_config_result save_effects_def apply_world_def load_config_def act_simps
      initial_attrs_def)

text \<open>
  C20.  At start-up a configured ringtone is loaded but not shown: \<^verbatim>\<open>load_config\<close>
  runs before \<^verbatim>\<open>create_ui\<close>, so updating the ringtone label raises
  \<^verbatim>\<open>AttributeError\<close>, reported as a failed load, and the labels then show the
  defaults (system sound, no wallpaper chosen).
\<close>

theorem startup_hides_loaded_ringtone:
  assumes "py_truthy (dict_get kvs ''ringtone_path'' JNull)"
  shows "let r = init_timer E (Holds (JObj kvs)) initial_attrs
         in ringtone_path (final r) = dict_get kvs ''ringtone_path'' JNull \<and>
            Print Log_LoadConfig \<in> set (effects r) \<and> ringtone_label (final r) = SystemSound \<and>
            wallpaper_label (final r) = NoWallpaperChosen"
  using assms
  by (simp add: init_timer_def load_config_object act_simps save_original_wallpaper_def
      create_ui_def initial_attrs_def Let_def split: sum.split)

text \<open>
  C35.  Closing the window asks for confirmation exactly when the timer runs, and the
  window is destroyed exactly when the timer is stopped or the user confirms; whenever it
  is destroyed, the configuration has been written first, so that (when the write
  succeeds) the next start-up loads the count and the two paths the object held.
\<close>

theorem close_persists:
  assumes "write_result E = Write_Ok"
  shows "(Destroy \<in> set (effects (on_closing E ok s)) \<longleftrightarrow> \<not> is_running s \<or> ok) \<and>
         (MsgBox AskOkCancel Msg_ConfirmExit \<in> set (effects (on_closing E ok s)) \<longleftrightarrow> is_running s) \<and>
         (Destroy \<in> set (effects (on_closing E ok s)) \<longrightarrow>
            (let s'' = final (load_config (config_file (apply_world w (effects (on_closing E ok s))))
                                initial_attrs)
             in pomodoro_count s'' = pomodoro_count s \<and> wallpaper_path s'' = wallpaper_path s \<and>
                ringtone_path s'' = ringtone_path s))"
  using assms
  by (auto simp: on_closing_def act_simps save_config_result save_effects_def apply_world_def
      load_config_object config_json_def dict_get_def Let_def split: sum.split)

end
