(* ===== verification/Invariants.thy ===== *)
theory Invariants
  imports Threads Persistence
begin

text \<open>
  Invariants of the whole program over every interleaving of the loop thread and the
  Tk thread.  The count is kept as whatever JSON value the configuration file held
  (\<^verbatim>\<open>config.get('pomodoro_count', 0)\<close> checks no type); \<open>cfg_count_ok\<close> says the
  file holds no count, or a non-negative \<^verbatim>\<open>int\<close>.  From such a file the count stays a
  non-negative \<^verbatim>\<open>int\<close> in every reachable state: the type the code assumes when it
  computes \<^verbatim>\<open>self.pomodoro_count += 1\<close> and \<^verbatim>\<open>% 4\<close>.  The clock
  invariant \<open>app_ok\<close> bounds the time and the progress bar in every reachable state,
  and with it every unpaused period can run to its end through loop and Tk steps alone.
\<close>

fun cfg_count_ok :: "cfg_file \<Rightarrow> bool" where
  "cfg_count_ok (Holds (JObj kvs)) = count_ok (dict_get kvs ''pomodoro_count'' (JInt 0))"
| "cfg_count_ok _ = True"

abbreviation count_typed :: "app \<Rightarrow> bool" where
  "count_typed s \<equiv> count_ok (pomodoro_count s)"

text \<open>
  The clock of the object: the durations are positive, the remaining time lies between
  zero and the duration of the mode, and the progress bar between 0 and 100.  Over the
  interleaved system, a sleeping loop thread also has time left (it entered the sleep
  with \<^verbatim>\<open>current_time > 0\<close>).  \<open>clock\<close> is the part of the state
  \<open>app_ok\<close> reads.
\<close>

definition app_ok :: "app \<Rightarrow> bool" where
  "app_ok s \<longleftrightarrow> durations_ok s \<and> 0 \<le> current_time s \<and> current_time s \<le> duration_of s (mode s) \<and>
     0 \<le> progress_var s \<and> progress_var s \<le> 100"

definition clock :: "app \<Rightarrow> int \<times> int \<times> int \<times> int \<times> mode \<times> real" where
  "clock s = (work_time s, short_break_time s, long_break_time s, current_time s, mode s, progress_var s)"

definition time_ok :: "sys \<Rightarrow> bool" where
  "time_ok S \<longleftrightarrow> app_ok (app_st S) \<and> (At_Sleep \<in> set (threads S) \<longrightarrow> 0 < current_time (app_st S))"

lemma py_incr_nonneg: "count_ok c \<Longrightarrow> py_incr c = Inr n \<Longrightarrow> 0 \<le> n"
  using py_incr_count_ok [of c] by auto

lemmas preserves_world_calls = keeps_world_calls [THEN preserves_keeps_state]

lemma preserves_timer_finished: "preserves count_typed (timer_finished E)"
  unfolding timer_finished_def
  apply (intro preserves_seq preserves_modify preserves_world_calls preserves_bind_get
      preserves_bind preserves_if preserves_ret preserves_emit)
  by (auto simp: set_mode_fields act_simps py_incr_nonneg split: sum.split)

lemma preserves_handler: "preserves count_typed (handler E ev)"
  by (cases ev)
     (auto simp: start_timer_def pause_timer_def reset_timer_def Let_def set_mode_fields
        select_wallpaper_def select_ringtone_def test_ringtone_def use_system_sound_def
        intro!: preserves_seq preserves_modify preserves_world_calls preserves_if
        preserves_emit preserves_ret)

lemma preserves_after_sleep: "preserves count_typed (after_sleep E)"
  unfolding after_sleep_def
  by (intro preserves_seq preserves_modify preserves_emit preserves_if preserves_world_calls
      preserves_ret) simp

lemma preserves_load_config: "cfg_count_ok f \<Longrightarrow> preserves count_typed (load_config f)"
  by (cases f rule: cfg_count_ok.cases) (auto simp: load_config_def act_simps preserves_def split: sum.split)

lemma init_count:
  assumes "cfg_count_ok f"
  shows "count_typed (final (init_timer E f initial_attrs))"
proof -
  have "preserves count_typed (init_timer E f)"
    unfolding init_timer_def save_original_wallpaper_def
    by (auto simp: create_ui_def preserves_load_config [OF assms]
        intro!: preserves_intros split: sum.split)
  then show ?thesis by (rule preservesD) (simp add: initial_attrs_def)
qed

lemma app_tk_step: "app_st (tk_step S h) = final (h (app_st S))"
  by (simp add: tk_step_def tk_callback_state [symmetric] split: prod.split)

text \<open>
  An attribute predicate kept by every handler, by \<^verbatim>\<open>timer_finished\<close> and by the
  lines after the loop's sleep, and by \<^verbatim>\<open>update_display\<close>, holds in every state a step reaches, whatever the step.
\<close>

lemma app_step_preserves:
  assumes hd: "\<And>ev. preserves P (handler E ev)" and tf: "preserves P (timer_finished E)"
    and sl: "preserves P (after_sleep E)" and ud: "\<And>s. P s \<Longrightarrow> P (update_display s)"
  shows "sys_step E S S' \<Longrightarrow> P (app_st S) \<Longrightarrow> P (app_st S')"
proof (induction rule: sys_step.induct)
  case (loop_wake i S r s' es)
  then show ?case using preservesD [OF sl, of "app_st S"] by simp
next
  case (tk_run S cb q)
  then show ?case
    by (cases cb) (simp_all add: app_tk_step act_simps preservesD [OF tf] ud)
next
  case (tk_user ev S)
  then show ?case by (simp add: app_tk_step preservesD [OF hd] del: handler.simps)
qed simp_all

lemma reachable_app_inv:
  assumes "reachable E f S" and "P (final (init_timer E f initial_attrs))"
    and "\<And>ev. preserves P (handler E ev)" and "preserves P (timer_finished E)"
    and "preserves P (after_sleep E)" and "\<And>s. P s \<Longrightarrow> P (update_display s)"
  shows "P (app_st S)"
  using assms(1) unfolding reachable_def
proof (induction rule: rtranclp_induct)
  case base
  show ?case by (simp add: boot_def assms(2))
next
  case (step S' S'')
  show ?case using app_step_preserves [OF assms(3-6) step.hyps(2) step.IH] .
qed

text \<open>
  C30.  Type invariant of the count: started from a configuration file that holds no
  count or a non-negative \<^verbatim>\<open>int\<close>, the count is a non-negative \<^verbatim>\<open>int\<close> in every
  reachable state, whatever the user presses and however the threads interleave.
\<close>

theorem count_type_invariant:
  assumes "cfg_count_ok f" and "reachable E f S"
  shows "\<exists>n. pomodoro_count (app_st S) = JInt n \<and> 0 \<le> n"
proof -
  have "count_typed (app_st S)"
    by (rule reachable_app_inv [OF assms(2) init_count [OF assms(1)] preserves_handler
        preserves_timer_finished preserves_after_sleep]) simp
  then show ?thesis by (cases "pomodoro_count (app_st S)") auto
qed

lemma app_ok_clockI:
  assumes ok: "app_ok s" and c: "clock s' = clock s"
  shows "app_ok s'"
proof -
  from c have "duration_of s' (mode s') = duration_of s (mode s)"
    by (simp add: clock_def duration_of_def)
  with ok c show ?thesis by (simp add: clock_def app_ok_def durations_ok_def)
qed

lemma preserves_clock: "keeps clock m \<Longrightarrow> preserves app_ok m"
  by (auto simp: preserves_def keeps_final intro: app_ok_clockI)

lemma update_display_progress:
  assumes "durations_ok s" and "0 \<le> current_time s" and "current_time s \<le> duration_of s (mode s)"
  shows "0 \<le> progress_var (update_display s) \<and> progress_var (update_display s) \<le> 100"
proof -
  let ?d = "duration_of s (mode s)" and ?t = "current_time s"
  define x where "x = (real_of_int ?d - real_of_int ?t) / real_of_int ?d"
  from assms have d: "0 < ?d" by (simp add: durations_ok_pos)
  with assms have "0 \<le> x" and "x \<le> 1"
    by (simp_all add: x_def divide_le_eq_1)
  then have "0 \<le> x * 100 \<and> x * 100 \<le> 100" by linarith
  then show ?thesis by (simp only: update_display_labels x_def)
qed

lemma app_ok_update_display: "app_ok s \<Longrightarrow> app_ok (update_display s)"
proof -
  assume ok: "app_ok s"
  have "duration_of (update_display s) (mode s) = duration_of s (mode s)"
    by (simp add: duration_of_def)
  with ok update_display_progress [of s] show ?thesis
    by (simp add: app_ok_def durations_ok_def)
qed

lemma app_ok_set_mode: "app_ok s \<Longrightarrow> app_ok (set_mode m s)"
proof (cases "is_running s")
  case False
  assume ok: "app_ok s"
  let ?s1 = "s\<lparr>mode := m, current_time := duration_of s m\<rparr>"
  have "duration_of ?s1 m = duration_of s m" by (simp add: duration_of_def)
  with ok durations_ok_pos [of s m] have "app_ok ?s1"
    by (simp add: app_ok_def durations_ok_def)
  with False show ?thesis by (simp add: set_mode_def app_ok_update_display)
qed simp

lemma app_ok_reset: "app_ok s \<Longrightarrow> app_ok (reset_timer s)"
proof -
  assume ok: "app_ok s"
  let ?s1 = "s\<lparr>is_running := False, is_paused := False\<rparr>"
  have "app_ok ?s1" using ok by (rule app_ok_clockI) (simp add: clock_def)
  then have "app_ok (set_mode (mode ?s1) ?s1)" by (rule app_ok_set_mode)
  then show ?thesis
    by (simp add: reset_timer_def Let_def) (erule app_ok_clockI, simp add: clock_def)
qed

lemma preserves_app_ok_finished: "preserves app_ok (timer_finished E)"
  unfolding timer_finished_def
  by (intro preserves_seq preserves_modify preserves_world_calls preserves_bind_get
      preserves_bind preserves_if preserves_ret preserves_emit)
     (auto simp: act_simps app_ok_update_display intro!: app_ok_set_mode
       intro: app_ok_clockI simp: clock_def split: sum.split)

lemma preserves_app_ok_handler: "preserves app_ok (handler E ev)"
proof (cases ev)
  case Ev_Reset
  then show ?thesis by (auto intro!: preserves_modify app_ok_reset)
next
  case (Ev_SetMode m)
  then show ?thesis by (auto intro!: preserves_modify app_ok_set_mode)
qed (auto intro!: preserves_clock keeps_intros keeps_world_calls_any
      simp: clock_def start_timer_def pause_timer_def Let_def select_wallpaper_def
        select_ringtone_def test_ringtone_def use_system_sound_def)

lemma app_ok_initial: "app_ok initial_attrs"
  by (simp add: app_ok_def initial_attrs_def durations_ok_def)

lemma app_ok_create_ui: "app_ok s \<Longrightarrow> app_ok (create_ui s)"
proof -
  assume ok: "app_ok s"
  have "duration_of (create_ui s) (mode s) = duration_of s (mode s)"
    by (simp add: duration_of_def create_ui_def)
  with ok show ?thesis by (simp add: app_ok_def durations_ok_def create_ui_def)
qed

lemma app_ok_init: "app_ok (final (init_timer E f initial_attrs))"
proof -
  have "preserves app_ok (init_timer E f)"
    unfolding init_timer_def
    by (intro preserves_seq preserves_clock preserves_modify)
       (auto simp: load_config_def save_original_wallpaper_def clock_def app_ok_create_ui
          app_ok_update_display intro!: keeps_intros split: cfg_file.split json.split sum.split)
  then show ?thesis using app_ok_initial by (rule preservesD)
qed

lemma set_drop_nth: "set (drop_nth i xs) \<subseteq> set xs"
  by (auto simp: drop_nth_def dest: in_set_takeD in_set_dropD)

lemma sleep_tk_step: "At_Sleep \<in> set (threads (tk_step S h)) \<longleftrightarrow> At_Sleep \<in> set (threads S)"
  by (simp add: tk_step_def split: prod.split)

lemma app_ok_tick:
  assumes "app_ok s" and "0 < current_time s"
  shows "app_ok (s\<lparr>current_time := current_time s - 1\<rparr>)"
proof -
  have "duration_of (s\<lparr>current_time := current_time s - 1\<rparr>) (mode s) = duration_of s (mode s)"
    by (simp add: duration_of_def)
  with assms show ?thesis by (simp add: app_ok_def durations_ok_def)
qed

lemma time_step:
  assumes "sys_step E S S'" and "thr_inv S" and "time_ok S"
  shows "time_ok S'"
  using assms
proof (induction rule: sys_step.induct)
  case (loop_enter i S)
  then show ?case using set_update_subset_insert [of "threads S" i At_Sleep]
    by (auto simp: time_ok_def)
next
  case (loop_exit i S fin)
  then show ?case using set_drop_nth [of i "threads S"] by (auto simp: time_ok_def)
next
  case (loop_wake i S r s' es)
  then have "length (threads S) = 1"
    by (simp add: thr_inv_def)
  with loop_wake.hyps(1,2) have one: "threads S = [At_Sleep]" "i = 0"
    by (auto simp: length_Suc_conv)
  from loop_wake.prems have pos: "0 < current_time (app_st S)"
    using loop_wake.hyps(1,2) nth_mem by (fastforce simp: time_ok_def)
  obtain r' es' where "after_sleep E (app_st S) =
      (r', app_st S\<lparr>current_time := current_time (app_st S) - 1\<rparr>, Post CB_UpdateDisplay # es')"
    using after_sleep_shape by blast
  with loop_wake.hyps(3) have "s' = app_st S\<lparr>current_time := current_time (app_st S) - 1\<rparr>"
    by simp
  with loop_wake.prems pos one show ?case
    by (auto simp: time_ok_def drop_nth_def app_ok_tick)
next
  case (tk_run S cb q)
  show ?case
  proof (cases cb)
    case CB_UpdateDisplay
    with tk_run show ?thesis
      by (simp add: time_ok_def app_tk_step sleep_tk_step act_simps app_ok_update_display)
  next
    case CB_TimerFinished
    with tk_run have "threads S = []"
      by (auto simp: thr_inv_def)
    with tk_run CB_TimerFinished show ?thesis
      by (simp add: time_ok_def app_tk_step sleep_tk_step
          preservesD [OF preserves_app_ok_finished])
  qed
next
  case (tk_user ev S)
  have ok: "app_ok (final (handler E ev (app_st S)))"
    using tk_user by (simp add: time_ok_def preservesD [OF preserves_app_ok_handler])
  have "0 < current_time (final (handler E ev (app_st S)))"
    if sl: "At_Sleep \<in> set (threads S)"
  proof -
    from sl tk_user.prems have run: "is_running (app_st S)" and pos: "0 < current_time (app_st S)"
      and rb: "reset_button (app_st S) = Disabled"
      by (auto simp: thr_inv_def time_ok_def)
    show ?thesis
    proof (cases "ev = Ev_Start \<or> ev = Ev_Reset")
      case True
      with tk_user.hyps run rb pos show ?thesis
        by (auto simp: start_timer_def act_simps)
    next
      case False
      with run pos handler_running_frozen [of "app_st S" ev E] show ?thesis by simp
    qed
  qed
  with ok show ?case by (simp add: time_ok_def app_tk_step sleep_tk_step)
qed simp

lemma time_ok_reachable: "reachable E f S \<Longrightarrow> time_ok S"
  unfolding reachable_def
proof (induction rule: rtranclp_induct)
  case base
  show ?case by (simp add: time_ok_def boot_def app_ok_init)
next
  case (step S' S'')
  have "thr_inv S'" using step.hyps(1) by (simp add: thr_inv_reachable reachable_def)
  with step show ?case by (blast intro: time_step)
qed

lemma progress_endpoints:
  assumes "durations_ok s"
  shows "(progress_var (update_display s) = 0 \<longleftrightarrow> current_time s = duration_of s (mode s)) \<and>
         (progress_var (update_display s) = 100 \<longleftrightarrow> current_time s = 0)"
proof -
  have d: "0 < real_of_int (duration_of s (mode s))" using assms by (simp add: durations_ok_pos)
  then show ?thesis by (auto simp: update_display_labels field_simps)
qed

lemma queue_displays: "CB_TimerFinished \<notin> set q \<Longrightarrow> q = replicate (length q) CB_UpdateDisplay"
proof (induction q)
  case (Cons a q)
  then show ?case by (cases a) auto
qed simp

lemma run_posted_stops:
  "\<not> is_running (fst (run_posted E (replicate m CB_UpdateDisplay @ [CB_TimerFinished]) s))"
proof (cases m)
  case 0
  then show ?thesis by (simp add: tk_callback_state timer_finished_stops split: prod.split)
next
  case (Suc k)
  show ?thesis
    unfolding Suc run_posted_displays
    by (simp add: tk_callback_state timer_finished_stops split: prod.split)
qed

text \<open>
  C16.  In every reachable state, whatever the user presses and however the threads
  interleave, the remaining time lies between zero and the duration of the mode and the
  progress bar shown lies between 0 and 100; the value \<^verbatim>\<open>update_display\<close>
  computes is 0 exactly at the full duration and 100 exactly at zero.
\<close>

theorem progress_in_range:
  assumes "reachable E f S"
  shows "0 \<le> current_time (app_st S) \<and> current_time (app_st S) \<le> duration_of (app_st S) (mode (app_st S)) \<and>
         0 \<le> progress_var (app_st S) \<and> progress_var (app_st S) \<le> 100 \<and>
         (progress_var (update_display (app_st S)) = 0 \<longleftrightarrow>
            current_time (app_st S) = duration_of (app_st S) (mode (app_st S))) \<and>
         (progress_var (update_display (app_st S)) = 100 \<longleftrightarrow> current_time (app_st S) = 0)"
  using time_ok_reachable [OF assms] progress_endpoints [of "app_st S"]
  by (simp add: time_ok_def app_ok_def)

text \<open>
  C26.  The period can always complete: from every reachable state in which the loop
  thread is at its test, the timer is not paused and the ringtone check cannot raise,
  the loop thread and the Tk thread alone (no button pressed) reach a state where the
  loop has ended, every posted callback has run and the timer is stopped.
\<close>

theorem period_completes:
  assumes "reachable E f S" and "threads S = [At_Test]" and "\<not> is_paused (app_st S)"
    and "exists_ok E (ringtone_path (app_st S))"
  shows "\<exists>S'. (sys_step E)\<^sup>*\<^sup>* S S' \<and> threads S' = [] \<and> queue S' = [] \<and> \<not> is_running (app_st S')"
proof -
  have inv: "thr_inv S" and tok: "time_ok S"
    using assms(1) by (simp_all add: thr_inv_reachable time_ok_reachable)
  with assms(2) have run: "is_running (app_st S)" and tf: "CB_TimerFinished \<notin> set (queue S)"
    by (auto simp: thr_inv_def count_pos_mem [symmetric])
  define n where "n = nat (current_time (app_st S))"
  have n: "current_time (app_st S) = int (n + 0)"
    using tok by (simp add: n_def time_ok_def app_ok_def)
  obtain es where c: "(sys_step E)\<^sup>*\<^sup>* S (S\<lparr>app_st := app_st S\<lparr>current_time := int 0\<rparr>,
      queue := queue S @ replicate n CB_UpdateDisplay, trace := trace S @ es\<rparr>)"
    using sys_countdown [OF assms(2) refl run assms(3) n] assms(4) by blast
  let ?S1 = "S\<lparr>app_st := app_st S\<lparr>current_time := int 0\<rparr>,
      queue := queue S @ replicate n CB_UpdateDisplay, trace := trace S @ es\<rparr>"
  let ?S2 = "?S1\<lparr>threads := [], queue := queue ?S1 @ [CB_TimerFinished],
      trace := trace ?S1 @ [Post CB_TimerFinished]\<rparr>"
  have x: "sys_step E ?S1 ?S2" by (rule sys_exit_finished) (simp_all add: assms(2))
  obtain k where k: "queue S = replicate k CB_UpdateDisplay"
    using queue_displays [OF tf] by blast
  let ?cbs = "replicate (k + n) CB_UpdateDisplay @ [CB_TimerFinished]"
  have d: "(sys_step E)\<^sup>*\<^sup>* ?S2 (?S2\<lparr>app_st := fst (run_posted E ?cbs (app_st ?S2)), queue := [],
      trace := trace ?S2 @ snd (run_posted E ?cbs (app_st ?S2))\<rparr>)"
  proof -
    have e: "?S2\<lparr>queue := ?cbs @ []\<rparr> = ?S2" by (simp add: k replicate_add)
    show ?thesis using sys_drain [where S = ?S2 and cbs = ?cbs and q = "[]" and E = E]
      unfolding e .
  qed
  let ?S3 = "?S2\<lparr>app_st := fst (run_posted E ?cbs (app_st ?S2)), queue := [],
      trace := trace ?S2 @ snd (run_posted E ?cbs (app_st ?S2))\<rparr>"
  have "(sys_step E)\<^sup>*\<^sup>* S ?S2" using c x by (rule rtranclp.rtrancl_into_rtrancl)
  then have r: "(sys_step E)\<^sup>*\<^sup>* S ?S3" using d by (rule rtranclp_trans)
  show ?thesis
  proof (intro exI conjI)
    show "(sys_step E)\<^sup>*\<^sup>* S ?S3" by (rule r)
    show "threads ?S3 = []" by simp
    show "queue ?S3 = []" by simp
    have "app_st ?S3 = fst (run_posted E ?cbs (app_st ?S2))" by simp
    then show "\<not> is_running (app_st ?S3)" by (simp only: run_posted_stops not_False_eq_True)
  qed
qed

end
