(* ===== verification/Labels.thy ===== *)
theory Labels
  imports Invariants
begin

text \<open>
  The file labels and the saved original wallpaper (\<^verbatim>\<open>select_wallpaper\<close>,
  \<^verbatim>\<open>select_ringtone\<close>, \<^verbatim>\<open>save_original_wallpaper\<close>,
  \<^verbatim>\<open>restore_wallpaper\<close>).  A chosen file is shown by its base name
  (\<open>basename_str\<close>, theory \<open>Paths\<close>); the original wallpaper is the value of a
  buffer of \<^verbatim>\<open>MAX_PATH\<close> characters, kept whatever the call returned, and no
  handler, callback or loop step changes it after start-up, so
  \<^verbatim>\<open>restore_wallpaper\<close> sets exactly it.  \<open>label_names\<close> says a
  label is a default text or the base name of the stored path.
\<close>

fun label_names :: "file_label \<Rightarrow> json \<Rightarrow> bool" where
  "label_names (Chosen n) (JStr p) = (n = basename_str p)"
| "label_names (Chosen n) _ = False"
| "label_names _ _ = True"

definition labels_consistent :: "app \<Rightarrow> bool" where
  "labels_consistent s \<longleftrightarrow>
     label_names (wallpaper_label s) (wallpaper_path s) \<and> label_names (ringtone_label s) (ringtone_path s)"

definition file_view :: "app \<Rightarrow> file_label \<times> json \<times> file_label \<times> json" where
  "file_view s = (wallpaper_label s, wallpaper_path s, ringtone_label s, ringtone_path s)"

lemma save_original_result:
  "desktop_wallpaper E = Inr (ok, buf) \<Longrightarrow>
   save_original_wallpaper E s = (Inr (), s\<lparr>original_wallpaper := JStr (buffer_value buf)\<rparr>, [])"
  by (simp add: save_original_wallpaper_def act_simps)

lemma load_config_returns: "\<exists>s' es. load_config f s = (Inr (), s', es)"
  unfolding load_config_def
  by (auto simp: act_simps split: cfg_file.split json.split sum.split prod.split)

lemma emits_load_config: "emits (\<lambda>e. e = Print Log_LoadConfig) (load_config f)"
  unfolding load_config_def by (auto intro!: emits_intros split: cfg_file.split json.split sum.split)

lemma init_original:
  assumes "desktop_wallpaper E = Inr (ok, buf)"
  shows "original_wallpaper (final (init_timer E f s)) = JStr (buffer_value buf)"
    "list_all (\<lambda>e. e = Print Log_LoadConfig) (effects (init_timer E f s))"
proof -
  obtain s1 es where l: "load_config f s = (Inr (), s1, es)"
    using load_config_returns by blast
  have i: "init_timer E f s =
      (Inr (), update_display (create_ui (s1\<lparr>original_wallpaper := JStr (buffer_value buf)\<rparr>)), es)"
    by (simp add: init_timer_def seq_act_def bind_act_def modify_act_def l save_original_result [OF assms])
  show "original_wallpaper (final (init_timer E f s)) = JStr (buffer_value buf)"
    by (simp add: i final_def create_ui_def)
  show "list_all (\<lambda>e. e = Print Log_LoadConfig) (effects (init_timer E f s))"
    using emitsD [OF emits_load_config l] by (simp add: i effects_def)
qed

lemma keeps_original_handler: "keeps original_wallpaper (handler E ev)"
  by (cases ev)
     (auto simp: start_timer_def pause_timer_def reset_timer_def Let_def set_mode_fields
        select_wallpaper_def select_ringtone_def test_ringtone_def use_system_sound_def
        intro!: keeps_intros keeps_world_calls_any)

lemma keeps_original_finished: "keeps original_wallpaper (timer_finished E)"
  unfolding timer_finished_def
  by (auto intro!: keeps_intros keeps_world_calls_any simp: set_mode_fields split: sum.split)

lemma keeps_original_after_sleep: "keeps original_wallpaper (after_sleep E)"
  unfolding after_sleep_def by (auto intro!: keeps_intros keeps_world_calls_any)


lemma labels_consistent_view:
  "labels_consistent s = (case file_view s of (a, b, c, d) \<Rightarrow> label_names a b \<and> label_names c d)"
  by (simp add: labels_consistent_def file_view_def)

lemma preserves_file_view: "keeps file_view m \<Longrightarrow> preserves labels_consistent m"
  unfolding labels_consistent_view by (rule preserves_keeps)

lemma keeps_files_finished: "keeps file_view (timer_finished E)"
  unfolding timer_finished_def
  by (auto intro!: keeps_intros keeps_world_calls_any simp: file_view_def set_mode_def split: sum.split)

lemma keeps_files_after_sleep: "keeps file_view (after_sleep E)"
  unfolding after_sleep_def by (auto intro!: keeps_intros keeps_world_calls_any simp: file_view_def)

lemma save_original_returns: "\<exists>s' es. save_original_wallpaper E s = (Inr (), s', es)"
  by (auto simp: save_original_wallpaper_def act_simps split: sum.split)

lemma init_timer_final: "\<exists>s'. final (init_timer E f s) = update_display (create_ui s')"
proof -
  obtain s1 es where l: "load_config f s = (Inr (), s1, es)"
    using load_config_returns by blast
  obtain s2 es2 where o: "save_original_wallpaper E s1 = (Inr (), s2, es2)"
    using save_original_returns by blast
  have "init_timer E f s = (Inr (), update_display (create_ui s2), es @ es2)"
    by (simp add: init_timer_def seq_act_def bind_act_def modify_act_def l o)
  then show ?thesis by (auto simp: final_def)
qed

lemma original_reachable:
  assumes "reachable E f S"
  shows "original_wallpaper (app_st S) = original_wallpaper (final (init_timer E f initial_attrs))"
proof (rule reachable_app_inv [OF assms])
  let ?Q = "\<lambda>w. w = original_wallpaper (final (init_timer E f initial_attrs))"
  show "preserves (\<lambda>s. ?Q (original_wallpaper s)) (handler E ev)" for ev
    by (rule preserves_keeps [OF keeps_original_handler])
  show "preserves (\<lambda>s. ?Q (original_wallpaper s)) (timer_finished E)"
    by (rule preserves_keeps [OF keeps_original_finished])
  show "preserves (\<lambda>s. ?Q (original_wallpaper s)) (after_sleep E)"
    by (rule preserves_keeps [OF keeps_original_after_sleep])
qed simp_all

text \<open>
  C36.  Choosing a file (a non-empty dialog result) stores its full path and shows its
  base name in the label, for the wallpaper and for the ringtone alike; the shown name
  is the last component of the path and a suffix of it, and the change is saved.
\<close>

theorem select_shows_file_name:
  assumes "fp \<noteq> []"
  shows "wallpaper_path (final (select_wallpaper E fp s)) = JStr fp \<and>
         wallpaper_label (final (select_wallpaper E fp s)) = Chosen (basename_str fp) \<and>
         effects (select_wallpaper E fp s) = save_effects E (final (select_wallpaper E fp s)) \<and>
         ringtone_path (final (select_ringtone E fp s)) = JStr fp \<and>
         ringtone_label (final (select_ringtone E fp s)) = Chosen (basename_str fp) \<and>
         effects (select_ringtone E fp s) = save_effects E (final (select_ringtone E fp s)) \<and>
         last_component fp (basename_str fp) \<and> suffix (basename_str fp) fp"
  using assms
  by (simp add: select_wallpaper_def select_ringtone_def act_simps save_config_result
      last_component_basename basename_suffix final_def effects_def)

text \<open>
  C37.  The restore button (and the automatic restore after a break) puts back exactly
  the wallpaper captured at start-up: in every reachable state, when the capture read a
  non-empty path from the buffer and Windows accepts it, \<^verbatim>\<open>restore_wallpaper\<close>
  sets that path, reports success and changes nothing else.
\<close>

theorem restore_sets_captured:
  assumes "reachable E f S" and "desktop_wallpaper E = Inr (ok, buf)"
    and "buffer_value buf \<noteq> []" and "spi_set E (JStr (buffer_value buf)) = SPI_True"
  shows "restore_wallpaper E (app_st S) =
           (Inr (), app_st S, [SetWallpaper (JStr (buffer_value buf)), MsgBox Info Msg_WallpaperRestored])"
proof -
  have "original_wallpaper (app_st S) = JStr (buffer_value buf)"
    using original_reachable [OF assms(1)] init_original(1) [OF assms(2)] by simp
  with assms(3,4) show ?thesis
    by (simp add: restore_wallpaper_result restore_effects_def)
qed

text \<open>
  C38.  The return value of \<^verbatim>\<open>SPI_GETDESKWALLPAPER\<close> is not checked: when the call
  fails and leaves the zeroed buffer, start-up saves the empty string as the original
  wallpaper without reporting anything, and restoring then only warns that there is no
  original wallpaper, so the user's wallpaper cannot be restored.
\<close>

theorem failed_capture_unrestorable:
  assumes "desktop_wallpaper E = Inr (False, [])"
  shows "let r = init_timer E f initial_attrs
         in original_wallpaper (final r) = JStr [] \<and>
            Print Log_OriginalWallpaper \<notin> set (effects r) \<and>
            restore_wallpaper E (final r) = (Inr (), final r, [MsgBox Warn Msg_NoOriginal])"
proof -
  have "original_wallpaper (final (init_timer E f initial_attrs)) = JStr []"
    using init_original(1) [OF assms] by (simp add: buffer_value_def)
  moreover have "Print Log_OriginalWallpaper \<notin> set (effects (init_timer E f initial_attrs))"
    using init_original(2) [OF assms, of f initial_attrs] by (auto simp: list_all_iff)
  ultimately show ?thesis
    by (simp add: restore_wallpaper_result restore_effects_def)
qed

text \<open>
  C39.  The original wallpaper is captured once, at start-up, before any wallpaper is
  set: in every reachable state of the interleaved threads it is the value
  \<^verbatim>\<open>save_original_wallpaper\<close> stored, whatever the user presses and whatever the
  timer transitions apply.
\<close>

theorem original_captured_once:
  assumes "reachable E f S"
  shows "original_wallpaper (app_st S) = original_wallpaper (final (init_timer E f initial_attrs))"
  using original_reachable [OF assms] .

text \<open>
  C40.  The file labels never show a stale name: in every reachable state, a label that
  names a file shows the base name of the path stored for it, so choosing a file and
  switching back to the system sound change the label and the path together.
\<close>

theorem labels_show_stored_file:
  assumes "reachable E f S"
  shows "label_names (wallpaper_label (app_st S)) (wallpaper_path (app_st S)) \<and>
         label_names (ringtone_label (app_st S)) (ringtone_path (app_st S))"
proof -
  have "labels_consistent (app_st S)"
  proof (rule reachable_app_inv [OF assms])
    show "labels_consistent (final (init_timer E f initial_attrs))"
      using init_timer_final [of E f initial_attrs]
      by (auto simp: labels_consistent_def create_ui_def)
    show "preserves labels_consistent (handler E ev)" for ev
      by (cases ev)
         (auto simp: start_timer_def pause_timer_def reset_timer_def Let_def set_mode_def
            select_wallpaper_def select_ringtone_def test_ringtone_def use_system_sound_def
            labels_consistent_def
            intro!: preserves_intros preserves_world_calls)
  qed (rule preserves_file_view [OF keeps_files_finished]
        preserves_file_view [OF keeps_files_after_sleep] | simp add: labels_consistent_def)+
  then show ?thesis by (simp add: labels_consistent_def)
qed

end
