(* ===== verification/Build.thy ===== *)
theory Build
  imports Prelude "HOL-Library.Sublist"
begin

text \<open>
  The packaging script \<^verbatim>\<open>src/build_exe.py\<close>: \<^verbatim>\<open>check_pyinstaller\<close>,
  \<^verbatim>\<open>clean_build_files\<close>, \<^verbatim>\<open>build_exe\<close> and \<^verbatim>\<open>main\<close>, in the action monad of
  \<open>Prelude\<close>.  The state is the listing of the working directory (names with their
  kind, in listing order); the environment answers whether PyInstaller imports, whether
  \<^verbatim>\<open>pip install\<close> and \<^verbatim>\<open>pyinstaller\<close> succeed, and which directories
  \<^verbatim>\<open>shutil.rmtree\<close> cannot remove.  Printed lines, the two subprocess calls, file
  removals and the final \<^verbatim>\<open>input()\<close> are effects.  \<^verbatim>\<open>glob.glob('*.spec')\<close> matches
  the names that do not start with a dot and end in \<^verbatim>\<open>.spec\<close> in any letter case: on
  Windows \<^verbatim>\<open>fnmatch\<close> compares \<^verbatim>\<open>os.path.normcase\<close> of both sides, which
  lower-cases them.  The model folds the ASCII letters (a model character is one byte).
\<close>

datatype kind = Dir | File

record bstate =
  entries :: "(string \<times> kind) list"

datatype pip_result = Pip_Ok | Pip_Fails

datatype run_result = Run_Ok | Run_Fails | Run_NotFound

record benv =
  has_pyinstaller :: bool
  pip_result :: pip_result
  run_result :: run_result
  rmtree_fails :: "string \<Rightarrow> bool"

datatype bexn = B_CalledProcessError | B_FileNotFound | B_OSError

datatype bmsg =
    M_PyiInstalled | M_PyiMissing | M_PyiInstallOk | M_PyiInstallFailed
  | M_Cleaning | M_Removed string | M_Building | M_BuildOk | M_BuildFailed | M_NoPyi
  | M_Header | M_Done | M_Failed

datatype beffect =
    BPrint bmsg
  | PipInstall
  | RunPyInstaller "string list"
  | RmTree string
  | RemoveFile string
  | WaitEnter

type_synonym 'a bprog = "('a, bstate, beffect, bexn) act"

text \<open>\<^verbatim>\<open>glob.glob('*.spec')\<close> on the working directory.\<close>

definition lower_ascii :: "char \<Rightarrow> char" where
  "lower_ascii c =
     (case map_of (zip ''ABCDEFGHIJKLMNOPQRSTUVWXYZ'' ''abcdefghijklmnopqrstuvwxyz'') c of
        Some l \<Rightarrow> l
      | None \<Rightarrow> c)"

definition spec_match :: "string \<Rightarrow> bool" where
  "spec_match n \<longleftrightarrow> suffix ''.spec'' (map lower_ascii n) \<and> \<not> prefix ''.'' n"

definition glob_spec :: "bstate \<Rightarrow> string list" where
  "glob_spec s = filter spec_match (map fst (entries s))"

definition check_pyinstaller :: "benv \<Rightarrow> bool bprog" where
  "check_pyinstaller E =
     (if has_pyinstaller E then seq_act (emit_act (BPrint M_PyiInstalled)) (ret True)
      else seq_act (emit_act (BPrint M_PyiMissing))
            (seq_act (emit_act PipInstall)
              (case pip_result E of
                 Pip_Ok \<Rightarrow> seq_act (emit_act (BPrint M_PyiInstallOk)) (ret True)
               | Pip_Fails \<Rightarrow> seq_act (emit_act (BPrint M_PyiInstallFailed)) (ret False))))"

text \<open>
  \<^verbatim>\<open>os.path.exists\<close> then \<^verbatim>\<open>shutil.rmtree\<close> for one name: a name that exists but
  is not a directory, or that \<^verbatim>\<open>rmtree\<close> cannot remove, raises \<^verbatim>\<open>OSError\<close>.
\<close>

definition remove_dir :: "benv \<Rightarrow> string \<Rightarrow> unit bprog" where
  "remove_dir E d = bind_act (get_act (\<lambda>s. map_of (entries s) d)) (\<lambda>k.
     case k of
       None \<Rightarrow> ret ()
     | Some File \<Rightarrow> raise_act B_OSError
     | Some Dir \<Rightarrow>
         if rmtree_fails E d then raise_act B_OSError
         else seq_act (emit_act (RmTree d))
               (seq_act (modify_act (\<lambda>s. s\<lparr>entries := filter (\<lambda>e. fst e \<noteq> d) (entries s)\<rparr>))
                 (emit_act (BPrint (M_Removed d)))))"

text \<open>\<^verbatim>\<open>os.remove\<close> on a name \<^verbatim>\<open>glob\<close> returned: a directory raises.\<close>

definition remove_file :: "string \<Rightarrow> unit bprog" where
  "remove_file f = bind_act (get_act (\<lambda>s. map_of (entries s) f)) (\<lambda>k.
     if k = Some File then
       seq_act (emit_act (RemoveFile f))
        (seq_act (modify_act (\<lambda>s. s\<lparr>entries := filter (\<lambda>e. fst e \<noteq> f) (entries s)\<rparr>))
          (emit_act (BPrint (M_Removed f))))
     else raise_act B_OSError)"

fun seq_all :: "('a \<Rightarrow> unit bprog) \<Rightarrow> 'a list \<Rightarrow> unit bprog" where
  "seq_all f [] = ret ()"
| "seq_all f (x # xs) = seq_act (f x) (seq_all f xs)"

definition clean_build_files :: "benv \<Rightarrow> unit bprog" where
  "clean_build_files E =
     seq_act (emit_act (BPrint M_Cleaning))
    (seq_act (seq_all (remove_dir E) [''build'', ''dist'', ''__pycache__''])
      (bind_act (get_act glob_spec) (seq_all remove_file)))"

text \<open>
  The command line of \<^verbatim>\<open>build_exe\<close>.  Its \<^verbatim>\<open>--name\<close> argument is the program's
  Chinese name in the source; theory files are ASCII, so it is written
  \<^verbatim>\<open>PomodoroTimer\<close> here.  No property depends on the name.
\<close>

definition pyinstaller_cmd :: "string list" where
  "pyinstaller_cmd =
     [''pyinstaller'', ''--name=PomodoroTimer'', ''--onefile'', ''--windowed'', ''--clean'',
      ''--noconfirm'', ''--hidden-import=win32timezone'', ''--hidden-import=win32api'',
      ''--hidden-import=win32con'', ''--hidden-import=win32gui'', ''--collect-all=win10toast'',
      ''pomodoro_timer.py'']"

definition build_exe :: "benv \<Rightarrow> bool bprog" where
  "build_exe E =
     seq_act (emit_act (BPrint M_Building))
       (case run_result E of
          Run_Ok \<Rightarrow> seq_act (emit_act (RunPyInstaller pyinstaller_cmd))
                     (seq_act (emit_act (BPrint M_BuildOk)) (ret True))
        | Run_Fails \<Rightarrow> seq_act (emit_act (RunPyInstaller pyinstaller_cmd))
                     (seq_act (emit_act (BPrint M_BuildFailed)) (ret False))
        | Run_NotFound \<Rightarrow> seq_act (emit_act (BPrint M_NoPyi)) (ret False))"

definition build_main :: "benv \<Rightarrow> unit bprog" where
  "build_main E =
     seq_act (emit_act (BPrint M_Header))
    (bind_act (check_pyinstaller E) (\<lambda>ok.
       if \<not> ok then emit_act WaitEnter
       else seq_act (clean_build_files E)
           (bind_act (build_exe E) (\<lambda>r.
              seq_act (emit_act (BPrint (if r then M_Done else M_Failed))) (emit_act WaitEnter)))))"

subsection \<open>Lemmas\<close>

lemma emits_seq_all [emits_intros]: "(\<And>x. emits P (f x)) \<Longrightarrow> emits P (seq_all f xs)"
  by (induction xs) (simp_all add: emits_intros)

lemma map_of_filter_neq:
  "map_of (filter (\<lambda>e. fst e \<noteq> d) xs) k = (if k = d then None else map_of xs k)"
  by (induction xs) auto

lemma filter_absent: "map_of xs d = None \<Longrightarrow> filter (\<lambda>e. fst e \<noteq> d) xs = xs"
  by (induction xs) (auto split: if_splits)

lemma seq_all_dirs:
  assumes "\<forall>d\<in>set ds. map_of (entries s) d \<noteq> Some File \<and> \<not> rmtree_fails E d"
  shows "outcome (seq_all (remove_dir E) ds s) = Inr () \<and>
         entries (final (seq_all (remove_dir E) ds s)) = filter (\<lambda>e. fst e \<notin> set ds) (entries s)"
  using assms
proof (induction ds arbitrary: s)
  case Nil
  then show ?case by (simp add: act_simps)
next
  case (Cons d ds)
  let ?s1 = "s\<lparr>entries := filter (\<lambda>e. fst e \<noteq> d) (entries s)\<rparr>"
  have d: "map_of (entries s) d \<noteq> Some File" "\<not> rmtree_fails E d" using Cons.prems by auto
  then obtain es where r: "remove_dir E d s = (Inr (), ?s1, es)"
    using filter_absent [of "entries s" d]
    by (cases "map_of (entries s) d" rule: option.exhaust; cases "the (map_of (entries s) d)")
       (auto simp: remove_dir_def act_simps)
  have "\<forall>d'\<in>set ds. map_of (entries ?s1) d' \<noteq> Some File \<and> \<not> rmtree_fails E d'"
    using Cons.prems by (simp add: map_of_filter_neq)
  then have ih: "outcome (seq_all (remove_dir E) ds ?s1) = Inr () \<and>
      entries (final (seq_all (remove_dir E) ds ?s1)) = filter (\<lambda>e. fst e \<notin> set ds) (entries ?s1)"
    by (rule Cons.IH)
  then show ?case
    using r by (cases "seq_all (remove_dir E) ds ?s1") (auto simp: act_simps intro: filter_cong)
qed

lemma map_of_filter_notin:
  "map_of (filter (\<lambda>e. fst e \<notin> D) xs) k = (if k \<in> D then None else map_of xs k)"
  by (induction xs) auto

lemma seq_all_files:
  assumes "distinct fs" and "\<forall>f\<in>set fs. map_of (entries s) f = Some File"
  shows "outcome (seq_all remove_file fs s) = Inr () \<and>
         entries (final (seq_all remove_file fs s)) = filter (\<lambda>e. fst e \<notin> set fs) (entries s)"
  using assms
proof (induction fs arbitrary: s)
  case Nil
  then show ?case by (simp add: act_simps)
next
  case (Cons f fs)
  let ?s1 = "s\<lparr>entries := filter (\<lambda>e. fst e \<noteq> f) (entries s)\<rparr>"
  obtain es where r: "remove_file f s = (Inr (), ?s1, es)"
    using Cons.prems by (auto simp: remove_file_def act_simps)
  have "\<forall>f'\<in>set fs. map_of (entries ?s1) f' = Some File"
    using Cons.prems by (auto simp: map_of_filter_neq)
  then have ih: "outcome (seq_all remove_file fs ?s1) = Inr () \<and>
      entries (final (seq_all remove_file fs ?s1)) = filter (\<lambda>e. fst e \<notin> set fs) (entries ?s1)"
    using Cons.prems(1) by (intro Cons.IH) simp_all
  then show ?case
    using r by (cases "seq_all remove_file fs ?s1") (auto simp: act_simps intro: filter_cong)
qed

abbreviation build_dirs :: "string list" where
  "build_dirs \<equiv> [''build'', ''dist'', ''__pycache__'']"

lemma build_dirs_no_spec: "\<not> spec_match ''build''" "\<not> spec_match ''dist''"
  "\<not> spec_match ''__pycache__''"
  by (auto simp: spec_match_def suffix_def Cons_eq_append_conv lower_ascii_def)

lemma glob_spec_clean:
  "glob_spec (s\<lparr>entries := filter (\<lambda>e. fst e \<notin> set build_dirs) (entries s)\<rparr>) = glob_spec s"
proof -
  have "filter spec_match (map fst (filter (\<lambda>e. fst e \<notin> set build_dirs) xs)) =
        filter spec_match (map fst xs)" for xs :: "(string \<times> kind) list"
    by (induction xs) (auto simp: build_dirs_no_spec)
  then show ?thesis by (simp add: glob_spec_def)
qed

text \<open>
  C31.  On a directory listing with distinct names where \<^verbatim>\<open>build\<close>,
  \<^verbatim>\<open>dist\<close> and \<^verbatim>\<open>__pycache__\<close> are absent or removable directories and every
  name \<^verbatim>\<open>glob('*.spec')\<close> returns is a file, \<^verbatim>\<open>clean_build_files\<close> returns
  normally and leaves exactly the entries that are neither of the three directories nor a
  \<^verbatim>\<open>.spec\<close> match, in their order.
\<close>

theorem clean_removes_artifacts:
  assumes "distinct (map fst (entries s))"
    and "\<forall>d\<in>set build_dirs. map_of (entries s) d \<noteq> Some File \<and> \<not> rmtree_fails E d"
    and "\<forall>f\<in>set (glob_spec s). map_of (entries s) f = Some File"
  shows "outcome (clean_build_files E s) = Inr () \<and>
         entries (final (clean_build_files E s)) =
           filter (\<lambda>e. fst e \<notin> set build_dirs \<and> \<not> spec_match (fst e)) (entries s)"
proof -
  let ?s1 = "s\<lparr>entries := filter (\<lambda>e. fst e \<notin> set build_dirs) (entries s)\<rparr>"
  obtain es1 where d: "seq_all (remove_dir E) build_dirs s = (Inr (), ?s1, es1)"
    using seq_all_dirs [OF assms(2)]
    by (cases "seq_all (remove_dir E) build_dirs s") (auto simp: outcome_def final_def)
  have g: "glob_spec ?s1 = glob_spec s" by (rule glob_spec_clean)
  have "distinct (glob_spec s)"
    using assms(1) by (simp add: glob_spec_def distinct_map_filter)
  moreover have "\<forall>f\<in>set (glob_spec s). map_of (entries ?s1) f = Some File"
  proof
    fix f assume f: "f \<in> set (glob_spec s)"
    then have "f \<notin> set build_dirs" using build_dirs_no_spec by (auto simp: glob_spec_def)
    moreover have e: "entries ?s1 = filter (\<lambda>e. fst e \<notin> set build_dirs) (entries s)" by simp
    ultimately show "map_of (entries ?s1) f = Some File"
      using assms(3) f unfolding e map_of_filter_notin by simp
  qed
  ultimately have f: "outcome (seq_all remove_file (glob_spec s) ?s1) = Inr () \<and>
      entries (final (seq_all remove_file (glob_spec s) ?s1)) =
        filter (\<lambda>e. fst e \<notin> set (glob_spec s)) (entries ?s1)"
    by (rule seq_all_files)
  have "filter (\<lambda>e. fst e \<notin> set (glob_spec s)) (entries ?s1) =
        filter (\<lambda>e. fst e \<notin> set build_dirs \<and> \<not> spec_match (fst e)) (entries s)"
    by (auto simp: glob_spec_def intro: filter_cong)
  with d f g show ?thesis
    by (cases "seq_all remove_file (glob_spec s) ?s1")
       (simp add: clean_build_files_def act_simps)
qed

text \<open>
  C32.  Without PyInstaller and with a failing \<^verbatim>\<open>pip install\<close>, \<^verbatim>\<open>main\<close> prints
  the failure, never cleans and never runs PyInstaller, and waits for Enter.
\<close>

theorem build_skipped_without_pyinstaller:
  assumes "\<not> has_pyinstaller E" and "pip_result E = Pip_Fails"
  shows "build_main E s =
           (Inr (), s, [BPrint M_Header, BPrint M_PyiMissing, PipInstall,
                        BPrint M_PyiInstallFailed, WaitEnter])"
  using assms by (simp add: build_main_def check_pyinstaller_def act_simps)

text \<open>
  C33.  An obstacle to the clean step escapes \<^verbatim>\<open>main\<close>: when a file (not a
  directory) is named \<^verbatim>\<open>build\<close>, \<^verbatim>\<open>shutil.rmtree\<close> raises, nothing catches it, and
  the script ends with the exception before PyInstaller runs and before the final
  \<^verbatim>\<open>input()\<close> that keeps the console open.
\<close>

theorem clean_error_skips_pause:
  assumes "has_pyinstaller E" and "map_of (entries s) ''build'' = Some File"
  shows "outcome (build_main E s) = Inl B_OSError \<and> WaitEnter \<notin> set (effects (build_main E s)) \<and>
         (\<forall>c. RunPyInstaller c \<notin> set (effects (build_main E s)))"
  using assms
  by (simp add: build_main_def check_pyinstaller_def clean_build_files_def remove_dir_def
      act_simps)

text \<open>
  C34.  When PyInstaller is present, the clean step returns and PyInstaller succeeds,
  \<^verbatim>\<open>main\<close> runs PyInstaller once with the command line of \<^verbatim>\<open>build_exe\<close>, reports
  success and ends waiting for Enter.
\<close>

theorem build_main_runs_pyinstaller:
  assumes "has_pyinstaller E" and "run_result E = Run_Ok"
    and "outcome (clean_build_files E s) = Inr ()"
  shows "outcome (build_main E s) = Inr () \<and>
         count_list (effects (build_main E s)) (RunPyInstaller pyinstaller_cmd) = 1 \<and>
         BPrint M_Done \<in> set (effects (build_main E s)) \<and> last (effects (build_main E s)) = WaitEnter"
proof -
  obtain s1 es1 where c: "clean_build_files E s = (Inr (), s1, es1)"
    using assms(3) by (cases "clean_build_files E s") (auto simp: outcome_def)
  have "RunPyInstaller pyinstaller_cmd \<notin> set es1"
  proof -
    have em: "emits (\<lambda>e. \<forall>c. e \<noteq> RunPyInstaller c) (clean_build_files E)"
      unfolding clean_build_files_def remove_dir_def remove_file_def
      by (auto intro!: emits_intros split: option.split kind.split)
    show ?thesis using emitsD [OF em c] by (auto simp: list_all_iff)
  qed
  with c assms(1,2) show ?thesis
    by (simp add: build_main_def check_pyinstaller_def build_exe_def act_simps)
qed

end
