(* ===== verification/Spec2Isabelle.thy ===== *)
theory Spec2Isabelle
  imports Display Labels Build
begin

text \<open>
  \<^bold>\<open>A verification development for the Pomodoro timer of \<^verbatim>\<open>src/pomodoro_timer.py\<close>.\<close>

  \<^medskip>\<^noindent>\<^bold>\<open>The program.\<close>  One class, \<^verbatim>\<open>PomodoroTimer\<close>, owns the Tk window and all
  state.  Its parts and how they interact:
  \<^item> the \<^emph>\<open>mode policy\<close>: three modes with fixed durations, and the rule that a long
    break follows every fourth completed work period (\<^verbatim>\<open>set_mode\<close>,
    \<^verbatim>\<open>timer_finished\<close>);
  \<^item> the \<^emph>\<open>timer engine\<close>: the button commands \<^verbatim>\<open>start_timer\<close>,
    \<^verbatim>\<open>pause_timer\<close>, \<^verbatim>\<open>reset_timer\<close>, \<^verbatim>\<open>set_mode\<close>, the countdown
    \<^verbatim>\<open>timer_loop\<close> that \<^verbatim>\<open>start_timer\<close> runs on a daemon thread, and
    \<^verbatim>\<open>timer_finished\<close>, which the loop posts back to the Tk thread with
    \<^verbatim>\<open>root.after\<close>;
  \<^item> the \<^emph>\<open>side effects\<close>: sounds (\<^verbatim>\<open>play_sound\<close>, \<^verbatim>\<open>_play_system_sound\<close>),
    the desktop wallpaper (\<^verbatim>\<open>apply_wallpaper\<close>, \<^verbatim>\<open>save_original_wallpaper\<close>,
    \<^verbatim>\<open>restore_wallpaper\<close>), the toast (\<^verbatim>\<open>show_notification\<close>), the file pickers;
  \<^item> the \<^emph>\<open>configuration store\<close>: \<^verbatim>\<open>load_config\<close> at start-up and
    \<^verbatim>\<open>save_config\<close> after every change of a persisted value;
  \<^item> the \<^emph>\<open>presentation\<close>: \<^verbatim>\<open>create_ui\<close> builds the widgets and binds the buttons,
    \<^verbatim>\<open>update_display\<close> writes the time, progress, mode and count labels.

  \<^medskip>\<^noindent>\<^bold>\<open>Theories.\<close>
  \<^item> \<open>Prelude\<close>: the exception--state--writer monad \<open>act\<close> in which every method is
    written (\<open>ret\<close>, \<open>seq_act\<close>, \<open>bind_act\<close>, \<open>modify_act\<close>, \<open>emit_act\<close>,
    \<open>raise_act\<close>, \<open>catch_act\<close>, \<open>if_act\<close>), its evaluation rules \<open>act_simps\<close>,
    and the frame predicate \<open>keeps g m\<close> (\<open>m\<close> never changes \<open>g\<close> of the state) with
    its introduction rules \<open>keeps_intros\<close>.
  \<^item> \<open>Paths\<close>: \<^verbatim>\<open>os.path.basename\<close> (\<open>basename_str\<close>, with the
    drive of \<^verbatim>\<open>ntpath.splitdrive\<close> and both separators; \<open>py_basename\<close> raises
    \<^verbatim>\<open>TypeError\<close> on a non-string), its contract \<open>last_component\<close>, and the value
    of the \<^verbatim>\<open>MAX_PATH\<close> buffer of \<^verbatim>\<open>save_original_wallpaper\<close>
    (\<open>buffer_value\<close>).
  \<^item> \<open>PyJson\<close>: the values \<^verbatim>\<open>json.load\<close> returns, Python truthiness,
    \<^verbatim>\<open>dict.get\<close> (the last duplicate key wins), \<^verbatim>\<open>+= 1\<close> with its
    \<^verbatim>\<open>TypeError\<close>.
  \<^item> \<open>Mode\<close>: \<open>mode\<close>, the \<open>durations\<close> record, \<open>duration_of\<close> (the chain of
    \<^verbatim>\<open>set_mode\<close>), \<open>break_after\<close> (the test of \<^verbatim>\<open>timer_finished\<close>) and the
    spec's contract \<open>next_mode\<close>.
  \<^item> \<open>App\<close>: the object as the record \<open>app\<close> (the attributes of \<^verbatim>\<open>__init__\<close>
    and the widget state the methods change), the \<open>effect\<close> datatype of calls into the
    world, the environment \<open>env\<close> of the world's answers, and \<open>update_display\<close> with
    Python's \<^verbatim>\<open>format(n, "02d")\<close> as \<open>fmt_02d\<close>.
  \<^item> \<open>Effects\<close>: one action per side-effect method, in source order; every
    \<^verbatim>\<open>try/except\<close> is a \<open>catch_act\<close>, every uncaught exception an \<open>Inl\<close>
    result; \<open>apply_world\<close> replays effects on the configuration file.
  \<^item> \<open>Timer\<close>: \<open>start_timer\<close>, \<open>pause_timer\<close>, \<open>set_mode\<close>, \<open>reset_timer\<close>,
    \<open>loop_iteration\<close> (the statements under \<^verbatim>\<open>if not self.is_paused\<close>),
    \<open>loop_body\<close> (the whole body of the \<^verbatim>\<open>while\<close>) and \<open>timer_loop\<close> (a
    \<open>partial_function (option)\<close>: the loop does not terminate while paused, and
    \<open>None\<close> is that outcome), \<open>timer_finished\<close>,
    \<open>on_closing\<close>, \<open>create_ui\<close>, \<open>init_timer\<close> (\<^verbatim>\<open>__init__\<close>), the button
    bindings \<open>handler\<close>/\<open>enabled\<close> and the invariant \<open>ui_inv\<close>.
  \<^item> \<open>Display\<close>: a reader \<open>parse_mmss\<close> of the time label, used to state that the
    label shows the exact time.
  \<^item> \<open>Persistence\<close>: \<^verbatim>\<open>save_config\<close> followed by \<^verbatim>\<open>load_config\<close> through the
    file, at start-up and when the window closes.
  \<^item> \<open>Session\<close>: one whole period as the program runs it when the user does nothing:
    \<^verbatim>\<open>start_timer\<close>, the loop thread to its end, then the callbacks it posted,
    run by the Tk thread in order (\<open>countdown_cycle\<close>).
  \<^item> \<open>Threads\<close>: the two threads interleaved.  \<open>sys\<close> holds the object, a program
    counter per live loop thread (\<open>At_Test\<close>: at the \<^verbatim>\<open>while\<close> test;
    \<open>At_Sleep\<close>: inside \<^verbatim>\<open>time.sleep(1)\<close>), the queue of callbacks posted with
    \<^verbatim>\<open>root.after\<close> and the effects so far.  \<open>sys_step\<close> has one rule per atomic
    step: the loop test (enter, spin while paused, exit posting \<^verbatim>\<open>timer_finished\<close>),
    the rest of the loop body after the sleep (\<open>after_sleep\<close>), the Tk thread running
    the head of its queue, and the Tk thread running the command of an enabled button.
    \<open>boot\<close> is the state after \<^verbatim>\<open>__init__\<close> (\<^verbatim>\<open>main\<close>), \<open>reachable\<close> the closure
    (\<^verbatim>\<open>root.mainloop()\<close>).  The frame predicate \<open>emits\<close> of \<open>Prelude\<close> shows which
    handlers start threads or post callbacks.
  \<^item> \<open>Invariants\<close>: \<open>reachable_app_inv\<close>, an attribute predicate that every
    handler, callback and loop step preserves holds in every reachable state (with the
    predicate \<open>preserves\<close> of \<open>Prelude\<close>); the count's type as its first instance,
    the clock \<open>app_ok\<close> (durations positive, the time between 0 and the mode's
    duration, the progress between 0 and 100) as its second, and \<open>time_ok\<close>, which adds
    that a sleeping loop thread has time left.  With them, a period can always complete.
  \<^item> \<open>Labels\<close>: the file labels of \<^verbatim>\<open>select_wallpaper\<close> and
    \<^verbatim>\<open>select_ringtone\<close>, and the original wallpaper saved at start-up and set again
    by \<^verbatim>\<open>restore_wallpaper\<close>.
  \<^item> \<open>Build\<close>: the packaging script \<^verbatim>\<open>src/build_exe.py\<close> (\<^verbatim>\<open>check_pyinstaller\<close>,
    \<^verbatim>\<open>clean_build_files\<close>, \<^verbatim>\<open>build_exe\<close>, \<^verbatim>\<open>main\<close> as \<open>build_main\<close>) on a
    directory listing, the subprocess results coming from an environment \<open>benv\<close>.
  \<^item> this theory: the spec's scenarios, the races as reachable states, and the
    properties spanning the store and the engine, on concrete environments
    (\<open>demo_env\<close>, \<open>demo_bad_ringtone\<close>, \<open>demo_no_wallpaper\<close>,
    \<open>demo_benv\<close>).

  \<^medskip>\<^noindent>\<^bold>\<open>What is shown.\<close>  The completion handler implements the spec's mode policy
  (C1); the countdown ticks exactly once per second, plays the warning cue exactly once
  and terminates unless paused (C2--C4); a paused pass of the loop body does nothing, not
  even sleep, so a paused loop re-tests at once and never returns (C5); the button
  commands behave as documented and keep the button/state invariant whatever the world
  answers (C6--C10); the completion handler's effects, their exact order and its error
  paths (C11--C14); the time label reads back as the time (C15), and in every reachable
  state the time lies in the mode's range and the progress bar in 0..100, 0 at the full
  duration and 100 at zero (C16); the configuration round trip and its failure modes
  (C17--C20); the two scenarios of the spec end to end (C21, C22) and the count surviving
  a restart (C23).  Over every interleaving of the threads and every sequence of button
  presses: at most one loop thread and at most one pending completion exist (C24); a timer
  whose loop thread died stays frozen for ever (C25); an unpaused period can always run to
  its end, the timer stopped and the queue drained (C26); the loop equals its body
  repeated once per second (C27); a pause during the last sleep does not stop the
  decrement to zero nor the posted completion (C28); an exception in the warning cue
  strands the timer (C29); the count keeps its type (C30).  The packaging script removes
  exactly the build artefacts (C31), never builds without PyInstaller (C32), dies before
  its final pause when a clean step fails (C33) and runs PyInstaller once otherwise (C34).
  Closing the window asks exactly when the timer runs and, when it closes, has written the
  count and paths a restart loads (C35).  The file labels show the base name of the chosen
  path (C36); \<^verbatim>\<open>restore_wallpaper\<close> sets exactly the wallpaper captured at start-up
  (C37), which is silently empty when the capturing call fails (C38) and never changes
  after start-up (C39); a label that names a file names the stored path in every
  reachable state (C40).  Several of these record defects of the code (see the findings
  of the manifest): the pause flag survives completion, the pause busy-waits, an automatic
  transition opens modal boxes, a failed save loses the file, the configured ringtone is
  never shown at start-up, a pause in the last second does not hold, an exception on the
  loop thread strands the timer, the failure of the call that reads the original wallpaper
  goes unnoticed, and the build script can exit without showing its error.

  \<^medskip>\<^noindent>\<^bold>\<open>Bounds and fuel.\<close>  No fuel is used: the loop is a \<open>partial_function
  (option)\<close> and termination is proved by induction on the remaining seconds; the
  non-termination of the paused loop is proved by fixpoint induction
  (\<open>timer_loop.raw_induct\<close>).  Integers are Python's unbounded \<open>int\<close>; the progress
  value is computed in exact real arithmetic instead of a float.  Windows' \<^verbatim>\<open>glob\<close>
  compares names after \<^verbatim>\<open>os.path.normcase\<close>, so \<open>spec_match\<close> lower-cases the
  ASCII letters (\<open>lower_ascii\<close>) before the suffix test.  The wallpaper buffer is
  bounded by \<^verbatim>\<open>MAX_PATH\<close> = 260 characters, as \<^verbatim>\<open>create_unicode_buffer\<close>
  allocates it; a model character is one UTF-16 unit.

  \<^medskip>\<^noindent>\<^bold>\<open>Not modelled.\<close>  The widget layout, fonts, label colours and the tray
  (\<^verbatim>\<open>setup_tray\<close> is a no-op): they build widgets and change no state the code
  reads; the imports and the \<^verbatim>\<open>SPI_*\<close> flag constants, whose call
  \<^verbatim>\<open>SystemParametersInfoW\<close> answers from the environment; the file dialogs and message boxes beyond their result (a parameter) and
  the fact that they are shown; the JSON text format, the \<^verbatim>\<open>json\<close> library that the code only
  calls (the file holds the decoded value); of \<^verbatim>\<open>ntpath\<close>, the split of a UNC drive,
  which gives the same base name whenever a separator follows the share; the printed texts and the PyInstaller \<^verbatim>\<open>--name\<close> (non-ASCII in the source)
  are named by constructors.  In the thread model the lines of the loop body after the
  sleep run as one step: while the timer runs only the loop thread writes the time, so
  the finer interleavings of those lines reach the same object states.  Closing the window
  (\<^verbatim>\<open>on_closing\<close>, modelled in \<open>Timer\<close>) is not a step of \<open>sys_step\<close>: after
  \<^verbatim>\<open>root.destroy()\<close> the process ends and the daemon thread with it.
\<close>

definition demo_env :: env where
  "demo_env =
     \<lparr>path_exists = (\<lambda>_. Inr True), wav_plays = (\<lambda>_. True), spi_set = (\<lambda>_. SPI_True),
      toast_ok = True, write_result = Write_Ok, desktop_wallpaper = Inr (True, ''C:/wall.jpg'')\<rparr>"

definition demo_running :: app where
  "demo_running = initial_attrs\<lparr>is_running := True, current_time := 0, pomodoro_count := JInt 3\<rparr>"

definition demo_counting :: app where
  "demo_counting = initial_attrs\<lparr>is_running := True, current_time := 12,
     start_button := Disabled, pause_button := Normal, reset_button := Disabled\<rparr>"

definition demo_world :: world where
  "demo_world = \<lparr>config_file = NoFile, desktop = JStr ''C:/wall.jpg''\<rparr>"

text \<open>
  An environment in which \<^verbatim>\<open>os.path.exists\<close> raises \<^verbatim>\<open>TypeError\<close> on one
  ringtone value: a JSON list, which a hand-edited configuration file can hold.
\<close>

definition demo_bad_ringtone :: env where
  "demo_bad_ringtone =
     demo_env\<lparr>path_exists := (\<lambda>p. if p = JArr [JInt 1] then Inl TypeError else Inr True)\<rparr>"

text \<open>
  An environment in which \<^verbatim>\<open>SPI_GETDESKWALLPAPER\<close> fails: it returns
  \<^verbatim>\<open>FALSE\<close> and leaves the zeroed buffer.
\<close>

definition demo_no_wallpaper :: env where
  "demo_no_wallpaper = demo_env\<lparr>desktop_wallpaper := Inr (False, [])\<rparr>"

text \<open>A packaging environment where every tool works, and a working directory.\<close>

definition demo_benv :: benv where
  "demo_benv = \<lparr>has_pyinstaller = True, pip_result = Pip_Ok, run_result = Run_Ok,
                rmtree_fails = (\<lambda>_. False)\<rparr>"

definition demo_listing :: bstate where
  "demo_listing = \<lparr>entries = [(''build'', Dir), (''pomodoro_timer.py'', File),
                               (''Pomodoro.spec'', File), (''dist'', Dir)]\<rparr>"

lemmas build_demo_defs = demo_benv_def demo_listing_def

lemmas demo_defs = demo_env_def demo_running_def demo_counting_def initial_attrs_def

text \<open>Answers of \<open>demo_env\<close> used by the scenarios.\<close>

lemma demo_env_answers:
  "toast_ok demo_env" "write_result demo_env = Write_Ok" "path_exists demo_env p = Inr True"
  "wav_plays demo_env p" "exists_ok demo_env p"
  by (simp_all add: demo_env_def exists_ok_def)

text \<open>
  A work period in \<open>demo_env\<close> from a stopped object that shows the full work time,
  with neither ringtone nor wallpaper configured.
\<close>

lemma demo_work_period:
  assumes "\<not> is_running s" and "mode s = Work" and "current_time s = 1500"
    and "pomodoro_count s = JInt c" and "ringtone_path s = JNull" and "wallpaper_path s = JNull"
  shows "\<exists>s' es. countdown_cycle demo_env s = Some (s', es) \<and>
            pomodoro_count s' = JInt (c + 1) \<and> mode s' = break_after (c + 1) \<and>
            current_time s' = duration_of s (break_after (c + 1)) \<and>
            count_list es (Beep 1000 200) = 1 \<and> count_list es (Post CB_TimerFinished) = 1"
proof -
  let ?s2 = "update_display (s\<lparr>is_running := True, is_paused := False, start_button := Disabled,
             pause_button := Normal, reset_button := Disabled, current_time := 0\<rparr>)"
  have t: "current_time s = int (Suc 1499)" using assms(3) by simp
  obtain s' where cyc: "countdown_cycle demo_env s =
      Some (s', StartThread # countdown_effects demo_env JNull (Suc 1499) @ [Post CB_TimerFinished] @
        effects (timer_finished demo_env ?s2))"
    and st: "mode s' = break_after (c + 1)" "current_time s' = duration_of s (break_after (c + 1))"
      "pomodoro_count s' = JInt (c + 1)"
    using work_cycle [OF assms(1,2) t assms(4) demo_env_answers(5) demo_env_answers(5)] assms(5)
    by auto
  have fin: "count_list (effects (timer_finished demo_env ?s2)) (Beep 1000 200) = 0"
    "count_list (effects (timer_finished demo_env ?s2)) (Post CB_TimerFinished) = 0"
    using assms(2,4-6)
    by (simp_all add: timer_finished_work demo_env_answers cue_effects_def notify_effects_def
        save_effects_def builtin_tone_def numeral_3_eq_3)
  have cue: "count_list (cue_effects demo_env Warning JNull) (Beep 1000 200) = 1"
    "count_list (cue_effects demo_env Warning JNull) (Post CB_TimerFinished) = 0"
    by (simp_all add: cue_effects_def builtin_tone_def)
  let ?es = "StartThread # countdown_effects demo_env JNull (Suc 1499) @ [Post CB_TimerFinished] @
        effects (timer_finished demo_env ?s2)"
  have "count_list ?es (Beep 1000 200) = 1" "count_list ?es (Post CB_TimerFinished) = 1"
    using fin cue by (simp_all add: count_countdown_effects del: countdown_effects.simps)
  with cyc st show ?thesis by blast
qed

lemma init_demo:
  "final (init_timer demo_env NoFile initial_attrs) =
     update_display (create_ui (initial_attrs\<lparr>original_wallpaper := JStr ''C:/wall.jpg''\<rparr>))"
  "final (init_timer demo_env (Holds (JObj [(''pomodoro_count'', JInt c)])) initial_attrs) =
     update_display (create_ui (initial_attrs\<lparr>wallpaper_path := JNull, ringtone_path := JNull,
       pomodoro_count := JInt c, original_wallpaper := JStr ''C:/wall.jpg''\<rparr>))"
  by (simp_all add: init_timer_def load_config_def save_original_wallpaper_def demo_env_def
      dict_get_def act_simps buffer_value_def MAX_PATH_def)


theorem finish_follows_policy_witness:
  "pomodoro_count demo_running = JInt 3 \<and> exists_ok demo_env (ringtone_path demo_running) \<and>
   exists_ok demo_env (wallpaper_path demo_running) \<and>
   mode (final (timer_finished demo_env demo_running)) = LongBreak"
proof -
  have h: "pomodoro_count demo_running = JInt 3" "exists_ok demo_env (ringtone_path demo_running)"
    "exists_ok demo_env (wallpaper_path demo_running)"
    by (simp_all add: demo_defs exists_ok_def)
  have "mode demo_running = Work" by (simp add: demo_defs)
  with Timer.finish_follows_policy [OF h] h show ?thesis
    by (simp add: Let_def next_mode_def)
qed

theorem countdown_exact_witness:
  "is_running demo_counting \<and> \<not> is_paused demo_counting \<and> current_time demo_counting = int 12 \<and>
   exists_ok demo_env (ringtone_path demo_counting) \<and>
   (\<exists>es. timer_loop demo_env demo_counting =
          Some (Inr (), demo_counting\<lparr>current_time := 0\<rparr>, es @ [Post CB_TimerFinished]) \<and>
        count_list es (Sleep 1000) = 12 \<and> count_list es (Post CB_UpdateDisplay) = 12 \<and>
        Post CB_TimerFinished \<notin> set es)"
proof -
  have h: "is_running demo_counting" "\<not> is_paused demo_counting" "current_time demo_counting = int 12"
    "exists_ok demo_env (ringtone_path demo_counting)"
    by (simp_all add: demo_defs exists_ok_def)
  show ?thesis using h Timer.countdown_exact [OF h] by blast
qed

theorem warning_cue_once_witness:
  "is_running demo_counting \<and> \<not> is_paused demo_counting \<and> current_time demo_counting = int 12 \<and>
   exists_ok demo_env (ringtone_path demo_counting) \<and>
   Beep 1000 200 \<notin> {Sleep 1000, Post CB_UpdateDisplay, Post CB_TimerFinished} \<and>
   count_list (effects (the (timer_loop demo_env demo_counting))) (Beep 1000 200) = 1"
proof -
  have h: "is_running demo_counting" "\<not> is_paused demo_counting" "current_time demo_counting = int 12"
    "exists_ok demo_env (ringtone_path demo_counting)"
    "Beep 1000 200 \<notin> {Sleep 1000, Post CB_UpdateDisplay, Post CB_TimerFinished}"
    by (simp_all add: demo_defs exists_ok_def)
  have "count_list (cue_effects demo_env Warning (ringtone_path demo_counting)) (Beep 1000 200) = 1"
    by (simp add: demo_defs cue_effects_def builtin_tone_def)
  with h Timer.warning_cue_once [OF h] show ?thesis by simp
qed

theorem countdown_terminates_witness:
  "\<not> is_paused demo_counting \<and> (\<exists>r. timer_loop demo_env demo_counting = Some r)"
proof -
  have h: "\<not> is_paused demo_counting" by (simp add: demo_defs)
  show ?thesis using h Timer.countdown_terminates [OF h] by blast
qed

theorem paused_countdown_spins_witness:
  "is_running (demo_counting\<lparr>is_paused := True\<rparr>) \<and> is_paused (demo_counting\<lparr>is_paused := True\<rparr>) \<and>
   0 < current_time (demo_counting\<lparr>is_paused := True\<rparr>) \<and>
   repeat_act 3 (loop_body demo_env) (demo_counting\<lparr>is_paused := True\<rparr>) =
     (Inr (), demo_counting\<lparr>is_paused := True\<rparr>, []) \<and>
   timer_loop demo_env (demo_counting\<lparr>is_paused := True\<rparr>) = None"
proof -
  have h: "is_running (demo_counting\<lparr>is_paused := True\<rparr>)" "is_paused (demo_counting\<lparr>is_paused := True\<rparr>)"
    "0 < current_time (demo_counting\<lparr>is_paused := True\<rparr>)"
    by (simp_all add: demo_defs)
  show ?thesis using h Timer.paused_countdown_spins [OF h] by blast
qed

theorem start_twice_one_loop_witness:
  "\<not> is_running initial_attrs \<and>
   count_list (effects (start_timer initial_attrs) @
               effects (start_timer (final (start_timer initial_attrs)))) StartThread = 1"
proof -
  have h: "\<not> is_running initial_attrs" by (simp add: initial_attrs_def)
  show ?thesis using h Timer.start_twice_one_loop [OF h] by blast
qed

theorem set_mode_loads_duration_witness:
  "\<not> is_running initial_attrs \<and> current_time (set_mode ShortBreak initial_attrs) = 300 \<and>
   time_label (set_mode ShortBreak initial_attrs) = ''05:00''"
proof -
  have h: "\<not> is_running initial_attrs" by (simp add: initial_attrs_def)
  have "duration_of initial_attrs ShortBreak = 300" by (simp add: initial_attrs_def)
  moreover have "fmt_02d 5 @ '':'' @ fmt_02d 0 = ''05:00''"
    by (simp add: fmt_02d_def dec_digits.simps)
  ultimately show ?thesis using h Timer.set_mode_loads_duration [OF h, of ShortBreak] by simp
qed

theorem pause_resume_roundtrip_witness:
  "is_running demo_counting \<and>
   pause_caption demo_counting = (if is_paused demo_counting then Cap_Resume else Cap_Pause) \<and>
   is_paused (pause_timer demo_counting) \<and> pause_timer (pause_timer demo_counting) = demo_counting"
proof -
  have h: "is_running demo_counting"
    "pause_caption demo_counting = (if is_paused demo_counting then Cap_Resume else Cap_Pause)"
    by (simp_all add: demo_defs)
  have "\<not> is_paused demo_counting" by (simp add: demo_defs)
  with h Timer.pause_resume_roundtrip [OF h] show ?thesis by simp
qed

theorem buttons_keep_ui_inv_witness:
  "ui_inv initial_attrs \<and> enabled Ev_Start initial_attrs \<and>
   ui_inv (fst (tk_callback (handler demo_env Ev_Start) initial_attrs))"
proof -
  have h: "ui_inv initial_attrs" "enabled Ev_Start initial_attrs"
    by (simp_all add: initial_attrs_def ui_inv_def durations_ok_def)
  show ?thesis using h Timer.buttons_keep_ui_inv [OF h] by blast
qed

theorem finish_null_count_raises_witness:
  "mode (demo_running\<lparr>pomodoro_count := JNull\<rparr>) = Work \<and>
   pomodoro_count (demo_running\<lparr>pomodoro_count := JNull\<rparr>) = JNull \<and>
   exists_ok demo_env (ringtone_path (demo_running\<lparr>pomodoro_count := JNull\<rparr>)) \<and>
   outcome (timer_finished demo_env (demo_running\<lparr>pomodoro_count := JNull\<rparr>)) = Inl TypeError"
proof -
  have h: "mode (demo_running\<lparr>pomodoro_count := JNull\<rparr>) = Work"
    "pomodoro_count (demo_running\<lparr>pomodoro_count := JNull\<rparr>) = JNull"
    "exists_ok demo_env (ringtone_path (demo_running\<lparr>pomodoro_count := JNull\<rparr>))"
    by (simp_all add: demo_defs exists_ok_def)
  show ?thesis using h Timer.finish_null_count_raises [OF h] by blast
qed

theorem finish_effects_in_order_witness:
  "effects (timer_finished demo_env (demo_running\<lparr>wallpaper_path := JStr ''C:/w.jpg''\<rparr>)) =
      cue_effects demo_env Finish JNull @ MsgBox Info (Msg_WorkDone (JInt (3 + 1))) #
      notify_effects demo_env (Msg_WorkDone (JInt (3 + 1))) @
      SetWallpaper (JStr ''C:/w.jpg'') # MsgBox Info Msg_WallpaperApplied #
      save_effects demo_env (final (timer_finished demo_env (demo_running\<lparr>wallpaper_path := JStr ''C:/w.jpg''\<rparr>))) @
      save_effects demo_env (final (timer_finished demo_env (demo_running\<lparr>wallpaper_path := JStr ''C:/w.jpg''\<rparr>)))"
proof -
  let ?s = "demo_running\<lparr>wallpaper_path := JStr ''C:/w.jpg''\<rparr>"
  have h: "mode ?s = Work" "pomodoro_count ?s = JInt 3" "exists_ok demo_env (ringtone_path ?s)"
    "wallpaper_path ?s = JStr ''C:/w.jpg''" "''C:/w.jpg'' \<noteq> []"
    "path_exists demo_env (JStr ''C:/w.jpg'') = Inr True" "spi_set demo_env (JStr ''C:/w.jpg'') = SPI_True"
    by (simp_all add: demo_defs exists_ok_def)
  show ?thesis using Timer.finish_effects_in_order [OF h] by (simp add: demo_defs)
qed

theorem finish_missing_wallpaper_error_box_witness:
  "mode (demo_running\<lparr>wallpaper_path := JStr ''C:/w.jpg''\<rparr>) = Work \<and>
   pomodoro_count (demo_running\<lparr>wallpaper_path := JStr ''C:/w.jpg''\<rparr>) = JInt 3 \<and>
   exists_ok (demo_env\<lparr>path_exists := (\<lambda>_. Inr False)\<rparr>)
     (ringtone_path (demo_running\<lparr>wallpaper_path := JStr ''C:/w.jpg''\<rparr>)) \<and>
   py_truthy (wallpaper_path (demo_running\<lparr>wallpaper_path := JStr ''C:/w.jpg''\<rparr>)) \<and>
   path_exists (demo_env\<lparr>path_exists := (\<lambda>_. Inr False)\<rparr>)
     (wallpaper_path (demo_running\<lparr>wallpaper_path := JStr ''C:/w.jpg''\<rparr>)) = Inr False \<and>
   MsgBox Error Msg_WallpaperMissing \<in>
     set (effects (timer_finished (demo_env\<lparr>path_exists := (\<lambda>_. Inr False)\<rparr>)
                     (demo_running\<lparr>wallpaper_path := JStr ''C:/w.jpg''\<rparr>)))"
proof -
  have h: "mode (demo_running\<lparr>wallpaper_path := JStr ''C:/w.jpg''\<rparr>) = Work"
    "pomodoro_count (demo_running\<lparr>wallpaper_path := JStr ''C:/w.jpg''\<rparr>) = JInt 3"
    "exists_ok (demo_env\<lparr>path_exists := (\<lambda>_. Inr False)\<rparr>)
       (ringtone_path (demo_running\<lparr>wallpaper_path := JStr ''C:/w.jpg''\<rparr>))"
    "py_truthy (wallpaper_path (demo_running\<lparr>wallpaper_path := JStr ''C:/w.jpg''\<rparr>))"
    "path_exists (demo_env\<lparr>path_exists := (\<lambda>_. Inr False)\<rparr>)
       (wallpaper_path (demo_running\<lparr>wallpaper_path := JStr ''C:/w.jpg''\<rparr>)) = Inr False"
    by (simp_all add: demo_defs exists_ok_def)
  show ?thesis using h Timer.finish_missing_wallpaper_error_box [OF h] by blast
qed

lemma init_bad_ringtone:
  "final (init_timer demo_bad_ringtone (Holds (JObj [(''ringtone_path'', JArr [JInt 1])])) initial_attrs) =
     update_display (create_ui (initial_attrs\<lparr>wallpaper_path := JNull, ringtone_path := JArr [JInt 1],
       pomodoro_count := JInt 0, original_wallpaper := JStr ''C:/wall.jpg''\<rparr>))"
  by (simp add: init_timer_def load_config_def save_original_wallpaper_def demo_bad_ringtone_def
      demo_env_def dict_get_def act_simps initial_attrs_def buffer_value_def MAX_PATH_def)

text \<open>
  C21.  The first scenario of the spec: a fresh start with no configuration file, work
  mode selected (1500 seconds), start pressed and 1500 seconds counted down: exactly one
  warning beep and one completion, after which one pomodoro is recorded and the timer
  waits in the short break with 300 seconds.
\<close>

theorem first_pomodoro_scenario:
  "let s0 = set_mode Work (final (init_timer demo_env NoFile initial_attrs))
   in current_time s0 = 1500 \<and>
      (\<exists>s' es. countdown_cycle demo_env s0 = Some (s', es) \<and>
         pomodoro_count s' = JInt 1 \<and> mode s' = ShortBreak \<and> current_time s' = 300 \<and>
         count_list es (Beep 1000 200) = 1 \<and> count_list es (Post CB_TimerFinished) = 1)"
proof -
  let ?s0 = "set_mode Work (final (init_timer demo_env NoFile initial_attrs))"
  have s0: "\<not> is_running ?s0" "mode ?s0 = Work" "current_time ?s0 = 1500"
    "pomodoro_count ?s0 = JInt 0" "ringtone_path ?s0 = JNull" "wallpaper_path ?s0 = JNull"
    "short_break_time ?s0 = 300"
    unfolding init_demo by (simp_all add: create_ui_def initial_attrs_def)
  show ?thesis
    using demo_work_period [OF s0(1-6)] s0(3,7) by (simp add: break_after_def)
qed

text \<open>
  C22.  The second scenario of the spec: with three pomodoros stored in the
  configuration file, finishing the next work period records the fourth and moves to
  the long break with 900 seconds.
\<close>

theorem fourth_pomodoro_scenario:
  "let s0 = set_mode Work (final (init_timer demo_env (Holds (JObj [(''pomodoro_count'', JInt 3)]))
                                   initial_attrs))
   in pomodoro_count s0 = JInt 3 \<and>
      (\<exists>s' es. countdown_cycle demo_env s0 = Some (s', es) \<and>
         pomodoro_count s' = JInt 4 \<and> mode s' = LongBreak \<and> current_time s' = 900)"
proof -
  let ?s0 = "set_mode Work (final (init_timer demo_env (Holds (JObj [(''pomodoro_count'', JInt 3)]))
                                   initial_attrs))"
  have s0: "\<not> is_running ?s0" "mode ?s0 = Work" "current_time ?s0 = 1500"
    "pomodoro_count ?s0 = JInt 3" "ringtone_path ?s0 = JNull" "wallpaper_path ?s0 = JNull"
    "long_break_time ?s0 = 900"
    unfolding init_demo by (simp_all add: create_ui_def initial_attrs_def)
  show ?thesis
    using demo_work_period [OF s0(1-6)] s0(4,7) by (auto simp: break_after_def)
qed

text \<open>
  C23.  The count survives a restart: after a completed work period whose configuration
  write succeeds, a new object started on the file the effects leave records the
  incremented count.
\<close>

theorem count_survives_restart:
  assumes "mode s = Work" and "pomodoro_count s = JInt n"
    and "exists_ok E (ringtone_path s)" and "exists_ok E (wallpaper_path s)"
    and "write_result E = Write_Ok"
  shows "pomodoro_count (final (init_timer E (config_file (apply_world w (effects (timer_finished E s))))
                                 initial_attrs)) = JInt (n + 1)"
proof -
  obtain xs c where es: "effects (timer_finished E s) = xs @ [WriteConfig c]"
    and c: "c = config_json (final (timer_finished E s))"
    using assms(1-4) assms(5) by (simp add: timer_finished_work save_effects_def)
  have "pomodoro_count (final (timer_finished E s)) = JInt (n + 1)"
    using assms(1-4) by (simp add: timer_finished_work)
  with c have cfg: "config_file (apply_world w (effects (timer_finished E s))) =
      Holds (JObj [(''wallpaper_path'', wallpaper_path (final (timer_finished E s))),
                   (''ringtone_path'', ringtone_path (final (timer_finished E s))),
                   (''pomodoro_count'', JInt (n + 1))])"
    by (simp add: es apply_world_def config_json_def)
  show ?thesis
    unfolding cfg
    by (simp add: init_timer_def load_config_def act_simps dict_get_def
        save_original_wallpaper_def create_ui_def split: sum.split)
qed

theorem time_label_roundtrip_witness:
  "0 \<le> current_time demo_counting \<and>
   parse_mmss (time_label (update_display demo_counting)) = Some 12"
proof -
  have h: "0 \<le> current_time demo_counting" and t: "current_time demo_counting = 12"
    by (simp_all add: demo_defs)
  show ?thesis using h Display.time_label_roundtrip [OF h] t by simp
qed

theorem save_load_roundtrip_witness:
  "write_result demo_env = Write_Ok \<and>
   (let w' = apply_world demo_world (effects (save_config demo_env demo_running));
        s'' = final (load_config (config_file w') initial_attrs)
    in wallpaper_path s'' = wallpaper_path demo_running \<and>
       ringtone_path s'' = ringtone_path demo_running \<and>
       pomodoro_count s'' = pomodoro_count demo_running)"
proof -
  have h: "write_result demo_env = Write_Ok" by (simp add: demo_defs)
  show ?thesis
    using h Persistence.save_load_roundtrip [OF h, where w = demo_world and s = demo_running
        and s' = initial_attrs] by blast
qed

theorem load_without_object_keeps_defaults_witness:
  "(\<forall>kvs. Corrupt \<noteq> Holds (JObj kvs)) \<and>
   load_config Corrupt initial_attrs = (Inr (), initial_attrs, [Print Log_LoadConfig])"
proof -
  have h: "\<forall>kvs. Corrupt \<noteq> Holds (JObj kvs)" by simp
  show ?thesis
    using h Persistence.load_without_object_keeps_defaults [OF h, where s = initial_attrs] by simp
qed

theorem truncated_save_loses_count_witness:
  "write_result (demo_env\<lparr>write_result := Dump_Fails\<rparr>) = Dump_Fails \<and>
   config_file (apply_world demo_world
     (effects (save_config (demo_env\<lparr>write_result := Dump_Fails\<rparr>) demo_running))) = Corrupt \<and>
   pomodoro_count (final (load_config (config_file (apply_world demo_world
     (effects (save_config (demo_env\<lparr>write_result := Dump_Fails\<rparr>) demo_running))))
       initial_attrs)) = JInt 0"
proof -
  have h: "write_result (demo_env\<lparr>write_result := Dump_Fails\<rparr>) = Dump_Fails" by simp
  show ?thesis
    using h Persistence.truncated_save_loses_count [OF h, where w = demo_world and s = demo_running]
    by blast
qed

theorem startup_hides_loaded_ringtone_witness:
  "py_truthy (dict_get [(''ringtone_path'', JStr ''C:/bell.wav'')] ''ringtone_path'' JNull) \<and>
   (let r = init_timer demo_env (Holds (JObj [(''ringtone_path'', JStr ''C:/bell.wav'')])) initial_attrs
    in ringtone_path (final r) = JStr ''C:/bell.wav'' \<and>
       Print Log_LoadConfig \<in> set (effects r) \<and> ringtone_label (final r) = SystemSound \<and>
       wallpaper_label (final r) = NoWallpaperChosen)"
proof -
  have h: "py_truthy (dict_get [(''ringtone_path'', JStr ''C:/bell.wav'')] ''ringtone_path'' JNull)"
    and d: "dict_get [(''ringtone_path'', JStr ''C:/bell.wav'')] ''ringtone_path'' JNull =
            JStr ''C:/bell.wav''"
    by (simp_all add: dict_get_def)
  show ?thesis
    using h Persistence.startup_hides_loaded_ringtone [OF h, where E = demo_env] d
    unfolding Let_def by simp
qed

theorem count_survives_restart_witness:
  "mode demo_running = Work \<and> pomodoro_count demo_running = JInt 3 \<and>
   exists_ok demo_env (ringtone_path demo_running) \<and>
   exists_ok demo_env (wallpaper_path demo_running) \<and> write_result demo_env = Write_Ok \<and>
   pomodoro_count (final (init_timer demo_env
     (config_file (apply_world demo_world (effects (timer_finished demo_env demo_running))))
     initial_attrs)) = JInt 4"
proof -
  have h: "mode demo_running = Work" "pomodoro_count demo_running = JInt 3"
    "exists_ok demo_env (ringtone_path demo_running)"
    "exists_ok demo_env (wallpaper_path demo_running)" "write_result demo_env = Write_Ok"
    by (simp_all add: demo_defs exists_ok_def)
  show ?thesis using h count_survives_restart [OF h, where w = demo_world] by simp
qed

text \<open>
  C29.  A raise on the loop thread strands the timer: with a ringtone value on which
  \<^verbatim>\<open>os.path.exists\<close> raises, the warning cue at ten seconds ends the loop thread
  with a traceback; the timer still runs, no completion is pending and the reset button
  is disabled (stranded, for ever by C25).
\<close>

theorem warning_raise_strands_timer:
  "\<exists>S. reachable demo_bad_ringtone (Holds (JObj [(''ringtone_path'', JArr [JInt 1])])) S \<and>
       stranded S \<and> current_time (app_st S) = 10 \<and> Traceback TypeError \<in> set (trace S)"
proof -
  let ?f = "Holds (JObj [(''ringtone_path'', JArr [JInt 1])])"
  let ?s0 = "final (init_timer demo_bad_ringtone ?f initial_attrs)"
  let ?tr0 = "effects (init_timer demo_bad_ringtone ?f initial_attrs)"
  have s0: "\<not> is_running ?s0" "start_button ?s0 = Normal" "current_time ?s0 = int (1489 + 11)"
    "exists_ok demo_bad_ringtone (ringtone_path ?s0) \<or> 10 < (11::nat)"
    unfolding init_bad_ringtone by (simp_all add: create_ui_def initial_attrs_def)
  let ?a = "?s0\<lparr>is_running := True, is_paused := False, start_button := Disabled,
              pause_button := Normal, reset_button := Disabled, current_time := int 11\<rparr>"
  obtain tr1 where r1: "(sys_step demo_bad_ringtone)\<^sup>*\<^sup>* (boot demo_bad_ringtone ?f)
      \<lparr>app_st = ?a, threads = [At_Test], queue = [] @ replicate 1489 CB_UpdateDisplay, trace = tr1\<rparr>"
    using start_and_count [where q = "[]" and tr = ?tr0, OF s0] unfolding boot_def by blast
  have a: "is_running ?a" "\<not> is_paused ?a" "current_time ?a = 11" "py_truthy (ringtone_path ?a)"
    "path_exists demo_bad_ringtone (ringtone_path ?a) = Inl TypeError"
    unfolding init_bad_ringtone by (simp_all add: create_ui_def initial_attrs_def demo_bad_ringtone_def)
  let ?S = "\<lparr>app_st = ?a\<lparr>current_time := 10\<rparr>, threads = [],
             queue = ([] @ replicate 1489 CB_UpdateDisplay) @ [CB_UpdateDisplay],
             trace = tr1 @ [Sleep 1000, Post CB_UpdateDisplay, Traceback TypeError]\<rparr>"
  have "reachable demo_bad_ringtone ?f ?S"
    unfolding reachable_def using r1 warning_raise_ends_loop [OF a] by (meson rtranclp_trans)
  moreover have "stranded ?S" by (simp add: stranded_def)
  ultimately show ?thesis by (intro exI [of _ ?S]) simp
qed

theorem one_loop_thread_witness:
  "reachable demo_env NoFile (tk_step (boot demo_env NoFile) start_timer) \<and>
   length (threads (tk_step (boot demo_env NoFile) start_timer)) \<le> 1 \<and>
   count_list (queue (tk_step (boot demo_env NoFile) start_timer)) CB_TimerFinished \<le> 1 \<and>
   threads (tk_step (boot demo_env NoFile) start_timer) \<noteq> [] \<and>
   is_running (app_st (tk_step (boot demo_env NoFile) start_timer))"
proof -
  have "enabled Ev_Start (app_st (boot demo_env NoFile))"
    by (simp add: boot_def init_demo create_ui_def)
  then have "sys_step demo_env (boot demo_env NoFile) (tk_step (boot demo_env NoFile) start_timer)"
    using tk_user [where ev = Ev_Start and S = "boot demo_env NoFile" and E = demo_env] by simp
  then have h: "reachable demo_env NoFile (tk_step (boot demo_env NoFile) start_timer)"
    unfolding reachable_def by (rule r_into_rtranclp)
  have t: "threads (tk_step (boot demo_env NoFile) start_timer) \<noteq> []"
    by (simp add: tk_step_start boot_def init_stopped)
  show ?thesis using h t one_loop_thread [OF h] by blast
qed

theorem stranded_forever_witness:
  "stranded \<lparr>app_st = demo_counting, threads = [], queue = [], trace = []\<rparr> \<and>
   (sys_step demo_env)\<^sup>*\<^sup>* \<lparr>app_st = demo_counting, threads = [], queue = [], trace = []\<rparr>
     (tk_step \<lparr>app_st = demo_counting, threads = [], queue = [], trace = []\<rparr> (modify_act pause_timer)) \<and>
   stranded (tk_step \<lparr>app_st = demo_counting, threads = [], queue = [], trace = []\<rparr> (modify_act pause_timer)) \<and>
   current_time (app_st (tk_step \<lparr>app_st = demo_counting, threads = [], queue = [], trace = []\<rparr>
     (modify_act pause_timer))) = 12"
proof -
  let ?S = "\<lparr>app_st = demo_counting, threads = [], queue = [], trace = []\<rparr>"
  have h1: "stranded ?S" by (simp add: stranded_def demo_defs)
  have "sys_step demo_env ?S (tk_step ?S (modify_act pause_timer))"
    using tk_user [where ev = Ev_Pause and S = ?S and E = demo_env] by (simp add: demo_defs)
  then have h2: "(sys_step demo_env)\<^sup>*\<^sup>* ?S (tk_step ?S (modify_act pause_timer))"
    by (rule r_into_rtranclp)
  have "current_time (app_st ?S) = 12" by (simp add: demo_defs)
  then show ?thesis using h1 h2 stranded_forever [OF h1 h2] by simp
qed

theorem timer_loop_bounded_witness:
  "is_running demo_counting \<and> \<not> is_paused demo_counting \<and> current_time demo_counting = int 12 \<and>
   timer_loop demo_env demo_counting =
     Some (seq_act (repeat_act 12 (loop_iteration demo_env)) (emit_act (Post CB_TimerFinished))
             demo_counting)"
proof -
  have h: "is_running demo_counting" "\<not> is_paused demo_counting" "current_time demo_counting = int 12"
    by (simp_all add: demo_defs)
  show ?thesis using h timer_loop_bounded [OF h] by blast
qed

theorem count_type_invariant_witness:
  "cfg_count_ok (Holds (JObj [(''pomodoro_count'', JInt 3)])) \<and>
   reachable demo_env (Holds (JObj [(''pomodoro_count'', JInt 3)]))
     (boot demo_env (Holds (JObj [(''pomodoro_count'', JInt 3)]))) \<and>
   (\<exists>n. pomodoro_count (app_st (boot demo_env (Holds (JObj [(''pomodoro_count'', JInt 3)])))) = JInt n \<and>
        0 \<le> n)"
proof -
  have h1: "cfg_count_ok (Holds (JObj [(''pomodoro_count'', JInt 3)]))" by (simp add: dict_get_def)
  have h2: "reachable demo_env (Holds (JObj [(''pomodoro_count'', JInt 3)]))
              (boot demo_env (Holds (JObj [(''pomodoro_count'', JInt 3)])))"
    by (simp add: reachable_def)
  show ?thesis using h1 h2 count_type_invariant [OF h1 h2] by blast
qed

lemma demo_glob: "glob_spec demo_listing = [''Pomodoro.spec'']"
  by (simp add: glob_spec_def spec_match_def demo_listing_def suffix_to_prefix lower_ascii_def)

theorem clean_removes_artifacts_witness:
  "distinct (map fst (entries demo_listing)) \<and>
   map_of (entries demo_listing) ''build'' = Some Dir \<and> \<not> rmtree_fails demo_benv ''build'' \<and>
   map_of (entries demo_listing) ''dist'' = Some Dir \<and> \<not> rmtree_fails demo_benv ''dist'' \<and>
   map_of (entries demo_listing) ''__pycache__'' = None \<and>
   \<not> rmtree_fails demo_benv ''__pycache__'' \<and>
   glob_spec demo_listing = [''Pomodoro.spec''] \<and>
   map_of (entries demo_listing) ''Pomodoro.spec'' = Some File \<and>
   outcome (clean_build_files demo_benv demo_listing) = Inr () \<and>
   entries (final (clean_build_files demo_benv demo_listing)) =
     filter (\<lambda>e. fst e \<notin> set build_dirs \<and> \<not> spec_match (fst e)) (entries demo_listing)"
proof -
  have h: "distinct (map fst (entries demo_listing))"
    "\<forall>d\<in>set build_dirs. map_of (entries demo_listing) d \<noteq> Some File \<and> \<not> rmtree_fails demo_benv d"
    "\<forall>f\<in>set (glob_spec demo_listing). map_of (entries demo_listing) f = Some File"
    by (simp_all add: demo_glob) (simp_all add: build_demo_defs)
  have c: "map_of (entries demo_listing) ''build'' = Some Dir" "\<not> rmtree_fails demo_benv ''build''"
    "map_of (entries demo_listing) ''dist'' = Some Dir" "\<not> rmtree_fails demo_benv ''dist''"
    "map_of (entries demo_listing) ''__pycache__'' = None" "\<not> rmtree_fails demo_benv ''__pycache__''"
    "map_of (entries demo_listing) ''Pomodoro.spec'' = Some File"
    by (simp_all add: build_demo_defs)
  show ?thesis using h c demo_glob clean_removes_artifacts [OF h] by blast
qed

theorem build_main_runs_pyinstaller_witness:
  "has_pyinstaller demo_benv \<and> run_result demo_benv = Run_Ok \<and>
   outcome (clean_build_files demo_benv demo_listing) = Inr () \<and>
   outcome (build_main demo_benv demo_listing) = Inr () \<and>
   count_list (effects (build_main demo_benv demo_listing)) (RunPyInstaller pyinstaller_cmd) = 1 \<and>
   BPrint M_Done \<in> set (effects (build_main demo_benv demo_listing)) \<and>
   last (effects (build_main demo_benv demo_listing)) = WaitEnter"
proof -
  have h: "has_pyinstaller demo_benv" "run_result demo_benv = Run_Ok"
    "outcome (clean_build_files demo_benv demo_listing) = Inr ()"
    by (simp_all add: demo_benv_def demo_listing_def clean_build_files_def remove_dir_def
        remove_file_def glob_spec_def spec_match_def suffix_to_prefix lower_ascii_def act_simps)
  show ?thesis using h build_main_runs_pyinstaller [OF h] by blast
qed

theorem build_skipped_without_pyinstaller_witness:
  "\<not> has_pyinstaller (demo_benv\<lparr>has_pyinstaller := False, pip_result := Pip_Fails\<rparr>) \<and>
   pip_result (demo_benv\<lparr>has_pyinstaller := False, pip_result := Pip_Fails\<rparr>) = Pip_Fails \<and>
   build_main (demo_benv\<lparr>has_pyinstaller := False, pip_result := Pip_Fails\<rparr>) demo_listing =
     (Inr (), demo_listing, [BPrint M_Header, BPrint M_PyiMissing, PipInstall,
                             BPrint M_PyiInstallFailed, WaitEnter])"
proof -
  have h: "\<not> has_pyinstaller (demo_benv\<lparr>has_pyinstaller := False, pip_result := Pip_Fails\<rparr>)"
    "pip_result (demo_benv\<lparr>has_pyinstaller := False, pip_result := Pip_Fails\<rparr>) = Pip_Fails"
    by simp_all
  show ?thesis using h build_skipped_without_pyinstaller [OF h] by blast
qed

theorem clean_error_skips_pause_witness:
  "has_pyinstaller demo_benv \<and> map_of (entries \<lparr>entries = [(''build'', File)]\<rparr>) ''build'' = Some File \<and>
   outcome (build_main demo_benv \<lparr>entries = [(''build'', File)]\<rparr>) = Inl B_OSError \<and>
   WaitEnter \<notin> set (effects (build_main demo_benv \<lparr>entries = [(''build'', File)]\<rparr>)) \<and>
   RunPyInstaller pyinstaller_cmd \<notin> set (effects (build_main demo_benv \<lparr>entries = [(''build'', File)]\<rparr>))"
proof -
  have h: "has_pyinstaller demo_benv" "map_of (entries \<lparr>entries = [(''build'', File)]\<rparr>) ''build'' = Some File"
    by (simp_all add: demo_benv_def)
  show ?thesis using h clean_error_skips_pause [OF h] by blast
qed

theorem select_shows_file_name_witness:
  "wallpaper_label (final (select_wallpaper demo_env ''C:/pics/sea.jpg'' demo_running)) = Chosen ''sea.jpg'' \<and>
   ringtone_label (final (select_ringtone demo_env (''D:'' @ CHR 0x5C # ''bell.wav'') demo_running)) = Chosen ''bell.wav''"
proof -
  have "''C:/pics/sea.jpg'' \<noteq> []" "(''D:'' @ CHR 0x5C # ''bell.wav'') \<noteq> []" by simp_all
  then show ?thesis
    using select_shows_file_name [of "''C:/pics/sea.jpg''" demo_env demo_running]
      select_shows_file_name [of "(''D:'' @ CHR 0x5C # ''bell.wav'')" demo_env demo_running]
    by (simp add: basename_str_def drive_tail_def is_sep_def)
qed

theorem failed_capture_unrestorable_witness:
  "original_wallpaper (final (init_timer demo_no_wallpaper NoFile initial_attrs)) = JStr [] \<and>
   restore_wallpaper demo_no_wallpaper (final (init_timer demo_no_wallpaper NoFile initial_attrs)) =
     (Inr (), final (init_timer demo_no_wallpaper NoFile initial_attrs), [MsgBox Warn Msg_NoOriginal])"
  using failed_capture_unrestorable [of demo_no_wallpaper NoFile]
  by (simp add: demo_no_wallpaper_def Let_def)

theorem original_captured_once_witness:
  "reachable demo_env NoFile (tk_step (boot demo_env NoFile) (handler demo_env (Ev_SelectWallpaper ''C:/pics/sea.jpg''))) \<and>
   original_wallpaper (app_st (tk_step (boot demo_env NoFile)
     (handler demo_env (Ev_SelectWallpaper ''C:/pics/sea.jpg'')))) = JStr ''C:/wall.jpg''"
proof -
  have h: "reachable demo_env NoFile
      (tk_step (boot demo_env NoFile) (handler demo_env (Ev_SelectWallpaper ''C:/pics/sea.jpg'')))"
    unfolding reachable_def by (rule r_into_rtranclp, rule tk_user) simp
  show ?thesis
    using h original_captured_once [OF h] by (simp add: init_demo(1) create_ui_def)
qed

theorem labels_show_stored_file_witness:
  "reachable demo_env NoFile (tk_step (boot demo_env NoFile) (handler demo_env (Ev_SelectWallpaper ''C:/pics/sea.jpg''))) \<and>
   label_names (wallpaper_label (app_st (tk_step (boot demo_env NoFile)
     (handler demo_env (Ev_SelectWallpaper ''C:/pics/sea.jpg'')))))
     (wallpaper_path (app_st (tk_step (boot demo_env NoFile)
     (handler demo_env (Ev_SelectWallpaper ''C:/pics/sea.jpg'')))))"
proof -
  have h: "reachable demo_env NoFile
      (tk_step (boot demo_env NoFile) (handler demo_env (Ev_SelectWallpaper ''C:/pics/sea.jpg'')))"
    unfolding reachable_def by (rule r_into_rtranclp, rule tk_user) simp
  show ?thesis using h labels_show_stored_file [OF h] by blast
qed

theorem pause_in_last_second_witness:
  "\<exists>S. reachable demo_env NoFile S \<and> threads S = [At_Sleep] \<and> current_time (app_st S) = 1 \<and>
       \<not> is_paused (app_st S) \<and> pause_button (app_st S) = Normal \<and>
       is_paused (app_st (tk_step S (handler demo_env Ev_Pause)))"
proof -
  let ?s0 = "final (init_timer demo_env NoFile initial_attrs)"
  let ?tr0 = "effects (init_timer demo_env NoFile initial_attrs)"
  have s0: "\<not> is_running ?s0" "start_button ?s0 = Normal" "current_time ?s0 = int (1499 + 1)"
    "exists_ok demo_env (ringtone_path ?s0) \<or> 10 < (1::nat)"
    unfolding init_demo by (simp_all add: create_ui_def initial_attrs_def demo_env_answers)
  let ?a = "?s0\<lparr>is_running := True, is_paused := False, start_button := Disabled,
              pause_button := Normal, reset_button := Disabled, current_time := int 1\<rparr>"
  obtain tr1 where r1: "(sys_step demo_env)\<^sup>*\<^sup>* (boot demo_env NoFile)
      \<lparr>app_st = ?a, threads = [At_Test], queue = [] @ replicate 1499 CB_UpdateDisplay, trace = tr1\<rparr>"
    using start_and_count [where q = "[]" and tr = ?tr0, OF s0] unfolding boot_def by blast
  let ?S = "\<lparr>app_st = ?a, threads = [At_Sleep], queue = [] @ replicate 1499 CB_UpdateDisplay,
             trace = tr1 @ [Sleep 1000]\<rparr>"
  have "sys_step demo_env
      \<lparr>app_st = ?a, threads = [At_Test], queue = [] @ replicate 1499 CB_UpdateDisplay, trace = tr1\<rparr> ?S"
    using loop_enter_single [where E = demo_env and
        S = "\<lparr>app_st = ?a, threads = [At_Test], queue = [] @ replicate 1499 CB_UpdateDisplay, trace = tr1\<rparr>"]
    by simp
  with r1 have h: "reachable demo_env NoFile ?S"
    unfolding reachable_def by (rule rtranclp.rtrancl_into_rtrancl)
  have h2: "threads ?S = [At_Sleep]" "current_time (app_st ?S) = 1" "\<not> is_paused (app_st ?S)"
    "pause_button (app_st ?S) = Normal"
    by simp_all
  show ?thesis using h h2 Threads.pause_in_last_second [OF h h2] by blast
qed

lemma boot_demo_idle:
  "\<not> is_running (app_st (boot demo_env NoFile))" "start_button (app_st (boot demo_env NoFile)) = Normal"
  unfolding boot_def init_demo by (simp_all add: create_ui_def initial_attrs_def)

theorem progress_in_range_witness:
  "reachable demo_env NoFile (tk_step (boot demo_env NoFile) (handler demo_env Ev_Start)) \<and>
   progress_var (app_st (tk_step (boot demo_env NoFile) (handler demo_env Ev_Start))) \<le> 100 \<and>
   (progress_var (update_display (app_st (tk_step (boot demo_env NoFile) (handler demo_env Ev_Start)))) = 0
      \<longleftrightarrow> current_time (app_st (tk_step (boot demo_env NoFile) (handler demo_env Ev_Start))) =
          duration_of (app_st (tk_step (boot demo_env NoFile) (handler demo_env Ev_Start)))
            (mode (app_st (tk_step (boot demo_env NoFile) (handler demo_env Ev_Start)))))"
proof -
  have h: "reachable demo_env NoFile (tk_step (boot demo_env NoFile) (handler demo_env Ev_Start))"
    unfolding reachable_def by (rule r_into_rtranclp, rule tk_user) (simp add: boot_demo_idle)
  show ?thesis using h Invariants.progress_in_range [OF h] by blast
qed

theorem period_completes_witness:
  "reachable demo_env NoFile (tk_step (boot demo_env NoFile) (handler demo_env Ev_Start)) \<and>
   threads (tk_step (boot demo_env NoFile) (handler demo_env Ev_Start)) = [At_Test] \<and>
   \<not> is_paused (app_st (tk_step (boot demo_env NoFile) (handler demo_env Ev_Start))) \<and>
   exists_ok demo_env (ringtone_path (app_st (tk_step (boot demo_env NoFile) (handler demo_env Ev_Start)))) \<and>
   (\<exists>S'. (sys_step demo_env)\<^sup>*\<^sup>* (tk_step (boot demo_env NoFile) (handler demo_env Ev_Start)) S' \<and>
      threads S' = [] \<and> queue S' = [] \<and> \<not> is_running (app_st S'))"
proof -
  note b = boot_demo_idle
  have h: "reachable demo_env NoFile (tk_step (boot demo_env NoFile) (handler demo_env Ev_Start))"
    unfolding reachable_def by (rule r_into_rtranclp, rule tk_user) (simp add: b)
  have h2: "threads (tk_step (boot demo_env NoFile) (handler demo_env Ev_Start)) = [At_Test]"
    "\<not> is_paused (app_st (tk_step (boot demo_env NoFile) (handler demo_env Ev_Start)))"
    "exists_ok demo_env (ringtone_path (app_st (tk_step (boot demo_env NoFile) (handler demo_env Ev_Start))))"
    using b by (simp_all add: tk_step_start boot_def demo_env_answers)
  show ?thesis using h h2 Invariants.period_completes [OF h h2] by blast
qed

theorem close_persists_witness:
  "write_result demo_env = Write_Ok \<and>
   Destroy \<in> set (effects (on_closing demo_env True demo_running)) \<and>
   pomodoro_count (final (load_config (config_file (apply_world demo_world
      (effects (on_closing demo_env True demo_running)))) initial_attrs)) = JInt 3"
proof -
  have h: "write_result demo_env = Write_Ok" by (simp add: demo_defs)
  show ?thesis
    using Persistence.close_persists [OF h, where ok = True and s = demo_running and w = demo_world]
    by (simp add: demo_defs Let_def)
qed

theorem restore_sets_captured_witness:
  "restore_wallpaper demo_env (app_st (tk_step (boot demo_env NoFile) (handler demo_env Ev_Start))) =
     (Inr (), app_st (tk_step (boot demo_env NoFile) (handler demo_env Ev_Start)),
      [SetWallpaper (JStr ''C:/wall.jpg''), MsgBox Info Msg_WallpaperRestored])"
proof -
  have h: "reachable demo_env NoFile (tk_step (boot demo_env NoFile) (handler demo_env Ev_Start))"
    unfolding reachable_def by (rule r_into_rtranclp, rule tk_user) (simp add: boot_demo_idle)
  have h2: "desktop_wallpaper demo_env = Inr (True, ''C:/wall.jpg'')"
    "buffer_value ''C:/wall.jpg'' \<noteq> []" "spi_set demo_env (JStr (buffer_value ''C:/wall.jpg'')) = SPI_True"
    by (simp_all add: demo_env_def buffer_value_def MAX_PATH_def)
  have b: "buffer_value ''C:/wall.jpg'' = ''C:/wall.jpg''" by (simp add: buffer_value_def MAX_PATH_def)
  show ?thesis using Labels.restore_sets_captured [OF h h2] unfolding b .
qed

end
